(* ===== verification/Prelude.thy ===== *)
theory Prelude
  imports Complex_Main "HOL-Library.Char_ord" "HOL-Library.List_Lexorder"
begin

text \<open>
  Shared vocabulary of the Evora development: the JavaScript primitives that the
  components under \<open>src/src/components\<close> and \<open>src/src/services\<close> call
  (\<open>Array.prototype.findIndex\<close>, the conditional \<open>map\<close> that every
  "update the element with this id" handler uses, \<open>slice\<close> with a negative start,
  \<open>Math.round\<close> on a quotient, number-to-string with \<open>padStart\<close>, \<open>trim\<close>),
  each with the lemmas the component theories use, and the named collections
  \<open>js_simps\<close> (evaluation rules of these primitives) and \<open>reach_intros\<close>
  (introduction rules of the components' reachability relations).
  JavaScript numbers that only ever hold integers in this program are modelled as \<open>int\<close>;
  ISO date strings \<open>YYYY-MM-DD\<close> as \<open>string\<close>, ordered lexicographically by character
  code (\<open>List_Lexorder\<close>, \<open>Char_ord\<close>), which is what \<open>localeCompare\<close> gives on
  date strings of this fixed format.
\<close>

named_theorems js_simps "evaluation rules of the JavaScript primitives"
named_theorems reach_intros "introduction rules of the reachability relations"

type_synonym js_date = string
type_synonym item_id = string

text \<open>A thrown JavaScript exception, with the message or the failing access.\<close>

datatype js_error = TypeError string | Error string

section \<open>\<open>findIndex\<close> and \<open>find\<close>\<close>

text \<open>\<open>xs.findIndex(p)\<close>: the first index whose element satisfies \<open>p\<close>;
  the source's \<open>-1\<close> is \<open>None\<close>. \<open>xs.find(p)\<close> is \<open>List.find\<close>.\<close>

fun find_index :: "('a \<Rightarrow> bool) \<Rightarrow> 'a list \<Rightarrow> nat option" where
  "find_index p [] = None"
| "find_index p (x # xs) = (if p x then Some 0 else map_option Suc (find_index p xs))"

section \<open>The conditional map of the update handlers\<close>

text \<open>\<open>xs.map(x => p(x) ? f(x) : x)\<close>.\<close>

definition map_where :: "('a \<Rightarrow> bool) \<Rightarrow> ('a \<Rightarrow> 'a) \<Rightarrow> 'a list \<Rightarrow> 'a list" where
  "map_where p f xs = map (\<lambda>x. if p x then f x else x) xs"

section \<open>\<open>slice\<close> with one argument\<close>

text \<open>\<open>xs.slice(start)\<close>: a negative start counts from the end and is clamped at 0;
  \<open>slice(-0)\<close> is \<open>slice(0)\<close>.\<close>

definition js_slice_from :: "int \<Rightarrow> 'a list \<Rightarrow> 'a list" where
  "js_slice_from start xs =
     (let n = int (length xs);
          k = (if start < 0 then max (n + start) 0 else min start n)
      in drop (nat k) xs)"

section \<open>\<open>Math.round\<close> of a quotient\<close>

text \<open>\<open>Math.round(a / b)\<close> for \<open>b > 0\<close>: the floor of \<open>a / b + 1/2\<close>, computed exactly.\<close>

definition js_round_div :: "int \<Rightarrow> int \<Rightarrow> int" where
  "js_round_div a b = (2 * a + b) div (2 * b)"

section \<open>The remainder operator\<close>

text \<open>\<open>a % b\<close> truncates: the result has the sign of the dividend (\<open>-301 % 60 = -1\<close>),
  unlike HOL's \<open>mod\<close> on \<open>int\<close>.\<close>

definition js_rem :: "int \<Rightarrow> int \<Rightarrow> int" where
  "js_rem a b = sgn a * (\<bar>a\<bar> mod \<bar>b\<bar>)"

section \<open>Numbers as decimal strings, \<open>padStart\<close>\<close>

definition digit_char :: "nat \<Rightarrow> char" where
  "digit_char d = char_of (48 + d)"

definition char_digit :: "char \<Rightarrow> nat" where
  "char_digit c = of_char c - 48"

fun dec_string :: "nat \<Rightarrow> string" where
  "dec_string n = (if n < 10 then [digit_char n] else dec_string (n div 10) @ [digit_char (n mod 10)])"

declare dec_string.simps [simp del]

text \<open>\<open>n.toString()\<close> for an integral number.\<close>

definition js_int_string :: "int \<Rightarrow> string" where
  "js_int_string i = (if i < 0 then CHR ''-'' # dec_string (nat (- i)) else dec_string (nat i))"

text \<open>\<open>s.padStart(n, c)\<close> with a one-character pad.\<close>

definition pad_start :: "nat \<Rightarrow> char \<Rightarrow> string \<Rightarrow> string" where
  "pad_start n c s = replicate (n - length s) c @ s"

text \<open>\<open>x.toFixed(1)\<close> of a number given as its integer count of tenths.\<close>

definition js_fixed1 :: "int \<Rightarrow> string" where
  "js_fixed1 t = (if t < 0 then ''-'' else []) @ dec_string (nat \<bar>t\<bar> div 10) @ ''.'' @ [digit_char (nat \<bar>t\<bar> mod 10)]"

text \<open>Reading a string of decimal digits back (the inverse used in round-trip lemmas).\<close>

definition dec_value :: "string \<Rightarrow> nat" where
  "dec_value s = foldl (\<lambda>acc c. 10 * acc + char_digit c) 0 s"

section \<open>\<open>trim\<close>\<close>

text \<open>The white space that \<open>String.prototype.trim\<close> removes, restricted to the
  eight-bit characters of HOL strings (tab, line feed, vertical tab, form feed, carriage
  return, space, no-break space).\<close>

definition js_ws :: "char \<Rightarrow> bool" where
  "js_ws c \<longleftrightarrow> of_char c \<in> {9, 10, 11, 12, 13, 32, 160 :: nat}"

definition js_trim :: "string \<Rightarrow> string" where
  "js_trim s = rev (dropWhile js_ws (rev (dropWhile js_ws s)))"

section \<open>Lemmas\<close>

lemma find_index_Some:
  "find_index p xs = Some i \<Longrightarrow> i < length xs \<and> p (xs ! i) \<and> (\<forall>j < i. \<not> p (xs ! j))"
proof (induction xs arbitrary: i)
  case Nil
  then show ?case by simp
next
  case (Cons x xs)
  show ?case
  proof (cases "p x")
    case True
    with Cons.prems show ?thesis by simp
  next
    case False
    with Cons.prems obtain k where k: "find_index p xs = Some k" and i: "i = Suc k"
      by auto
    from Cons.IH [OF k] False i show ?thesis
      by (auto simp: less_Suc_eq_0_disj)
  qed
qed

lemma find_index_None [simp]: "find_index p xs = None \<longleftrightarrow> (\<forall>x \<in> set xs. \<not> p x)"
  by (induction xs) auto

lemma find_index_Some_nth:
  "find_index p xs = Some i \<Longrightarrow> i < length xs" "find_index p xs = Some i \<Longrightarrow> p (xs ! i)"
  using find_index_Some by blast+

lemma length_map_where [simp]: "length (map_where p f xs) = length xs"
  by (simp add: map_where_def)

lemma map_where_Nil [simp, js_simps]: "map_where p f [] = []"
  by (simp add: map_where_def)

lemma map_where_Cons [simp, js_simps]:
  "map_where p f (x # xs) = (if p x then f x else x) # map_where p f xs"
  by (simp add: map_where_def)

lemma map_where_nth:
  "i < length xs \<Longrightarrow> map_where p f xs ! i = (if p (xs ! i) then f (xs ! i) else xs ! i)"
  by (simp add: map_where_def)

lemma map_where_id_if [simp]: "\<forall>x \<in> set xs. \<not> p x \<Longrightarrow> map_where p f xs = xs"
  by (induction xs) auto

lemma map_where_twice:
  "(\<And>x. p (f x) = p x) \<Longrightarrow> map_where p g (map_where p f xs) = map_where p (g \<circ> f) xs"
  by (induction xs) auto

lemma map_where_map_key:
  "(\<And>x. k (f x) = k x) \<Longrightarrow> map k (map_where p f xs) = map k xs"
  by (induction xs) auto

lemma js_slice_from_nonneg [js_simps]:
  "0 \<le> start \<Longrightarrow> js_slice_from start xs = drop (nat start) xs"
  by (auto simp: js_slice_from_def Let_def min_def nat_le_iff intro: drop_all)

lemma js_slice_from_neg [js_simps]:
  "start < 0 \<Longrightarrow> js_slice_from start xs = drop (length xs - nat (- start)) xs"
proof -
  assume neg: "start < 0"
  have "nat (max (int (length xs) + start) 0) = length xs - nat (- start)"
    using neg by linarith
  with neg show ?thesis by (simp add: js_slice_from_def Let_def)
qed

lemma length_js_slice_from_neg:
  "start < 0 \<Longrightarrow> length (js_slice_from start xs) = min (nat (- start)) (length xs)"
  by (simp add: js_slice_from_neg)

lemma int_div_less_of_less_mult:
  fixes x d k :: int
  assumes d: "0 < d" and h: "x < k * d"
  shows "x div d < k"
proof -
  have "x div d * d + x mod d = x" by (rule div_mult_mod_eq)
  moreover have "0 \<le> x mod d" using d by simp
  ultimately have "x div d * d < k * d" using h by linarith
  then show ?thesis using d by (simp add: mult_less_cancel_right)
qed

lemma js_round_div_bounds:
  assumes "0 < b" "0 \<le> a" "a \<le> b * m"
  shows "0 \<le> js_round_div a b \<and> js_round_div a b \<le> m"
proof -
  have lo: "0 \<le> (2 * a + b) div (2 * b)"
    using assms by (simp add: pos_imp_zdiv_nonneg_iff)
  have "2 * a + b < (m + 1) * (2 * b)"
    using assms by (simp add: algebra_simps)
  moreover have "0 < 2 * b"
    using assms by simp
  ultimately have "(2 * a + b) div (2 * b) < m + 1"
    by (rule int_div_less_of_less_mult [rotated])
  with lo show ?thesis by (simp add: js_round_div_def)
qed

lemma js_round_div_mono:
  "0 < b \<Longrightarrow> a \<le> a' \<Longrightarrow> js_round_div a b \<le> js_round_div a' b"
  by (simp add: js_round_div_def zdiv_mono1)

lemma js_rem_nonneg [js_simps]: "0 \<le> a \<Longrightarrow> 0 < b \<Longrightarrow> js_rem a b = a mod b"
  by (cases "a = 0") (simp_all add: js_rem_def)

lemma char_digit_digit_char [simp]: "d < 10 \<Longrightarrow> char_digit (digit_char d) = d"
  by (simp add: char_digit_def digit_char_def)

lemma dec_value_append_digit [simp]:
  "dec_value (s @ [c]) = 10 * dec_value s + char_digit c"
  by (simp add: dec_value_def)

lemma dec_value_dec_string: "dec_value (dec_string n) = n"
proof (induction n rule: dec_string.induct)
  case (1 n)
  show ?case
  proof (cases "n < 10")
    case True
    then show ?thesis by (simp add: dec_string.simps [of n] dec_value_def)
  next
    case False
    with "1.IH" show ?thesis by (simp add: dec_string.simps [of n])
  qed
qed

lemma length_dec_string_small: "n < 10 \<Longrightarrow> length (dec_string n) = 1"
  by (simp add: dec_string.simps [of n])

lemma length_dec_string_two: "10 \<le> n \<Longrightarrow> n < 100 \<Longrightarrow> length (dec_string n) = 2"
  by (simp add: dec_string.simps [of n] length_dec_string_small)

lemma dec_value_replicate_zero [simp]: "dec_value (replicate k CHR ''0'' @ s) = dec_value s"
proof (induction k)
  case 0
  then show ?case by simp
next
  case (Suc k)
  have "dec_value (replicate (Suc k) CHR ''0'' @ s) = foldl (\<lambda>acc c. 10 * acc + char_digit c) 0 (replicate k CHR ''0'' @ s)"
    by (simp add: dec_value_def char_digit_def)
  with Suc show ?case by (simp add: dec_value_def)
qed

lemma dec_value_pad_start [simp]: "dec_value (pad_start n CHR ''0'' s) = dec_value s"
  by (simp add: pad_start_def)

lemma length_pad_start: "length (pad_start n c s) = max n (length s)"
  by (simp add: pad_start_def)

lemma js_trim_empty_iff: "js_trim s = [] \<longleftrightarrow> (\<forall>c \<in> set s. js_ws c)"
  by (induction s) (auto simp: js_trim_def dropWhile_eq_Nil_conv)

lemma map_update_same_key:
  "i < length xs \<Longrightarrow> f x = f (xs ! i) \<Longrightarrow> map f (xs[i := x]) = map f xs"
  by (metis list_update_id map_update)

lemma distinct_map_sort_key:
  "distinct (map f (sort_key g xs)) \<longleftrightarrow> distinct (map f xs)"
  by (simp add: distinct_map)

lemma find_conv_filter: "find P xs = (case filter P xs of [] \<Rightarrow> None | x # _ \<Rightarrow> Some x)"
  by (induction xs) auto

lemma find_update_found:
  "find_index P xs = Some i \<Longrightarrow> P x \<Longrightarrow> find P (xs[i := x]) = Some x"
proof (induction xs arbitrary: i)
  case Nil
  then show ?case by simp
next
  case (Cons y ys)
  show ?case
  proof (cases "P y")
    case True
    with Cons.prems show ?thesis by simp
  next
    case False
    with Cons.prems obtain k where "find_index P ys = Some k" "i = Suc k" by auto
    with Cons.IH Cons.prems False show ?thesis by simp
  qed
qed

lemma filter_update_other:
  "i < length xs \<Longrightarrow> \<not> P x \<Longrightarrow> \<not> P (xs ! i) \<Longrightarrow> filter P (xs[i := x]) = filter P xs"
proof (induction xs arbitrary: i)
  case Nil
  then show ?case by simp
next
  case (Cons y ys)
  then show ?case by (cases i) auto
qed

lemma sum_list_bounds:
  fixes f :: "'a \<Rightarrow> int"
  shows "\<forall>e \<in> set xs. a \<le> f e \<and> f e \<le> b \<Longrightarrow>
     a * int (length xs) \<le> sum_list (map f xs) \<and> sum_list (map f xs) \<le> b * int (length xs)"
  by (induction xs) (auto simp: algebra_simps)

lemma js_round_div_exact: "0 < b \<Longrightarrow> js_round_div (k * b) b = k"
proof -
  assume b: "0 < b"
  have "2 * (k * b) + b = (2 * k + 1) * b" by (simp add: algebra_simps)
  moreover have "(2 * k + 1) * b div (2 * b) = k"
  proof -
    have "(2 * k + 1) * b = k * (2 * b) + b" by (simp add: algebra_simps)
    moreover have "b div (2 * b) = 0" using b by simp
    ultimately show ?thesis using b by simp
  qed
  ultimately show ?thesis by (simp add: js_round_div_def)
qed

lemma filter_key_distinct:
  "distinct (map f xs) \<Longrightarrow> i < length xs \<Longrightarrow> filter (\<lambda>s. f s = f (xs ! i)) xs = [xs ! i]"
proof (induction xs arbitrary: i)
  case Nil
  then show ?case by simp
next
  case (Cons y ys)
  show ?case
  proof (cases i)
    case 0
    with Cons.prems have "\<forall>z \<in> set ys. f z \<noteq> f y" by (auto simp: image_iff)
    with 0 show ?thesis by (simp add: filter_empty_conv)
  next
    case (Suc j)
    with Cons.prems have "ys ! j \<in> set ys" by simp
    with Cons.prems have "f y \<noteq> f (ys ! j)" by force
    with Suc Cons show ?thesis by simp
  qed
qed

lemma filter_key_update:
  assumes "distinct (map f xs)" "i < length xs" "f x = f (xs ! i)"
  shows "filter (\<lambda>s. f s = f x) (xs[i := x]) = [x]"
proof -
  have "distinct (map f (xs[i := x]))" using assms by (simp add: map_update_same_key)
  from filter_key_distinct [OF this, of i] assms show ?thesis by simp
qed

text \<open>Association lists keyed by a field: replacing the entry of a key in place, and
  appending an entry for a fresh key, both update the map the list represents.\<close>

lemma map_of_update_key:
  "distinct (map fst xs) \<Longrightarrow> i < length xs \<Longrightarrow> fst (xs ! i) = k \<Longrightarrow>
   map_of (xs[i := (k, v)]) = (map_of xs)(k \<mapsto> v)"
proof (induction xs arbitrary: i)
  case Nil
  then show ?case by simp
next
  case (Cons x xs)
  show ?case
  proof (cases i)
    case 0
    with Cons.prems show ?thesis by (auto simp: fun_eq_iff)
  next
    case (Suc j)
    with Cons.prems have "fst x \<noteq> k" by (auto simp: nth_mem)
    with Cons Suc show ?thesis by (auto simp: fun_eq_iff)
  qed
qed

lemma map_of_snoc_fresh:
  "k \<notin> set (map fst xs) \<Longrightarrow> map_of (xs @ [(k, v)]) = (map_of xs)(k \<mapsto> v)"
  by (induction xs) (auto simp: fun_eq_iff)

lemma set_js_slice_from: "set (js_slice_from start xs) \<subseteq> set xs"
  by (cases "start < 0") (auto simp: js_slice_from_neg js_slice_from_def Let_def dest: in_set_dropD)

end
