(* ===== verification/PixelPet.thy ===== *)
theory PixelPet
  imports Prelude
begin

text \<open>
  The pet catalogue of \<open>src/src/components/PixelPet.tsx\<close>: the six pet kinds
  (\<open>PetType\<close>), their descriptions (\<open>petInfo\<close>), the size classes and the caption the
  \<open>PixelPet\<close> component renders under the sprite, and the sprite \<open>getPixelArt\<close>
  draws (an image URL, a CSS sprite class or the placeholder; the CSS itself is not modelled). The
  pet type reaches the component as a string, so the lookup in \<open>petInfo\<close> is
  \<open>petInfo_get\<close>, partial on strings.
\<close>

datatype pet_type = Luna | Hoot | Cocoa | Sage | Ember | Azure

datatype pet_mood = Happy | Working | Sleeping | Excited

datatype pet_size = Sm | Md | Lg

record pet_info =
  info_name :: string
  species :: string
  workingActivity :: string
  personality :: string

fun petInfo :: "pet_type \<Rightarrow> pet_info" where
  "petInfo Luna = \<lparr>info_name = ''Luna'', species = ''Cat'',
     workingActivity = ''Typing on tiny keyboard'', personality = ''Curious and independent''\<rparr>"
| "petInfo Hoot = \<lparr>info_name = ''Hoot'', species = ''Owl'',
     workingActivity = ''Reading miniature books'', personality = ''Wise and studious''\<rparr>"
| "petInfo Cocoa = \<lparr>info_name = ''Cocoa'', species = ''Bunny'',
     workingActivity = ''Organizing papers with tiny paws'', personality = ''Energetic and helpful''\<rparr>"
| "petInfo Sage = \<lparr>info_name = ''Sage'', species = ''Dragon'',
     workingActivity = ''Breathing gentle focus flames'', personality = ''Mystical and protective''\<rparr>"
| "petInfo Ember = \<lparr>info_name = ''Ember'', species = ''Fox'',
     workingActivity = ''Sketching in a notebook'', personality = ''Creative and clever''\<rparr>"
| "petInfo Azure = \<lparr>info_name = ''Azure'', species = ''Bird'',
     workingActivity = ''Flying around with messages'', personality = ''Free-spirited and encouraging''\<rparr>"

fun getSizeClasses :: "pet_size \<Rightarrow> string" where
  "getSizeClasses Sm = ''scale-75''"
| "getSizeClasses Lg = ''scale-150''"
| "getSizeClasses Md = ''scale-100''"

text \<open>The keys of the \<open>petInfo\<close> record object. Callers pass the pet type as a string
  (\<open>LoginPage\<close> passes \<open>"cat"\<close>, which is no key), so the lookup
  \<open>petInfo[type]\<close> is partial.\<close>

fun pet_key :: "pet_type \<Rightarrow> string" where
  "pet_key Luna = ''luna''"
| "pet_key Hoot = ''hoot''"
| "pet_key Cocoa = ''cocoa''"
| "pet_key Sage = ''sage''"
| "pet_key Ember = ''ember''"
| "pet_key Azure = ''azure''"

definition petInfo_get :: "string \<Rightarrow> pet_info option" where
  "petInfo_get k = map_option petInfo (find (\<lambda>t. pet_key t = k) [Luna, Hoot, Cocoa, Sage, Ember, Azure])"

text \<open>The caption under the sprite: name and species, omitted at size \<open>sm\<close>; a type
  missing from \<open>petInfo\<close> takes the safety branch ("Unknown Pet", "Unknown").\<close>

definition pixelPet_caption :: "string \<Rightarrow> pet_size \<Rightarrow> (string \<times> string) option" where
  "pixelPet_caption k sz =
     (case petInfo_get k of
        None \<Rightarrow> if sz \<noteq> Sm then Some (''Unknown Pet'', ''Unknown'') else None
      | Some pet \<Rightarrow> if sz \<noteq> Sm then Some (info_name pet, species pet) else None)"

text \<open>\<open>getPixelArt\<close>: a switch on the type string. Four kinds are animated GIFs (the
  image URL), two are drawn in CSS (the sprite's class), and any other string gets the grey
  placeholder circle; the mood is passed on as \<open>data-mood\<close> except by the placeholder.\<close>

datatype sprite = GifSprite string | CssSprite string | PlaceholderSprite

definition getPixelArt :: "string \<Rightarrow> pet_mood \<Rightarrow> sprite \<times> pet_mood option" where
  "getPixelArt k m =
     (if k = ''luna'' then (GifSprite ''https://64.media.tumblr.com/a71bc83661d3be8192c7d6cd62e2e966/tumblr_n3fc3rdi8a1rzn9vfo1_500.gif'', Some m)
      else if k = ''hoot'' then (GifSprite ''https://i.pinimg.com/originals/d3/6c/ec/d36cece974faf2eb660a0f688550035e.gif'', Some m)
      else if k = ''cocoa'' then (GifSprite ''https://31.media.tumblr.com/2524713a30add62d08fa5f7932713c54/tumblr_mqz5weqslL1rn7prko1_500.gif'', Some m)
      else if k = ''sage'' then (GifSprite ''https://i.redd.it/2m1uvab0zgd51.gif'', Some m)
      else if k = ''ember'' then (CssSprite ''pixel-pet-ember'', Some m)
      else if k = ''azure'' then (CssSprite ''pixel-pet-azure'', Some m)
      else (PlaceholderSprite, None))"

section \<open>Lemmas\<close>

text \<open>The sprite switch and the catalogue agree on the known kinds: a string draws the
  placeholder exactly when it is no key of \<open>petInfo\<close>, so the "Unknown Pet" caption and the
  grey circle always come together.\<close>

lemma getPixelArt_placeholder_iff:
  "fst (getPixelArt k m) = PlaceholderSprite \<longleftrightarrow> petInfo_get k = None"
  by (simp add: getPixelArt_def petInfo_get_def)

lemma petInfo_name_inj: "info_name (petInfo a) = info_name (petInfo b) \<longleftrightarrow> a = b"
  by (cases a; cases b) simp_all

end
