(* ===== verification/PetShop.thy ===== *)
theory PetShop
  imports PixelPet
begin

text \<open>
  The pet companion of \<open>src/src/components/Pet.tsx\<close>: its state (\<open>PetData\<close>, the
  badges, the selected pet kind, the active tab), the wardrobe shop
  (\<open>buyWardrobeItem\<close>, \<open>equipItem\<close>), \<open>changePetType\<close>, the shop rows that decide
  which button the user can press, and the \<open>PetDisplay\<close> render. The user's clicks are the step relation
  \<open>pet_step\<close>; its reachable states keep the shop invariant \<open>pet_inv\<close>: coins never
  negative, no item bought twice, only catalogue items owned, every equipped item owned
  and in its own slot, and coins plus the catalogue value of the wardrobe constant.
\<close>

section \<open>Catalogues\<close>

record pet_choice =
  choice_id :: pet_type
  choice_name :: string
  choice_color :: string

definition petTypes :: "pet_choice list" where
  "petTypes =
    [\<lparr>choice_id = Luna, choice_name = ''Luna the Cat'', choice_color = ''from-orange-300 to-yellow-300''\<rparr>,
     \<lparr>choice_id = Hoot, choice_name = ''Hoot the Owl'', choice_color = ''from-purple-300 to-blue-300''\<rparr>,
     \<lparr>choice_id = Cocoa, choice_name = ''Cocoa the Bunny'', choice_color = ''from-pink-300 to-red-300''\<rparr>,
     \<lparr>choice_id = Sage, choice_name = ''Sage the Dragon'', choice_color = ''from-green-300 to-teal-300''\<rparr>,
     \<lparr>choice_id = Ember, choice_name = ''Ember the Fox'', choice_color = ''from-red-300 to-orange-300''\<rparr>,
     \<lparr>choice_id = Azure, choice_name = ''Azure the Bird'', choice_color = ''from-blue-300 to-sky-300''\<rparr>]"

text \<open>\<open>petTypes.find(p => p.id === selectedPetType) || petTypes[0]\<close>.\<close>

definition currentPetType :: "pet_type \<Rightarrow> pet_choice" where
  "currentPetType sel =
     (case find (\<lambda>p. choice_id p = sel) petTypes of Some p \<Rightarrow> p | None \<Rightarrow> petTypes ! 0)"

text \<open>The wardrobe slots (\<open>'hat' | 'accessory' | 'background'\<close>) and the shop catalogue;
  the emoji of each item is display only and left out.\<close>

datatype slot = Hat | Accessory | Background

record wardrobe_item =
  wi_id :: item_id
  wi_name :: string
  wi_type :: slot
  wi_cost :: int
  wi_emoji :: string

definition wardrobeItems :: "wardrobe_item list" where
  "wardrobeItems =
    [\<lparr>wi_id = ''crown'', wi_name = ''Golden Crown'', wi_type = Hat, wi_cost = 100, wi_emoji = ''U+1F451''\<rparr>,
     \<lparr>wi_id = ''glasses'', wi_name = ''Smart Glasses'', wi_type = Accessory, wi_cost = 50, wi_emoji = ''U+1F913''\<rparr>,
     \<lparr>wi_id = ''bowtie'', wi_name = ''Fancy Bow Tie'', wi_type = Accessory, wi_cost = 75, wi_emoji = ''U+1F380''\<rparr>,
     \<lparr>wi_id = ''hat'', wi_name = ''Top Hat'', wi_type = Hat, wi_cost = 80, wi_emoji = ''U+1F3A9''\<rparr>,
     \<lparr>wi_id = ''flower'', wi_name = ''Flower Crown'', wi_type = Hat, wi_cost = 60, wi_emoji = ''U+1F338''\<rparr>,
     \<lparr>wi_id = ''sparkles'', wi_name = ''Sparkle Effect'', wi_type = Background, wi_cost = 120, wi_emoji = ''U+2728''\<rparr>,
     \<lparr>wi_id = ''rainbow'', wi_name = ''Rainbow Aura'', wi_type = Background, wi_cost = 150, wi_emoji = ''U+1F308''\<rparr>]"

section \<open>State\<close>

text \<open>\<open>equippedItems: {hat?, accessory?, background?}\<close>, read and written by slot name as
  \<open>equippedItems[type]\<close> and \<open>{...equippedItems, [type]: v}\<close>.\<close>

record equipped_items =
  eq_hat :: "item_id option"
  eq_accessory :: "item_id option"
  eq_background :: "item_id option"

fun slot_of :: "equipped_items \<Rightarrow> slot \<Rightarrow> item_id option" where
  "slot_of e Hat = eq_hat e"
| "slot_of e Accessory = eq_accessory e"
| "slot_of e Background = eq_background e"

fun set_slot :: "equipped_items \<Rightarrow> slot \<Rightarrow> item_id option \<Rightarrow> equipped_items" where
  "set_slot e Hat v = e\<lparr>eq_hat := v\<rparr>"
| "set_slot e Accessory v = e\<lparr>eq_accessory := v\<rparr>"
| "set_slot e Background v = e\<lparr>eq_background := v\<rparr>"

record pet_data =
  pet_name :: string
  ptype :: pet_type
  level :: int
  experience :: int
  happiness :: int
  coins :: int
  wardrobe :: "item_id list"
  equippedItems :: equipped_items

record badge =
  badge_id :: string
  badge_name :: string
  badge_description :: string
  earned :: bool
  coinReward :: int

datatype pet_tab = PetTab | BadgesTab | WardrobeTab

text \<open>The \<open>useState\<close> hooks of the \<open>Pet\<close> component.\<close>

record pet_view =
  selectedPetType :: pet_type
  petData :: pet_data
  badges :: "badge list"
  activeTab :: pet_tab

definition initial_pet_data :: pet_data where
  "initial_pet_data =
    \<lparr>pet_name = ''Luna'', ptype = Luna, level = 5, experience = 750, happiness = 85, coins = 245,
     wardrobe = [''glasses'', ''bowtie''],
     equippedItems = \<lparr>eq_hat = None, eq_accessory = Some ''glasses'', eq_background = None\<rparr>\<rparr>"

definition initial_badges :: "badge list" where
  "initial_badges =
    [\<lparr>badge_id = ''first-task'', badge_name = ''First Steps'',
      badge_description = ''Complete your first task'', earned = True, coinReward = 10\<rparr>,
     \<lparr>badge_id = ''focus-master'', badge_name = ''Focus Master'',
      badge_description = ''Complete 5 pomodoro sessions'', earned = True, coinReward = 25\<rparr>,
     \<lparr>badge_id = ''note-taker'', badge_name = ''Note Taker'',
      badge_description = ''Create 10 sticky notes'', earned = False, coinReward = 15\<rparr>,
     \<lparr>badge_id = ''week-warrior'', badge_name = ''Week Warrior'',
      badge_description = ''Stay productive for 7 days straight'', earned = False, coinReward = 50\<rparr>,
     \<lparr>badge_id = ''mood-tracker'', badge_name = ''Mood Tracker'',
      badge_description = ''Log your mood 20 times'', earned = True, coinReward = 20\<rparr>]"

definition pet_init :: pet_view where
  "pet_init = \<lparr>selectedPetType = Luna, petData = initial_pet_data, badges = initial_badges,
     activeTab = PetTab\<rparr>"

text \<open>\<open>experienceToNext\<close> and the experience bar width
  \<open>petData.experience / experienceToNext * 100\<close>, kept as the exact percentage.\<close>

definition experienceToNext :: int where
  "experienceToNext = 1000"

definition experienceProgress :: "pet_data \<Rightarrow> rat" where
  "experienceProgress p = of_int (experience p) / of_int experienceToNext * 100"

section \<open>Handlers\<close>

text \<open>\<open>buyWardrobeItem\<close>: a silent no-op unless the pet can afford the item and does not own it
  yet; then the cost is deducted and the id appended, in one state update.\<close>

definition buyWardrobeItem :: "wardrobe_item \<Rightarrow> pet_data \<Rightarrow> pet_data" where
  "buyWardrobeItem item p =
     (if wi_cost item \<le> coins p \<and> wi_id item \<notin> set (wardrobe p)
      then p\<lparr>coins := coins p - wi_cost item, wardrobe := wardrobe p @ [wi_id item]\<rparr>
      else p)"

text \<open>\<open>equipItem\<close>: toggles the item in the given slot; it does not look at the wardrobe.\<close>

definition equipItem :: "item_id \<Rightarrow> slot \<Rightarrow> pet_data \<Rightarrow> pet_data" where
  "equipItem itemId t p =
     p\<lparr>equippedItems := set_slot (equippedItems p) t
        (if slot_of (equippedItems p) t = Some itemId then None else Some itemId)\<rparr>"

definition changePetType :: "pet_type \<Rightarrow> pet_view \<Rightarrow> pet_view" where
  "changePetType newType v =
     v\<lparr>selectedPetType := newType,
       petData := (petData v)\<lparr>ptype := newType, pet_name := info_name (petInfo newType)\<rparr>\<rparr>"

section \<open>The shop rows\<close>

text \<open>For each catalogue item the shop renders either an equip button (owned items; its
  label says whether the item is equipped) or a buy button, disabled when
  \<open>coins < item.cost\<close>. \<open>equipped\<close> is \<open>Object.values(equippedItems).includes(id)\<close>.\<close>

datatype shop_button = EquipButton bool | BuyButton bool

definition is_equipped :: "pet_data \<Rightarrow> item_id \<Rightarrow> bool" where
  "is_equipped p i \<longleftrightarrow> Some i \<in> {eq_hat (equippedItems p), eq_accessory (equippedItems p),
                                   eq_background (equippedItems p)}"

definition shop_row :: "pet_data \<Rightarrow> wardrobe_item \<Rightarrow> shop_button" where
  "shop_row p item =
     (if wi_id item \<in> set (wardrobe p) then EquipButton (is_equipped p (wi_id item))
      else BuyButton (coins p < wi_cost item))"

section \<open>User steps\<close>

text \<open>What a click can do: press an enabled button of a shop row (wardrobe tab), pick a pet
  kind (pet tab), or switch tab. A disabled button does not fire.\<close>

inductive pet_step :: "pet_view \<Rightarrow> pet_view \<Rightarrow> bool" where
  buy: "activeTab v = WardrobeTab \<Longrightarrow> item \<in> set wardrobeItems \<Longrightarrow>
        shop_row (petData v) item = BuyButton False \<Longrightarrow>
        pet_step v (v\<lparr>petData := buyWardrobeItem item (petData v)\<rparr>)"
| equip: "activeTab v = WardrobeTab \<Longrightarrow> item \<in> set wardrobeItems \<Longrightarrow>
        shop_row (petData v) item = EquipButton e \<Longrightarrow>
        pet_step v (v\<lparr>petData := equipItem (wi_id item) (wi_type item) (petData v)\<rparr>)"
| choose: "activeTab v = PetTab \<Longrightarrow> c \<in> set petTypes \<Longrightarrow>
        pet_step v (changePetType (choice_id c) v)"
| tab: "pet_step v (v\<lparr>activeTab := t\<rparr>)"

inductive pet_reach :: "pet_view \<Rightarrow> bool" where
  init: "pet_reach pet_init"
| step: "pet_reach v \<Longrightarrow> pet_step v w \<Longrightarrow> pet_reach w"

section \<open>The shop invariant\<close>

text \<open>The catalogue cost of an owned id (0 for an id the catalogue does not list) and the
  value of a wardrobe.\<close>

definition item_cost :: "item_id \<Rightarrow> int" where
  "item_cost i = (case find (\<lambda>it. wi_id it = i) wardrobeItems of Some it \<Rightarrow> wi_cost it | None \<Rightarrow> 0)"

definition wardrobe_value :: "item_id list \<Rightarrow> int" where
  "wardrobe_value ws = sum_list (map item_cost ws)"

definition catalogue_ids :: "item_id set" where
  "catalogue_ids = wi_id ` set wardrobeItems"

definition item_slot_ok :: "item_id \<Rightarrow> slot \<Rightarrow> bool" where
  "item_slot_ok i s \<longleftrightarrow> (\<exists>it \<in> set wardrobeItems. wi_id it = i \<and> wi_type it = s)"

definition shop_inv :: "pet_data \<Rightarrow> bool" where
  "shop_inv p \<longleftrightarrow>
     0 \<le> coins p \<and> distinct (wardrobe p) \<and> set (wardrobe p) \<subseteq> catalogue_ids \<and>
     (\<forall>s i. slot_of (equippedItems p) s = Some i \<longrightarrow> i \<in> set (wardrobe p) \<and> item_slot_ok i s) \<and>
     coins p + wardrobe_value (wardrobe p) = 370"

definition pet_inv :: "pet_view \<Rightarrow> bool" where
  "pet_inv v \<longleftrightarrow>
     shop_inv (petData v) \<and> ptype (petData v) = selectedPetType v \<and>
     pet_name (petData v) = info_name (petInfo (selectedPetType v)) \<and> badges v = initial_badges"

text \<open>\<open>PetDisplay\<close>: the emoji of each equipped item (a \<open>find\<close> in the catalogue, whose
  \<open>?.emoji\<close> is \<open>undefined\<close>, shown as nothing, for an unknown id) over and around the sprite,
  and the personality and activity of the selected kind.\<close>

definition item_emoji :: "item_id \<Rightarrow> string option" where
  "item_emoji i = map_option wi_emoji (find (\<lambda>it. wi_id it = i) wardrobeItems)"

record pet_display =
  pd_background :: "string option option"
  pd_hat :: "string option option"
  pd_accessory :: "string option option"
  pd_personality :: string
  pd_activity :: string

definition petDisplay :: "pet_view \<Rightarrow> pet_display" where
  "petDisplay v =
    \<lparr>pd_background = map_option item_emoji (eq_background (equippedItems (petData v))),
     pd_hat = map_option item_emoji (eq_hat (equippedItems (petData v))),
     pd_accessory = map_option item_emoji (eq_accessory (equippedItems (petData v))),
     pd_personality = [CHR 0x22] @ personality (petInfo (selectedPetType v)) @ [CHR 0x22],
     pd_activity = ''Current activity: '' @ workingActivity (petInfo (selectedPetType v))\<rparr>"

section \<open>Lemmas on slots, costs and the handlers\<close>

lemma slot_of_set_slot [simp]: "slot_of (set_slot e t v) s = (if s = t then v else slot_of e s)"
  by (cases t; cases s) simp_all

lemma set_slot_id: "slot_of e t = v \<Longrightarrow> set_slot e t v = e"
  by (cases t) auto

lemma set_slot_twice [simp]: "set_slot (set_slot e t v) t w = set_slot e t w"
  by (cases t) simp_all

lemma slot_all: "(\<forall>s. P s) \<longleftrightarrow> P Hat \<and> P Accessory \<and> P Background"
  by (metis slot.exhaust)

lemma item_cost_all: "list_all (\<lambda>it. item_cost (wi_id it) = wi_cost it) wardrobeItems"
  by (simp add: wardrobeItems_def item_cost_def)

lemma item_cost_catalogue: "it \<in> set wardrobeItems \<Longrightarrow> item_cost (wi_id it) = wi_cost it"
  using item_cost_all by (simp add: list_all_iff)

lemma wardrobeItems_cost_nonneg: "it \<in> set wardrobeItems \<Longrightarrow> 0 \<le> wi_cost it"
  by (auto simp: wardrobeItems_def)

lemma wardrobe_value_append [simp]: "wardrobe_value (ws @ [i]) = wardrobe_value ws + item_cost i"
  by (simp add: wardrobe_value_def)

lemma buyWardrobeItem_frame [simp]:
  "ptype (buyWardrobeItem item p) = ptype p"
  "pet_name (buyWardrobeItem item p) = pet_name p"
  "equippedItems (buyWardrobeItem item p) = equippedItems p"
  by (simp_all add: buyWardrobeItem_def)

lemma equipItem_frame [simp]:
  "ptype (equipItem i t p) = ptype p"
  "pet_name (equipItem i t p) = pet_name p"
  "coins (equipItem i t p) = coins p"
  "wardrobe (equipItem i t p) = wardrobe p"
  by (simp_all add: equipItem_def)

lemma equipItem_slot:
  "slot_of (equippedItems (equipItem i t p)) s =
     (if s = t then (if slot_of (equippedItems p) t = Some i then None else Some i)
      else slot_of (equippedItems p) s)"
  by (simp add: equipItem_def)

lemma buyWardrobeItem_cases:
  obtains (bought) "wi_cost item \<le> coins p" "wi_id item \<notin> set (wardrobe p)"
    "buyWardrobeItem item p = p\<lparr>coins := coins p - wi_cost item, wardrobe := wardrobe p @ [wi_id item]\<rparr>"
  | (refused) "buyWardrobeItem item p = p"
  by (cases "wi_cost item \<le> coins p \<and> wi_id item \<notin> set (wardrobe p)")
     (auto simp: buyWardrobeItem_def)

lemma shop_row_BuyButton:
  "shop_row p item = BuyButton b \<longleftrightarrow> wi_id item \<notin> set (wardrobe p) \<and> b = (coins p < wi_cost item)"
  by (auto simp: shop_row_def)

lemma shop_row_EquipButton:
  "shop_row p item = EquipButton e \<Longrightarrow> wi_id item \<in> set (wardrobe p)"
  by (auto simp: shop_row_def split: if_splits)

lemma shop_inv_buy:
  assumes inv: "shop_inv p" and item: "item \<in> set wardrobeItems"
  shows "shop_inv (buyWardrobeItem item p)"
  using item
proof (cases rule: buyWardrobeItem_cases [of item p])
  case bought
  have "wi_id item \<in> catalogue_ids"
    using item by (simp add: catalogue_ids_def)
  with bought inv show ?thesis
    by (auto simp: shop_inv_def item_cost_catalogue [OF item])
next
  case refused
  with inv show ?thesis by simp
qed

lemma shop_inv_equip:
  assumes inv: "shop_inv p" and item: "item \<in> set wardrobeItems"
    and owned: "wi_id item \<in> set (wardrobe p)"
  shows "shop_inv (equipItem (wi_id item) (wi_type item) p)"
proof -
  have "item_slot_ok (wi_id item) (wi_type item)"
    using item by (auto simp: item_slot_ok_def)
  with inv owned show ?thesis
    by (auto simp: shop_inv_def equipItem_def)
qed

lemma pet_inv_init: "pet_inv pet_init"
  by (simp add: pet_inv_def pet_init_def initial_pet_data_def shop_inv_def catalogue_ids_def
      wardrobeItems_def wardrobe_value_def item_cost_def item_slot_ok_def slot_all)

lemma pet_step_inv: "pet_step v w \<Longrightarrow> pet_inv v \<Longrightarrow> pet_inv w"
proof (induction rule: pet_step.induct)
  case (buy v item)
  then show ?case
    by (simp add: pet_inv_def shop_inv_buy)
next
  case (equip v item e)
  then show ?case
    by (simp add: pet_inv_def shop_inv_equip shop_row_EquipButton)
next
  case (choose v c)
  then show ?case
    by (simp add: pet_inv_def changePetType_def shop_inv_def)
next
  case (tab v t)
  then show ?case by (simp add: pet_inv_def)
qed

lemma pet_step_coins: "pet_step v w \<Longrightarrow> coins (petData w) \<le> coins (petData v)"
proof (induction rule: pet_step.induct)
  case (buy v item)
  then show ?case
    by (cases rule: buyWardrobeItem_cases [of item "petData v"])
       (auto simp: shop_row_BuyButton wardrobeItems_cost_nonneg)
qed (simp_all add: changePetType_def)

declare pet_step.intros [reach_intros] pet_reach.intros [reach_intros]

section \<open>Properties\<close>

text \<open>C1: every state the user can reach in the pet screen satisfies the shop invariant:
  coins are never negative, no item is owned twice, only catalogue items are owned, every
  equipped item is owned and sits in the slot of its catalogue type, coins plus the value of
  the wardrobe stay at their initial 370, the pet's kind and name agree with the selection,
  and the badges never change.\<close>

theorem pet_reach_inv: "pet_reach v \<Longrightarrow> pet_inv v"
proof (induction rule: pet_reach.induct)
  case init
  show ?case by (rule pet_inv_init)
next
  case (step v w)
  then show ?case by (blast intro: pet_step_inv)
qed

text \<open>C2: \<open>buyWardrobeItem\<close> never drives coins negative, whatever item it is called with:
  its own affordability guard suffices, without the disabled button.\<close>

theorem buyWardrobeItem_coins_nonneg: "0 \<le> coins p \<Longrightarrow> 0 \<le> coins (buyWardrobeItem item p)"
  by (cases rule: buyWardrobeItem_cases [of item p]) simp_all

text \<open>C3: buying a catalogue item conserves coins plus the catalogue value of the wardrobe:
  the deduction and the append happen together or not at all.\<close>

theorem buyWardrobeItem_conserves:
  "item \<in> set wardrobeItems \<Longrightarrow>
   coins (buyWardrobeItem item p) + wardrobe_value (wardrobe (buyWardrobeItem item p)) =
   coins p + wardrobe_value (wardrobe p)"
  by (cases rule: buyWardrobeItem_cases [of item p]) (simp_all add: item_cost_catalogue)

text \<open>C4: buying never adds an item a second time.\<close>

theorem buyWardrobeItem_distinct:
  "distinct (wardrobe p) \<Longrightarrow> distinct (wardrobe (buyWardrobeItem item p))"
  by (cases rule: buyWardrobeItem_cases [of item p]) simp_all

text \<open>C5: equipping is a toggle on one slot: afterwards the slot holds the item exactly when
  it did not hold it before, and is empty otherwise; every other slot and every other field
  of the pet is unchanged; and equipping twice restores the pet exactly when the slot held
  that item or nothing (a different item worn there is lost).\<close>

theorem equipItem_toggle:
  "(slot_of (equippedItems (equipItem i t p)) t = Some i \<longleftrightarrow> slot_of (equippedItems p) t \<noteq> Some i) \<and>
   slot_of (equippedItems (equipItem i t p)) t \<in> {None, Some i} \<and>
   (\<forall>s. s = t \<or> slot_of (equippedItems (equipItem i t p)) s = slot_of (equippedItems p) s) \<and>
   (equipItem i t p)\<lparr>equippedItems := equippedItems p\<rparr> = p \<and>
   (equipItem i t (equipItem i t p) = p \<longleftrightarrow> slot_of (equippedItems p) t \<in> {None, Some i})"
proof -
  have twice: "equipItem i t (equipItem i t p) = p \<longleftrightarrow> slot_of (equippedItems p) t \<in> {None, Some i}"
  proof
    assume "equipItem i t (equipItem i t p) = p"
    then have "slot_of (equippedItems (equipItem i t (equipItem i t p))) t = slot_of (equippedItems p) t"
      by simp
    then show "slot_of (equippedItems p) t \<in> {None, Some i}"
      by (simp add: equipItem_slot split: if_splits)
  next
    assume "slot_of (equippedItems p) t \<in> {None, Some i}"
    then show "equipItem i t (equipItem i t p) = p" by (auto simp: equipItem_def set_slot_id)
  qed
  show ?thesis using twice by (simp add: equipItem_slot) (simp add: equipItem_def)
qed

text \<open>C6: no click in the pet screen ever increases the coins: the shop only spends.\<close>

theorem pet_step_coins_antimono: "pet_step v w \<Longrightarrow> coins (petData w) \<le> coins (petData v)"
  by (rule pet_step_coins)

text \<open>C7: a purchase changes the pet exactly when the pet can afford the item and does not own
  it yet; otherwise (insufficient coins, already owned) it is a silent no-op.\<close>

theorem buyWardrobeItem_changes_iff:
  "buyWardrobeItem item p \<noteq> p \<longleftrightarrow> wi_cost item \<le> coins p \<and> wi_id item \<notin> set (wardrobe p)"
proof (cases rule: buyWardrobeItem_cases [of item p])
  case bought
  then have "wardrobe (buyWardrobeItem item p) \<noteq> wardrobe p" by simp
  then have "buyWardrobeItem item p \<noteq> p" by metis
  with bought(1,2) show ?thesis by blast
next
  case refused
  have "\<not> (wi_cost item \<le> coins p \<and> wi_id item \<notin> set (wardrobe p))"
  proof
    assume "wi_cost item \<le> coins p \<and> wi_id item \<notin> set (wardrobe p)"
    then have "wardrobe (buyWardrobeItem item p) = wardrobe p @ [wi_id item]"
      by (simp add: buyWardrobeItem_def)
    with refused show False by simp
  qed
  with refused show ?thesis by simp
qed

text \<open>The shop scenarios: with 90 coins the 100-coin crown cannot be bought and the coins
  stay 90; with 100 coins it is bought, leaving 0 coins and the crown owned; equipping it fills
  the hat slot, and equipping it again empties the slot while the crown stays owned.\<close>

lemma shop_scenario:
  "let crown = wardrobeItems ! 0; p90 = initial_pet_data\<lparr>coins := 90\<rparr>;
       p100 = initial_pet_data\<lparr>coins := 100\<rparr>; p1 = buyWardrobeItem crown p100;
       p2 = equipItem (wi_id crown) (wi_type crown) p1; p3 = equipItem (wi_id crown) (wi_type crown) p2
   in buyWardrobeItem crown p90 = p90 \<and> coins p1 = 0 \<and> ''crown'' \<in> set (wardrobe p1) \<and>
      eq_hat (equippedItems p2) = Some ''crown'' \<and> eq_hat (equippedItems p3) = None \<and>
      ''crown'' \<in> set (wardrobe p3)"
  by (simp add: Let_def wardrobeItems_def initial_pet_data_def buyWardrobeItem_def equipItem_def)

text \<open>The lookup \<open>petTypes.find(...) || petTypes[0]\<close> always finds the selected kind:
  the fallback to the first pet is dead code.\<close>

theorem currentPetType_found: "choice_id (currentPetType t) = t"
  by (cases t) (simp_all add: currentPetType_def petTypes_def)

text \<open>\<open>equipItem\<close> itself does not check ownership: the crown is not in the initial
  wardrobe, yet equipping it fills the hat slot. Only the render, which offers the equip
  button for owned items alone, keeps unowned items out of the slots.\<close>

theorem equipItem_unowned:
  "''crown'' \<notin> set (wardrobe initial_pet_data) \<and>
   slot_of (equippedItems (equipItem ''crown'' Hat initial_pet_data)) Hat = Some ''crown''"
  by (simp add: initial_pet_data_def equipItem_def)

section \<open>Witnesses\<close>

definition shop_demo :: pet_view where
  "shop_demo = (pet_init\<lparr>activeTab := WardrobeTab\<rparr>)
     \<lparr>petData := buyWardrobeItem (wardrobeItems ! 0) (petData (pet_init\<lparr>activeTab := WardrobeTab\<rparr>))\<rparr>"

lemma shop_demo_step: "pet_step (pet_init\<lparr>activeTab := WardrobeTab\<rparr>) shop_demo"
  unfolding shop_demo_def
  by (rule pet_step.buy) (simp_all add: wardrobeItems_def shop_row_def pet_init_def initial_pet_data_def)

lemma shop_demo_reach: "pet_reach shop_demo"
  by (rule pet_reach.step [OF pet_reach.step [OF pet_reach.init pet_step.tab] shop_demo_step])

theorem pet_reach_inv_witness: "pet_reach shop_demo \<and> pet_inv shop_demo"
  using shop_demo_reach pet_reach_inv [OF shop_demo_reach] by simp

theorem buyWardrobeItem_coins_nonneg_witness:
  "0 \<le> coins initial_pet_data \<and> 0 \<le> coins (buyWardrobeItem (wardrobeItems ! 6) initial_pet_data)"
proof -
  have h: "0 \<le> coins initial_pet_data" by (simp add: initial_pet_data_def)
  show ?thesis using h buyWardrobeItem_coins_nonneg [OF h] by simp
qed

theorem buyWardrobeItem_conserves_witness:
  "wardrobeItems ! 0 \<in> set wardrobeItems \<and>
   coins (buyWardrobeItem (wardrobeItems ! 0) initial_pet_data) +
     wardrobe_value (wardrobe (buyWardrobeItem (wardrobeItems ! 0) initial_pet_data)) = 370"
proof -
  have h: "wardrobeItems ! 0 \<in> set wardrobeItems" by (simp add: wardrobeItems_def)
  have v: "coins initial_pet_data + wardrobe_value (wardrobe initial_pet_data) = 370"
    by (simp add: initial_pet_data_def wardrobe_value_def item_cost_def wardrobeItems_def)
  show ?thesis using h v buyWardrobeItem_conserves [OF h, of initial_pet_data] by simp
qed

theorem buyWardrobeItem_distinct_witness:
  "distinct (wardrobe initial_pet_data) \<and>
   distinct (wardrobe (buyWardrobeItem (wardrobeItems ! 1) initial_pet_data))"
proof -
  have h: "distinct (wardrobe initial_pet_data)" by (simp add: initial_pet_data_def)
  show ?thesis using h buyWardrobeItem_distinct [OF h] by simp
qed

theorem equipItem_toggle_witness:
  "slot_of (equippedItems (equipItem ''crown'' Hat initial_pet_data)) Hat = Some ''crown'' \<and>
   equipItem ''crown'' Hat (equipItem ''crown'' Hat initial_pet_data) = initial_pet_data"
proof -
  have h: "slot_of (equippedItems initial_pet_data) Hat = None"
    by (simp add: initial_pet_data_def)
  show ?thesis using h equipItem_toggle [of "''crown''" Hat initial_pet_data] by simp
qed

theorem pet_step_coins_antimono_witness:
  "pet_step (pet_init\<lparr>activeTab := WardrobeTab\<rparr>) shop_demo \<and>
   coins (petData shop_demo) \<le> coins (petData (pet_init\<lparr>activeTab := WardrobeTab\<rparr>))"
  using shop_demo_step pet_step_coins_antimono [OF shop_demo_step] by simp

text \<open>On every state of the shop invariant each equipped item is drawn with its emoji: no
  slot ever shows the empty \<open>undefined\<close> of an unknown id.\<close>

lemma item_emoji_catalogue: "i \<in> catalogue_ids \<Longrightarrow> item_emoji i \<noteq> None"
  by (auto simp: item_emoji_def catalogue_ids_def find_None_iff)

lemma petDisplay_equipped_emoji:
  assumes "pet_inv v"
  shows "\<forall>s i. slot_of (equippedItems (petData v)) s = Some i \<longrightarrow> item_emoji i \<noteq> None"
proof (intro allI impI)
  fix s i assume "slot_of (equippedItems (petData v)) s = Some i"
  then have "i \<in> set (wardrobe (petData v))" using assms by (auto simp: pet_inv_def shop_inv_def)
  then have "i \<in> catalogue_ids" using assms by (auto simp: pet_inv_def shop_inv_def)
  then show "item_emoji i \<noteq> None" by (rule item_emoji_catalogue)
qed

end
