(* ===== verification/Pomodoro.thy ===== *)
theory Pomodoro
  imports Prelude "HOL-Library.While_Combinator"
begin

text \<open>
  The pomodoro timer of \<open>src/src/components/PomodoroTimer.tsx\<close>. Its \<open>useState\<close>
  hooks are the record \<open>timer\<close>. The countdown is React's: an effect on
  \<open>[isActive, timeLeft, isBreak]\<close> registers a one-second interval while the timer is
  active with time left, and finishes the period when \<open>timeLeft\<close> reaches 0 (a finished
  work period counts a session, boosts the pet's happiness and switches to the break; a
  finished break switches back to work; both stop the timer). An event is a handler call
  (a button, an input, the interval firing as \<open>Tick\<close>, the happiness badge timeout),
  followed by the effect; \<open>timer_step\<close> returns the error a handler throws
  (\<open>changePreset\<close> with an index outside \<open>timerPresets\<close>) as \<open>Inl\<close>.
\<close>

section \<open>Presets and state\<close>

record preset =
  preset_name :: string
  work :: int
  brk :: int

definition timerPresets :: "preset list" where
  "timerPresets =
    [\<lparr>preset_name = ''Pomodoro'', work = 25, brk = 5\<rparr>,
     \<lparr>preset_name = ''Short Focus'', work = 15, brk = 3\<rparr>,
     \<lparr>preset_name = ''Deep Work'', work = 45, brk = 10\<rparr>,
     \<lparr>preset_name = ''Study Session'', work = 50, brk = 10\<rparr>,
     \<lparr>preset_name = ''Quick Task'', work = 10, brk = 2\<rparr>]"

record timer =
  timeLeft :: int
  isActive :: bool
  isBreak :: bool
  sessions :: int
  showSettings :: bool
  currentPreset :: nat
  customWork :: int
  customBreak :: int
  petHappiness :: int
  showHappinessBoost :: bool

definition timer_init :: timer where
  "timer_init =
    \<lparr>timeLeft = 25 * 60, isActive = False, isBreak = False, sessions = 0, showSettings = False,
     currentPreset = 0, customWork = 25, customBreak = 5, petHappiness = 85,
     showHappinessBoost = False\<rparr>"

text \<open>\<open>workTime\<close> and \<open>breakTime\<close> are recomputed at every render from the current preset.\<close>

definition workTime :: "timer \<Rightarrow> int" where
  "workTime t = work (timerPresets ! currentPreset t) * 60"

definition breakTime :: "timer \<Rightarrow> int" where
  "breakTime t = brk (timerPresets ! currentPreset t) * 60"

section \<open>Handlers\<close>

definition boostPetHappiness :: "timer \<Rightarrow> timer" where
  "boostPetHappiness t = t\<lparr>petHappiness := min 100 (petHappiness t + 10), showHappinessBoost := True\<rparr>"

text \<open>The effect's "timer finished" branch.\<close>

definition timer_finished :: "timer \<Rightarrow> timer" where
  "timer_finished t =
     (if isBreak t then t\<lparr>timeLeft := workTime t, isBreak := False\<rparr>
      else boostPetHappiness (t\<lparr>timeLeft := breakTime t, isBreak := True, sessions := sessions t + 1\<rparr>))
     \<lparr>isActive := False\<rparr>"

text \<open>The effect after a render: with the timer active and time left it only (re)registers the
  interval; at \<open>timeLeft = 0\<close> it finishes the period.\<close>

definition timer_effect :: "timer \<Rightarrow> timer" where
  "timer_effect t =
     (if isActive t \<and> 0 < timeLeft t then t
      else if timeLeft t = 0 then timer_finished t else t)"

text \<open>\<open>parseInt(e.target.value) || 1\<close>: \<open>None\<close> is \<open>NaN\<close>; \<open>NaN\<close> and 0 become 1.\<close>

definition js_or_one :: "int option \<Rightarrow> int" where
  "js_or_one v = (case v of None \<Rightarrow> 1 | Some n \<Rightarrow> if n = 0 then 1 else n)"

datatype timer_event =
    Tick
  | ToggleTimer
  | ResetTimer
  | SetCustomTimer
  | ChangePreset nat
  | ToggleSettings
  | CustomWorkInput "int option"
  | CustomBreakInput "int option"
  | BoostTimeout

text \<open>The handlers. \<open>Tick\<close> is the interval's callback \<open>setTimeLeft(t => t - 1)\<close>; an
  interval exists only while the timer is active with time left, so otherwise a tick changes
  nothing. \<open>setCustomTimer\<close> computes the custom break time but never uses it.\<close>

fun timer_handler :: "timer \<Rightarrow> timer_event \<Rightarrow> js_error + timer" where
  "timer_handler t Tick =
     Inr (if isActive t \<and> 0 < timeLeft t then t\<lparr>timeLeft := timeLeft t - 1\<rparr> else t)"
| "timer_handler t ToggleTimer = Inr (t\<lparr>isActive := \<not> isActive t\<rparr>)"
| "timer_handler t ResetTimer =
     Inr (t\<lparr>isActive := False, timeLeft := (if isBreak t then breakTime t else workTime t)\<rparr>)"
| "timer_handler t SetCustomTimer =
     Inr (t\<lparr>isActive := False, timeLeft := customWork t * 60, isBreak := False\<rparr>)"
| "timer_handler t (ChangePreset i) =
     (if i < length timerPresets
      then Inr (t\<lparr>currentPreset := i, isActive := False, isBreak := False,
                  timeLeft := work (timerPresets ! i) * 60\<rparr>)
      else Inl (TypeError ''timerPresets[presetIndex] is undefined''))"
| "timer_handler t ToggleSettings = Inr (t\<lparr>showSettings := \<not> showSettings t\<rparr>)"
| "timer_handler t (CustomWorkInput v) = Inr (t\<lparr>customWork := js_or_one v\<rparr>)"
| "timer_handler t (CustomBreakInput v) = Inr (t\<lparr>customBreak := js_or_one v\<rparr>)"
| "timer_handler t BoostTimeout = Inr (t\<lparr>showHappinessBoost := False\<rparr>)"

definition timer_step :: "timer \<Rightarrow> timer_event \<Rightarrow> js_error + timer" where
  "timer_step t e = map_sum id timer_effect (timer_handler t e)"

fun timer_run :: "timer \<Rightarrow> timer_event list \<Rightarrow> js_error + timer" where
  "timer_run t [] = Inr t"
| "timer_run t (e # es) = (case timer_step t e of Inl err \<Rightarrow> Inl err | Inr t' \<Rightarrow> timer_run t' es)"

text \<open>The interval as a loop: while the timer is active the effect keeps an interval that
  fires \<open>Tick\<close> every second, each tick followed by the effect; the loop ends when the
  effect stops the timer (and \<open>clearInterval\<close> runs). \<open>None\<close>: the interval never stops.\<close>

definition interval_loop :: "timer \<Rightarrow> timer option" where
  "interval_loop t = while_option isActive (\<lambda>u. case timer_step u Tick of Inl _ \<Rightarrow> u | Inr u' \<Rightarrow> u') t"

inductive timer_reach :: "timer \<Rightarrow> bool" where
  init: "timer_reach timer_init"
| step: "timer_reach t \<Longrightarrow> timer_step t e = Inr t' \<Longrightarrow> timer_reach t'"

section \<open>What the timer renders\<close>

text \<open>\<open>formatTime\<close>: minutes and seconds, each padded to two digits.\<close>

definition formatTime :: "int \<Rightarrow> string" where
  "formatTime seconds =
     (let mins = seconds div 60; secs = js_rem seconds 60
      in pad_start 2 CHR ''0'' (js_int_string mins) @ '':'' @ pad_start 2 CHR ''0'' (js_int_string secs))"

text \<open>\<open>getProgress\<close>, the share of the period elapsed in percent, as an exact rational.\<close>

definition getProgress :: "timer \<Rightarrow> rat" where
  "getProgress t =
     (let totalTime = (if isBreak t then breakTime t else workTime t)
      in (of_int totalTime - of_int (timeLeft t)) / of_int totalTime * 100)"

datatype mascot_mood = MoodWorking | MoodSleepy | MoodHappy

definition getMascotMood :: "timer \<Rightarrow> mascot_mood" where
  "getMascotMood t = (if isActive t then MoodWorking else if isBreak t then MoodSleepy else MoodHappy)"

definition getTimerColor :: "timer \<Rightarrow> string" where
  "getTimerColor t = (if isBreak t then ''from-blue-300 to-green-300'' else ''from-orange-300 to-pink-300'')"

text \<open>The session counter: \<open>max(4, sessions)\<close> dots, the first \<open>sessions\<close> of them filled.\<close>

definition session_dots :: "timer \<Rightarrow> bool list" where
  "session_dots t = map (\<lambda>i. int i < sessions t) [0..<nat (max 4 (sessions t))]"

text \<open>The working-pet card is shown while a work period runs.\<close>

definition shows_working_pet :: "timer \<Rightarrow> bool" where
  "shows_working_pet t \<longleftrightarrow> isActive t \<and> \<not> isBreak t"

text \<open>The working pet (\<open>PomodoroPixelPet\<close>): the 8 by 8 cat pattern, each character
  other than \<open>0\<close> drawn as a 3px pixel at \<open>x * 3 + 80/4\<close>, \<open>y * 3 + 80/6\<close> in an 80px box,
  followed by the keyboard (typing) or the book (reading).\<close>

definition catPixels :: "string list" where
  "catPixels = [''00000000'', ''01111110'', ''11221122'', ''12221222'', ''11111111'', ''01111110'',
                ''00111100'', ''00100100'']"

record pixel =
  px_color :: string
  px_left :: rat
  px_top :: rat

datatype pet_element = Pixel pixel | Keyboard | Book

definition pixel_color :: "char \<Rightarrow> string" where
  "pixel_color c = (if c = CHR ''1'' then ''bg-orange-400'' else if c = CHR ''2'' then ''bg-orange-600'' else ''bg-white'')"

definition row_pixels :: "nat \<Rightarrow> string \<Rightarrow> pet_element list" where
  "row_pixels y row =
     map (\<lambda>(x, c). Pixel \<lparr>px_color = pixel_color c, px_left = of_nat x * 3 + 80 / 4, px_top = of_nat y * 3 + 80 / 6\<rparr>)
       (filter (\<lambda>(x, c). c \<noteq> CHR ''0'') (zip [0..<length row] row))"

definition cat_elements :: "pet_element list" where
  "cat_elements = concat (map (\<lambda>(y, row). row_pixels y row) (zip [0..<length catPixels] catPixels))"

definition renderWorkingActivity :: "string \<Rightarrow> pet_element list" where
  "renderWorkingActivity activity =
     cat_elements @
     (if activity = ''typing'' then [Keyboard] else if activity = ''reading'' then [Book] else [])"

definition activity_label :: "string \<Rightarrow> string" where
  "activity_label activity =
     (if activity = ''typing'' then ''U+2328 U+FE0F Typing'' else if activity = ''reading'' then ''U+1F4D6 Reading''
      else if activity = ''thinking'' then ''U+1F4AD Thinking'' else ''U+1F4BC Working'')"

text \<open>What the timer card and its surroundings show.\<close>

record timer_view =
  tv_presets :: "(string \<times> string \<times> bool) list"
  tv_settingsCard :: bool
  tv_workingPet :: "string option"
  tv_title :: string
  tv_time :: string
  tv_phase :: string
  tv_ringOffset :: rat
  tv_toggle :: string
  tv_dots :: "bool list"
  tv_count :: string

definition timer_render :: "timer \<Rightarrow> timer_view" where
  "timer_render t =
    \<lparr>tv_presets = map (\<lambda>(i, p). (preset_name p, js_int_string (work p) @ ''m / '' @ js_int_string (brk p) @ ''m'',
                                 currentPreset t = i))
                   (zip [0..<length timerPresets] timerPresets),
     tv_settingsCard = showSettings t,
     tv_workingPet = (if shows_working_pet t then Some (''Happiness: '' @ js_int_string (petHappiness t) @ ''%'') else None),
     tv_title = (if isBreak t then ''U+2615 Break Time'' else ''U+1F4BC Work Session''),
     tv_time = formatTime (timeLeft t),
     tv_phase = (if isBreak t then ''Break'' else ''Work''),
     tv_ringOffset = 1 - getProgress t / 100,
     tv_toggle = (if isActive t then ''Pause'' else ''Start''),
     tv_dots = session_dots t,
     tv_count = js_int_string (sessions t) @ '' U+1F345''\<rparr>"

text \<open>The events the render offers: the interval and the always-visible buttons, a preset
  button for each preset, the custom inputs while the settings card is open, and the
  badge's timeout while it is shown.\<close>

fun timer_offered :: "timer \<Rightarrow> timer_event \<Rightarrow> bool" where
  "timer_offered t (ChangePreset i) = (i < length timerPresets)"
| "timer_offered t SetCustomTimer = showSettings t"
| "timer_offered t (CustomWorkInput v) = showSettings t"
| "timer_offered t (CustomBreakInput v) = showSettings t"
| "timer_offered t BoostTimeout = showHappinessBoost t"
| "timer_offered t _ = True"

section \<open>The timer invariant\<close>

definition timer_inv :: "timer \<Rightarrow> bool" where
  "timer_inv t \<longleftrightarrow>
     currentPreset t < length timerPresets \<and> timeLeft t \<noteq> 0 \<and>
     85 \<le> petHappiness t \<and> petHappiness t \<le> 100 \<and> 0 \<le> sessions t \<and>
     customWork t \<noteq> 0 \<and> customBreak t \<noteq> 0"

text \<open>The invariant without the countdown conjunct: what a handler keeps before the effect runs.\<close>

definition timer_pre_inv :: "timer \<Rightarrow> bool" where
  "timer_pre_inv t \<longleftrightarrow>
     currentPreset t < length timerPresets \<and>
     85 \<le> petHappiness t \<and> petHappiness t \<le> 100 \<and> 0 \<le> sessions t \<and>
     customWork t \<noteq> 0 \<and> customBreak t \<noteq> 0"

text \<open>While only presets are used, the time left lies within the current period.\<close>

definition preset_inv :: "timer \<Rightarrow> bool" where
  "preset_inv t \<longleftrightarrow> timer_inv t \<and> 0 < timeLeft t \<and>
     timeLeft t \<le> (if isBreak t then breakTime t else workTime t)"

section \<open>Lemmas\<close>

lemma timerPresets_pos_all: "list_all (\<lambda>p. 0 < work p \<and> 0 < brk p) timerPresets"
  by (simp add: timerPresets_def)

lemma timerPresets_pos: "i < length timerPresets \<Longrightarrow> 0 < work (timerPresets ! i) \<and> 0 < brk (timerPresets ! i)"
  using timerPresets_pos_all by (simp add: list_all_length)

lemma length_timerPresets [simp]: "length timerPresets = 5"
  by (simp add: timerPresets_def)

lemma timerPresets_nonzero [simp]:
  "i < 5 \<Longrightarrow> work (timerPresets ! i) \<noteq> 0" "i < 5 \<Longrightarrow> brk (timerPresets ! i) \<noteq> 0"
  using timerPresets_pos [of i] by simp_all

lemma timerPresets_nonneg [simp]:
  "i < 5 \<Longrightarrow> 0 \<le> work (timerPresets ! i)" "i < 5 \<Longrightarrow> 0 \<le> brk (timerPresets ! i)"
  using timerPresets_pos [of i] by simp_all

lemma workTime_pos: "currentPreset t < length timerPresets \<Longrightarrow> 0 < workTime t"
  using timerPresets_pos by (simp add: workTime_def)

lemma breakTime_pos: "currentPreset t < length timerPresets \<Longrightarrow> 0 < breakTime t"
  using timerPresets_pos by (simp add: breakTime_def)

lemma timer_inv_pre: "timer_inv t \<longleftrightarrow> timer_pre_inv t \<and> timeLeft t \<noteq> 0"
  by (auto simp: timer_inv_def timer_pre_inv_def)

lemma js_or_one_nonzero: "js_or_one v \<noteq> 0"
  by (simp add: js_or_one_def split: option.splits)

lemma timer_handler_pre_inv:
  "timer_inv t \<Longrightarrow> timer_handler t e = Inr u \<Longrightarrow> timer_pre_inv u"
  by (cases e) (auto simp: timer_inv_def timer_pre_inv_def js_or_one_nonzero split: if_splits)

lemma workTime_upd [simp]:
  "workTime (t\<lparr>timeLeft := x\<rparr>) = workTime t" "workTime (t\<lparr>isActive := b\<rparr>) = workTime t"
  "workTime (t\<lparr>isBreak := b\<rparr>) = workTime t" "workTime (t\<lparr>sessions := n\<rparr>) = workTime t"
  "breakTime (t\<lparr>timeLeft := x\<rparr>) = breakTime t" "breakTime (t\<lparr>isActive := b\<rparr>) = breakTime t"
  "breakTime (t\<lparr>isBreak := b\<rparr>) = breakTime t" "breakTime (t\<lparr>sessions := n\<rparr>) = breakTime t"
  by (simp_all add: workTime_def breakTime_def)

lemma timer_finished_fields:
  "timeLeft (timer_finished t) = (if isBreak t then workTime t else breakTime t)"
  "isBreak (timer_finished t) = (\<not> isBreak t)"
  "isActive (timer_finished t) = False"
  "sessions (timer_finished t) = (if isBreak t then sessions t else sessions t + 1)"
  "petHappiness (timer_finished t) = (if isBreak t then petHappiness t else min 100 (petHappiness t + 10))"
  "currentPreset (timer_finished t) = currentPreset t"
  "customWork (timer_finished t) = customWork t"
  "customBreak (timer_finished t) = customBreak t"
  "workTime (timer_finished t) = workTime t"
  "breakTime (timer_finished t) = breakTime t"
  by (simp_all add: timer_finished_def boostPetHappiness_def workTime_def breakTime_def)

lemma timer_effect_inv: "timer_pre_inv u \<Longrightarrow> timer_inv (timer_effect u)"
  using workTime_pos [of u] breakTime_pos [of u]
  by (auto simp: timer_effect_def timer_inv_pre timer_pre_inv_def timer_finished_fields)

lemma timer_step_inv: "timer_inv t \<Longrightarrow> timer_step t e = Inr t' \<Longrightarrow> timer_inv t'"
  by (cases "timer_handler t e") (auto simp: timer_step_def dest: timer_handler_pre_inv intro: timer_effect_inv)

lemma timer_inv_init: "timer_inv timer_init"
  by (simp add: timer_inv_def timer_init_def)

lemma timer_step_Inr_iff:
  "timer_step t e = Inr t' \<longleftrightarrow> (\<exists>u. timer_handler t e = Inr u \<and> t' = timer_effect u)"
  by (cases "timer_handler t e") (auto simp: timer_step_def)

lemma timer_effect_flip:
  "isBreak (timer_effect u) \<noteq> isBreak u \<Longrightarrow>
   timeLeft (timer_effect u) =
     (if isBreak (timer_effect u) then brk else work) (timerPresets ! currentPreset (timer_effect u)) * 60 \<and>
   \<not> isActive (timer_effect u)"
  by (auto simp: timer_effect_def timer_finished_fields workTime_def breakTime_def split: if_splits)

lemma timer_handler_happiness:
  "timer_handler t e = Inr u \<Longrightarrow> petHappiness u = petHappiness t"
  by (cases e) (auto split: if_splits)

lemma timer_handler_sessions:
  "timer_handler t e = Inr u \<Longrightarrow> sessions u = sessions t"
  by (cases e) (auto split: if_splits)

lemma timer_effect_happiness:
  "petHappiness u \<le> 100 \<Longrightarrow> petHappiness u \<le> petHappiness (timer_effect u)"
  by (auto simp: timer_effect_def timer_finished_fields)

lemma timer_handler_timeLeft_zero:
  "timer_inv t \<Longrightarrow> timer_handler t e = Inr u \<Longrightarrow> timeLeft u = 0 \<Longrightarrow>
   e = Tick \<and> isActive t \<and> timeLeft t = 1 \<and> u = t\<lparr>timeLeft := 0\<rparr>"
  by (cases e) (auto simp: timer_inv_def workTime_def breakTime_def split: if_splits)

lemma timer_run_append:
  "timer_run t (xs @ ys) = (case timer_run t xs of Inl err \<Rightarrow> Inl err | Inr t' \<Rightarrow> timer_run t' ys)"
  by (induction xs arbitrary: t) (auto split: sum.splits)

lemma timer_run_ticks:
  "isActive t \<Longrightarrow> int k < timeLeft t \<Longrightarrow>
   timer_run t (replicate k Tick) = Inr (t\<lparr>timeLeft := timeLeft t - int k\<rparr>)"
proof (induction k arbitrary: t)
  case 0
  then show ?case by simp
next
  case (Suc k)
  let ?u = "t\<lparr>timeLeft := timeLeft t - 1\<rparr>"
  have step: "timer_step t Tick = Inr ?u"
    using Suc.prems by (simp add: timer_step_def timer_effect_def)
  have "timer_run ?u (replicate k Tick) = Inr (?u\<lparr>timeLeft := timeLeft ?u - int k\<rparr>)"
    using Suc.prems by (intro Suc.IH) simp_all
  with step show ?case by (simp add: algebra_simps)
qed

lemma timer_run_period:
  assumes act: "isActive t" and pos: "0 < timeLeft t"
  shows "timer_run t (replicate (nat (timeLeft t)) Tick) = Inr (timer_finished (t\<lparr>timeLeft := 0\<rparr>))"
proof -
  let ?k = "nat (timeLeft t) - 1"
  have split: "replicate (nat (timeLeft t)) Tick = replicate ?k Tick @ [Tick]"
    using pos by (metis Suc_diff_1 replicate_Suc replicate_append_same zero_less_nat_eq)
  have "timer_run t (replicate ?k Tick) = Inr (t\<lparr>timeLeft := timeLeft t - int ?k\<rparr>)"
    using act pos by (intro timer_run_ticks) simp_all
  moreover have "t\<lparr>timeLeft := timeLeft t - int ?k\<rparr> = t\<lparr>timeLeft := 1\<rparr>"
    using pos by simp
  moreover have "timer_step (t\<lparr>timeLeft := 1\<rparr>) Tick = Inr (timer_finished (t\<lparr>timeLeft := 0\<rparr>))"
    using act by (simp add: timer_step_def timer_effect_def)
  ultimately show ?thesis
    by (simp add: split timer_run_append)
qed

lemma timer_run_ticks_negative: "timeLeft t < 0 \<Longrightarrow> timer_run t (replicate n Tick) = Inr t"
  by (induction n) (simp_all add: timer_step_def timer_effect_def)

lemma preset_inv_step:
  "preset_inv t \<Longrightarrow> e \<noteq> SetCustomTimer \<Longrightarrow> timer_step t e = Inr t' \<Longrightarrow> preset_inv t'"
proof -
  assume pi: "preset_inv t" and ne: "e \<noteq> SetCustomTimer" and st: "timer_step t e = Inr t'"
  then have inv': "timer_inv t'" by (auto simp: preset_inv_def intro: timer_step_inv)
  from st obtain u where u: "timer_handler t e = Inr u" and t': "t' = timer_effect u"
    by (auto simp: timer_step_Inr_iff)
  have hu: "0 \<le> timeLeft u \<and> timeLeft u \<le> (if isBreak u then breakTime u else workTime u) \<and>
            currentPreset u < 5"
    using pi ne u by (cases e) (auto simp: preset_inv_def timer_inv_def workTime_def breakTime_def
                                     split: if_splits)
  show ?thesis
  proof (cases "timeLeft u = 0")
    case True
    then show ?thesis using inv' t' hu workTime_pos [of u] breakTime_pos [of u]
      by (auto simp: preset_inv_def timer_effect_def timer_finished_fields)
  next
    case False
    then show ?thesis using inv' t' hu
      by (auto simp: preset_inv_def timer_effect_def)
  qed
qed

lemma preset_inv_run:
  "timer_run t es = Inr t' \<Longrightarrow> preset_inv t \<Longrightarrow> SetCustomTimer \<notin> set es \<Longrightarrow> preset_inv t'"
proof (induction es arbitrary: t)
  case Nil
  then show ?case by simp
next
  case (Cons e es)
  then obtain u where "timer_step t e = Inr u" and "timer_run u es = Inr t'"
    by (auto split: sum.splits)
  moreover have "e \<noteq> SetCustomTimer" using Cons.prems(3) by auto
  then have "preset_inv u"
    using preset_inv_step Cons.prems(2) \<open>timer_step t e = Inr u\<close> by blast
  ultimately show ?case using Cons.IH Cons.prems(3) by simp
qed

lemma progress_percent_bounds:
  fixes total x :: int
  assumes "0 < total" "0 \<le> x" "x \<le> total"
  shows "0 \<le> (of_int total - of_int x) / of_int total * (100::rat) \<and>
         (of_int total - of_int x) / of_int total * (100::rat) \<le> 100"
proof -
  define q :: rat where "q = (of_int total - of_int x) / of_int total"
  have "q \<le> 1"
    using assms by (simp add: q_def divide_le_eq_1)
  moreover have "0 \<le> q"
    using assms by (simp add: q_def)
  ultimately have "0 \<le> q * 100 \<and> q * 100 \<le> 100" by linarith
  then show ?thesis by (simp only: q_def)
qed

lemma js_int_string_nonneg: "0 \<le> i \<Longrightarrow> js_int_string i = dec_string (nat i)"
  by (simp add: js_int_string_def)

lemma length_pad2: "n < 100 \<Longrightarrow> length (pad_start 2 CHR ''0'' (dec_string n)) = 2"
  by (cases "n < 10") (simp_all add: length_pad_start length_dec_string_small length_dec_string_two)

lemma filter_upt_less: "length (filter (\<lambda>i. int i < s) [0..<m]) = min m (nat s)"
  by (induction m) auto

lemma interval_tick_eq:
  "(case timer_step u Tick of Inl _ \<Rightarrow> u | Inr u' \<Rightarrow> u') =
     timer_effect (if isActive u \<and> 0 < timeLeft u then u\<lparr>timeLeft := timeLeft u - 1\<rparr> else u)"
  by (simp add: timer_step_def)

lemma interval_loop_stops:
  assumes "isActive t \<longrightarrow> 0 \<le> timeLeft t"
  shows "\<exists>t'. interval_loop t = Some t' \<and> \<not> isActive t'"
proof -
  let ?c = "\<lambda>u. case timer_step u Tick of Inl _ \<Rightarrow> u | Inr u' \<Rightarrow> u'"
  have "\<exists>t'. while_option isActive ?c t = Some t'"
  proof (rule measure_while_option_Some [where f = "\<lambda>u. if isActive u then nat (timeLeft u) + 1 else 0"
           and P = "\<lambda>u. isActive u \<longrightarrow> 0 \<le> timeLeft u"])
    fix u :: timer assume p: "isActive u \<longrightarrow> 0 \<le> timeLeft u" and b: "isActive u"
    show "(isActive (?c u) \<longrightarrow> 0 \<le> timeLeft (?c u)) \<and>
          (if isActive (?c u) then nat (timeLeft (?c u)) + 1 else 0) < (if isActive u then nat (timeLeft u) + 1 else 0)"
      using p b by (auto simp: interval_tick_eq timer_effect_def timer_finished_fields)
  qed (rule assms)
  then obtain t' where "while_option isActive ?c t = Some t'" ..
  moreover from while_option_stop [OF this] have "\<not> isActive t'" .
  ultimately show ?thesis by (auto simp: interval_loop_def)
qed

lemma interval_loop_stuck:
  assumes "isActive t" "timeLeft t < 0"
  shows "interval_loop t = None"
proof (rule ccontr)
  let ?c = "\<lambda>u. case timer_step u Tick of Inl _ \<Rightarrow> u | Inr u' \<Rightarrow> u'"
  assume "interval_loop t \<noteq> None"
  then obtain t' where r: "while_option isActive ?c t = Some t'" by (auto simp: interval_loop_def)
  have fx: "?c t = t" using assms by (simp add: interval_tick_eq timer_effect_def)
  have "t' = t" by (rule while_option_rule [where P = "\<lambda>u. u = t", OF _ r]) (use fx in simp_all)
  moreover have "\<not> isActive t'" using while_option_stop [OF r] .
  ultimately show False using assms by simp
qed

declare timer_reach.intros [reach_intros]

section \<open>Properties\<close>

text \<open>C10: in every reachable state of the timer the preset index is valid, the countdown never rests at 0, the pet's happiness stays between 85 and 100, the session count is non-negative and the custom minutes are non-zero.\<close>

theorem timer_reach_inv: "timer_reach t \<Longrightarrow> timer_inv t"
proof (induction rule: timer_reach.induct)
  case init
  show ?case by (rule timer_inv_init)
next
  case (step t e t')
  then show ?case by (blast intro: timer_step_inv)
qed

text \<open>C11: a running work period completes: from an active work period with t seconds left, t interval ticks finish it, counting one more session, switching to a stopped break of the preset's break length.\<close>

theorem work_session_completes:
  assumes act: "isActive t" and work: "\<not> isBreak t" and pos: "0 < timeLeft t"
  shows "\<exists>t'. timer_run t (replicate (nat (timeLeft t)) Tick) = Inr t' \<and>
           sessions t' = sessions t + 1 \<and> isBreak t' \<and> \<not> isActive t' \<and> timeLeft t' = breakTime t"
  using timer_run_period [OF act pos] work by (simp add: timer_finished_fields)

text \<open>C12: the session counter grows by exactly one on the tick that ends a running work period and is unchanged by every other event.\<close>

theorem timer_step_sessions:
  "timer_inv t \<Longrightarrow> timer_step t e = Inr t' \<Longrightarrow>
   sessions t' = sessions t + (if e = Tick \<and> isActive t \<and> \<not> isBreak t \<and> timeLeft t = 1 then 1 else 0)"
proof -
  assume inv: "timer_inv t" and st: "timer_step t e = Inr t'"
  then obtain u where u: "timer_handler t e = Inr u" and t': "t' = timer_effect u"
    by (auto simp: timer_step_Inr_iff)
  show ?thesis
  proof (cases "timeLeft u = 0")
    case True
    with timer_handler_timeLeft_zero [OF inv u] t' show ?thesis
      by (simp add: timer_effect_def timer_finished_fields)
  next
    case False
    then have "sessions t' = sessions t"
      using t' timer_handler_sessions [OF u] by (simp add: timer_effect_def)
    moreover have "\<not> (e = Tick \<and> isActive t \<and> timeLeft t = 1)"
      using False u by auto
    ultimately show ?thesis by auto
  qed
qed

text \<open>C13: no event lowers the pet's happiness.\<close>

theorem timer_step_happiness_mono:
  "timer_inv t \<Longrightarrow> timer_step t e = Inr t' \<Longrightarrow> petHappiness t \<le> petHappiness t'"
proof -
  assume inv: "timer_inv t" and st: "timer_step t e = Inr t'"
  then obtain u where u: "timer_handler t e = Inr u" and t': "t' = timer_effect u"
    by (auto simp: timer_step_Inr_iff)
  have "petHappiness u = petHappiness t" by (rule timer_handler_happiness [OF u])
  moreover have "petHappiness t \<le> 100" using inv by (simp add: timer_inv_def)
  ultimately show ?thesis using timer_effect_happiness [of u] t' by simp
qed

text \<open>C14: as long as the custom timer is never set, the progress ring shows a percentage between 0 and 100.\<close>

theorem progress_bounds:
  "timer_run timer_init es = Inr t \<Longrightarrow> SetCustomTimer \<notin> set es \<Longrightarrow>
   0 \<le> getProgress t \<and> getProgress t \<le> 100"
proof -
  assume run: "timer_run timer_init es = Inr t" and nc: "SetCustomTimer \<notin> set es"
  have "preset_inv timer_init"
    by (simp add: preset_inv_def timer_inv_def timer_init_def workTime_def timerPresets_def)
  then have pi: "preset_inv t" using preset_inv_run [OF run _ nc] by blast
  then have "currentPreset t < 5" by (simp add: preset_inv_def timer_inv_def)
  then have "0 < (if isBreak t then breakTime t else workTime t)"
    using workTime_pos [of t] breakTime_pos [of t] by simp
  with pi show ?thesis
    unfolding getProgress_def Let_def preset_inv_def
    by (intro progress_percent_bounds) simp_all
qed

text \<open>C15: for 0 to 99:59, formatTime gives five characters MM:SS whose minutes and seconds read back to the number of seconds.\<close>

theorem formatTime_roundtrip:
  assumes "0 \<le> s" "s < 6000"
  shows "length (formatTime s) = 5 \<and> formatTime s ! 2 = CHR '':'' \<and>
         60 * int (dec_value (take 2 (formatTime s))) + int (dec_value (drop 3 (formatTime s))) = s"
proof -
  let ?a = "pad_start 2 CHR ''0'' (dec_string (nat (s div 60)))"
  let ?b = "pad_start 2 CHR ''0'' (dec_string (nat (s mod 60)))"
  have eq: "formatTime s = ?a @ '':'' @ ?b"
    using assms by (simp add: formatTime_def js_int_string_nonneg js_rem_nonneg)
  have la: "length ?a = 2" using assms by (intro length_pad2) simp
  have lb: "length ?b = 2" by (intro length_pad2) simp
  have va: "dec_value ?a = nat (s div 60)" by (simp add: dec_value_dec_string)
  have vb: "dec_value ?b = nat (s mod 60)" by (simp add: dec_value_dec_string)
  have "take 2 (formatTime s) = ?a" "drop 3 (formatTime s) = ?b"
    using la by (simp_all add: eq)
  moreover have "formatTime s ! 2 = CHR '':''"
    using la by (simp add: eq nth_append)
  moreover have "60 * int (nat (s div 60)) + int (nat (s mod 60)) = s"
  proof -
    have "0 \<le> s div 60" using assms by simp
    then show ?thesis by simp
  qed
  ultimately show ?thesis
    using la lb va vb by (simp add: eq)
qed

text \<open>Changing the preset throws a TypeError for an index outside the five presets; otherwise it stops the timer at the start of a work period of the preset's length (the effect finishes nothing).\<close>

lemma changePreset_result:
  "timer_step t (ChangePreset i) =
     (if i < length timerPresets
      then Inr (t\<lparr>currentPreset := i, isActive := False, isBreak := False,
                  timeLeft := work (timerPresets ! i) * 60\<rparr>)
      else Inl (TypeError ''timerPresets[presetIndex] is undefined''))"
  by (simp add: timer_step_def timer_effect_def)

text \<open>C17: the interval loop terminates exactly when it should not run forever: from an
  active timer with a non-negative time left (or an inactive one) the ticks and the effect
  stop the timer after finitely many seconds; from an active timer with a negative time left
  (reachable through a negative custom timer) the timer stays active forever: the code
  registers no interval then (time left is not positive), so no tick and no effect ever stops
  it; the loop's ticks there are no-ops, which is the same observable.\<close>

theorem interval_loop_terminates:
  "(\<exists>t'. interval_loop t = Some t' \<and> \<not> isActive t') \<longleftrightarrow> (0 \<le> timeLeft t \<or> \<not> isActive t)"
  using interval_loop_stops [of t] interval_loop_stuck [of t] by auto

text \<open>A custom timer with negative minutes (the input's min attribute is not enforced) is stuck: started, it shows -300 seconds and no number of ticks changes it, so the session never completes.\<close>

lemma negative_custom_timer_stuck:
  "\<exists>t. timer_run timer_init [CustomWorkInput (Some (-5)), SetCustomTimer, ToggleTimer] = Inr t \<and>
       isActive t \<and> timeLeft t = -300 \<and> (\<forall>n. timer_run t (replicate n Tick) = Inr t)"
proof -
  let ?t = "timer_init\<lparr>customWork := -5, isActive := True, timeLeft := -300, isBreak := False\<rparr>"
  have "timer_run timer_init [CustomWorkInput (Some (-5)), SetCustomTimer, ToggleTimer] = Inr ?t"
    by (simp add: timer_step_def timer_effect_def timer_init_def js_or_one_def)
  moreover have "\<forall>n. timer_run ?t (replicate n Tick) = Inr ?t"
    by (simp add: timer_run_ticks_negative)
  ultimately show ?thesis by auto
qed

text \<open>C18: a custom timer lasts one period only: whenever the timer switches between work and break, other than by pressing Set Custom Timer itself, the new period is the current preset's (the custom break is never used, and a custom work period is followed by the preset's break and then the preset's work time) and the timer waits stopped.\<close>

theorem custom_timer_reverts_to_preset:
  assumes "timer_step t e = Inr t'" "isBreak t' \<noteq> isBreak t" "e \<noteq> SetCustomTimer"
  shows "timeLeft t' = (if isBreak t' then brk else work) (timerPresets ! currentPreset t') * 60 \<and>
    \<not> isActive t'"
proof -
  obtain u where u: "timer_handler t e = Inr u" "t' = timer_effect u"
    using assms(1) timer_step_Inr_iff by blast
  show ?thesis
  proof (cases "isBreak (timer_effect u) = isBreak u")
    case True
    with u assms(2,3) show ?thesis
      by (cases e) (auto simp: timer_effect_def split: if_splits)
  next
    case False
    with u show ?thesis by (simp add: timer_effect_flip)
  qed
qed

text \<open>The session counter shows max(4, sessions) dots of which exactly sessions are filled.\<close>

theorem session_dots_filled:
  "0 \<le> sessions t \<Longrightarrow> length (filter id (session_dots t)) = nat (sessions t) \<and>
     length (session_dots t) = nat (max 4 (sessions t))"
  by (simp add: session_dots_def filter_map comp_def filter_upt_less)

text \<open>C20: the progress ring is not bounded once a custom timer is set: from any state with a valid preset, Set Custom Timer makes the progress negative exactly when the custom work minutes exceed the preset's (the ring measures against the preset's work time, not the custom one).\<close>

theorem custom_progress_negative:
  assumes "currentPreset t < length timerPresets" "timer_step t SetCustomTimer = Inr t'"
  shows "getProgress t' < 0 \<longleftrightarrow> work (timerPresets ! currentPreset t) < customWork t"
proof (cases "customWork t = 0")
  case True
  have "t' = timer_finished (t\<lparr>isActive := False, timeLeft := 0, isBreak := False\<rparr>)"
    using assms(2) True by (simp add: timer_step_def timer_effect_def)
  then have "getProgress t' = 0"
    by (simp add: getProgress_def timer_finished_fields breakTime_def)
  then show ?thesis using True timerPresets_pos [OF assms(1)] by simp
next
  case False
  define w where "w = work (timerPresets ! currentPreset t)"
  have w: "0 < w" using timerPresets_pos [OF assms(1)] by (simp add: w_def)
  have t': "t' = t\<lparr>isActive := False, timeLeft := customWork t * 60, isBreak := False\<rparr>"
    using assms(2) False by (simp add: timer_step_def timer_effect_def)
  have "getProgress t' = (of_int (w * 60) - of_int (customWork t * 60)) / of_int (w * 60) * 100"
    by (simp add: t' getProgress_def workTime_def w_def)
  also have "\<dots> < 0 \<longleftrightarrow> w < customWork t"
    using w by (simp add: divide_less_0_iff mult_less_0_iff)
  finally show ?thesis by (simp add: w_def)
qed

section \<open>Witnesses\<close>

definition timer_running :: timer where
  "timer_running = timer_init\<lparr>isActive := True\<rparr>"

lemma timer_running_reach: "timer_reach timer_running"
proof (rule timer_reach.step [OF timer_reach.init])
  show "timer_step timer_init ToggleTimer = Inr timer_running"
    by (simp add: timer_step_def timer_effect_def timer_init_def timer_running_def)
qed

theorem timer_reach_inv_witness: "timer_reach timer_running \<and> timer_inv timer_running"
  using timer_running_reach timer_reach_inv [OF timer_running_reach] by simp

theorem work_session_completes_witness:
  "isActive timer_running \<and> \<not> isBreak timer_running \<and> 0 < timeLeft timer_running \<and>
   (\<exists>t'. timer_run timer_running (replicate 1500 Tick) = Inr t' \<and> sessions t' = 1 \<and>
        isBreak t' \<and> \<not> isActive t' \<and> timeLeft t' = 300)"
proof -
  have h: "isActive timer_running" "\<not> isBreak timer_running" "0 < timeLeft timer_running"
    by (simp_all add: timer_running_def timer_init_def)
  have b: "breakTime timer_running = 300"
    by (simp add: breakTime_def timer_running_def timer_init_def timerPresets_def)
  have n: "nat (timeLeft timer_running) = 1500" "sessions timer_running = 0"
    by (simp_all add: timer_running_def timer_init_def)
  show ?thesis using h work_session_completes [OF h] b n by simp
qed

definition timer_last_second :: timer where
  "timer_last_second = timer_init\<lparr>isActive := True, timeLeft := 1\<rparr>"

theorem timer_step_sessions_witness:
  "timer_inv timer_last_second \<and>
   timer_step timer_last_second Tick = Inr (timer_finished (timer_last_second\<lparr>timeLeft := 0\<rparr>)) \<and>
   sessions (timer_finished (timer_last_second\<lparr>timeLeft := 0\<rparr>)) = 1"
proof -
  have h1: "timer_inv timer_last_second"
    by (simp add: timer_inv_def timer_last_second_def timer_init_def)
  have h2: "timer_step timer_last_second Tick = Inr (timer_finished (timer_last_second\<lparr>timeLeft := 0\<rparr>))"
    by (simp add: timer_step_def timer_effect_def timer_last_second_def)
  have "sessions timer_last_second = 0" "isActive timer_last_second"
       "\<not> isBreak timer_last_second" "timeLeft timer_last_second = 1"
    by (simp_all add: timer_last_second_def timer_init_def)
  then show ?thesis using h1 h2 timer_step_sessions [OF h1 h2] by simp
qed

theorem timer_step_happiness_mono_witness:
  "timer_inv timer_last_second \<and>
   timer_step timer_last_second Tick = Inr (timer_finished (timer_last_second\<lparr>timeLeft := 0\<rparr>)) \<and>
   petHappiness timer_last_second \<le> petHappiness (timer_finished (timer_last_second\<lparr>timeLeft := 0\<rparr>))"
proof -
  have h1: "timer_inv timer_last_second"
    by (simp add: timer_inv_def timer_last_second_def timer_init_def)
  have h2: "timer_step timer_last_second Tick = Inr (timer_finished (timer_last_second\<lparr>timeLeft := 0\<rparr>))"
    by (simp add: timer_step_def timer_effect_def timer_last_second_def)
  show ?thesis using h1 h2 timer_step_happiness_mono [OF h1 h2] by simp
qed

theorem progress_bounds_witness:
  "timer_run timer_init [ToggleTimer, Tick] = Inr (timer_running\<lparr>timeLeft := 1499\<rparr>) \<and>
   SetCustomTimer \<notin> set [ToggleTimer, Tick] \<and>
   0 \<le> getProgress (timer_running\<lparr>timeLeft := 1499\<rparr>) \<and> getProgress (timer_running\<lparr>timeLeft := 1499\<rparr>) \<le> 100"
proof -
  have h1: "timer_run timer_init [ToggleTimer, Tick] = Inr (timer_running\<lparr>timeLeft := 1499\<rparr>)"
    by (simp add: timer_step_def timer_effect_def timer_init_def timer_running_def)
  have h2: "SetCustomTimer \<notin> set [ToggleTimer, Tick]" by simp
  show ?thesis using h1 h2 progress_bounds [OF h1 h2] by simp
qed

theorem formatTime_roundtrip_witness:
  "0 \<le> (1500::int) \<and> (1500::int) < 6000 \<and> formatTime 1500 = ''25:00'' \<and>
   60 * int (dec_value (take 2 (formatTime 1500))) + int (dec_value (drop 3 (formatTime 1500))) = 1500"
proof -
  have h: "0 \<le> (1500::int)" "(1500::int) < 6000" by simp_all
  have f: "formatTime 1500 = ''25:00''"
    by code_simp
  show ?thesis using h f formatTime_roundtrip [OF h] by simp
qed

theorem session_dots_filled_witness:
  "0 \<le> sessions (timer_init\<lparr>sessions := 6\<rparr>) \<and>
   length (filter id (session_dots (timer_init\<lparr>sessions := 6\<rparr>))) = 6 \<and>
   length (session_dots (timer_init\<lparr>sessions := 6\<rparr>)) = 6"
proof -
  have h: "0 \<le> sessions (timer_init\<lparr>sessions := 6\<rparr>)" by simp
  show ?thesis using h session_dots_filled [OF h] by simp
qed

theorem interval_loop_terminates_witness:
  "(0 \<le> timeLeft timer_running \<or> \<not> isActive timer_running) \<and>
   (\<exists>t'. interval_loop timer_running = Some t' \<and> \<not> isActive t')"
proof -
  have h: "0 \<le> timeLeft timer_running \<or> \<not> isActive timer_running"
    by (simp add: timer_running_def timer_init_def)
  show ?thesis using h interval_loop_terminates [of timer_running] by simp
qed

text \<open>C16: no button or input the timer renders throws: every event the render offers
  (the interval, the preset buttons, the custom timer inputs while shown, the badge timeout)
  is handled without error, since the \<open>TypeError\<close> of \<open>changePreset\<close> needs an index that no
  preset button passes.\<close>

theorem timer_offered_no_error: "timer_offered t e \<Longrightarrow> \<exists>t'. timer_step t e = Inr t'"
  by (cases e) (simp_all add: timer_step_def)

text \<open>The working pet is drawn inside its 80px box: all 42 pixels of the cat lie within it.\<close>

lemma cat_elements_inside:
  "length cat_elements = 42 \<and>
   list_all (\<lambda>e. case e of Pixel p \<Rightarrow> 0 \<le> px_left p \<and> px_left p + 3 \<le> 80 \<and> 0 \<le> px_top p \<and> px_top p + 3 \<le> 80
                         | _ \<Rightarrow> False) cat_elements"
  by code_simp

lemma working_pet_pixels:
  "length (filter (\<lambda>e. case e of Pixel _ \<Rightarrow> True | _ \<Rightarrow> False) (renderWorkingActivity a)) = 42 \<and>
   list_all (\<lambda>e. case e of Pixel p \<Rightarrow> 0 \<le> px_left p \<and> px_left p + 3 \<le> 80 \<and> 0 \<le> px_top p \<and> px_top p + 3 \<le> 80
                         | _ \<Rightarrow> True) (renderWorkingActivity a)"
proof -
  have c: "length cat_elements = 42"
    "list_all (\<lambda>e. case e of Pixel p \<Rightarrow> 0 \<le> px_left p \<and> px_left p + 3 \<le> 80 \<and> 0 \<le> px_top p \<and> px_top p + 3 \<le> 80
                         | _ \<Rightarrow> False) cat_elements"
    using cat_elements_inside by simp_all
  have "filter (\<lambda>e. case e of Pixel _ \<Rightarrow> True | _ \<Rightarrow> False) cat_elements = cat_elements"
    using c(2) by (auto simp: filter_id_conv list_all_iff split: pet_element.splits)
  moreover have "list_all (\<lambda>e. case e of Pixel p \<Rightarrow> 0 \<le> px_left p \<and> px_left p + 3 \<le> 80 \<and> 0 \<le> px_top p \<and> px_top p + 3 \<le> 80
                         | _ \<Rightarrow> True) cat_elements"
    using c(2) by (rule list.pred_mono_strong) (auto split: pet_element.splits)
  ultimately show ?thesis using c(1) by (simp add: renderWorkingActivity_def)
qed

text \<open>The preset buttons highlight exactly the current preset.\<close>

lemma timer_render_presets:
  "map (snd \<circ> snd) (tv_presets (timer_render t)) = map (\<lambda>i. currentPreset t = i) [0..<5]"
  by (simp add: timer_render_def split_def timerPresets_def upt_conv_Cons)

theorem timer_offered_no_error_witness:
  "timer_offered timer_init (ChangePreset 4) \<and> (\<exists>t'. timer_step timer_init (ChangePreset 4) = Inr t')"
proof -
  have h: "timer_offered timer_init (ChangePreset 4)" by simp
  show ?thesis using h timer_offered_no_error [OF h] by simp
qed

theorem custom_timer_reverts_to_preset_witness:
  "timer_step timer_last_second Tick = Inr (timer_finished (timer_last_second\<lparr>timeLeft := 0\<rparr>)) \<and>
   timeLeft (timer_finished (timer_last_second\<lparr>timeLeft := 0\<rparr>)) = 300"
proof -
  have h: "timer_step timer_last_second Tick = Inr (timer_finished (timer_last_second\<lparr>timeLeft := 0\<rparr>))"
    by (simp add: timer_step_def timer_effect_def timer_last_second_def)
  have f: "isBreak (timer_finished (timer_last_second\<lparr>timeLeft := 0\<rparr>)) \<noteq> isBreak timer_last_second"
    "currentPreset (timer_finished (timer_last_second\<lparr>timeLeft := 0\<rparr>)) = 0"
    "isBreak (timer_finished (timer_last_second\<lparr>timeLeft := 0\<rparr>))"
    by (simp_all add: timer_finished_fields timer_last_second_def timer_init_def)
  show ?thesis using h f custom_timer_reverts_to_preset [OF h f(1)] by (simp add: timerPresets_def)
qed

theorem custom_progress_negative_witness:
  "timer_step (timer_init\<lparr>customWork := 50\<rparr>) SetCustomTimer =
     Inr (timer_init\<lparr>customWork := 50, timeLeft := 3000\<rparr>) \<and>
   getProgress (timer_init\<lparr>customWork := 50, timeLeft := 3000\<rparr>) < 0"
proof -
  have h1: "currentPreset (timer_init\<lparr>customWork := 50\<rparr>) < length timerPresets"
    by (simp add: timer_init_def timerPresets_def)
  have h2: "timer_step (timer_init\<lparr>customWork := 50\<rparr>) SetCustomTimer =
     Inr (timer_init\<lparr>customWork := 50, timeLeft := 3000\<rparr>)"
    by (simp add: timer_step_def timer_effect_def timer_init_def)
  have "work (timerPresets ! currentPreset (timer_init\<lparr>customWork := 50\<rparr>)) < customWork (timer_init\<lparr>customWork := 50\<rparr>)"
    by (simp add: timer_init_def timerPresets_def)
  then show ?thesis using h2 custom_progress_negative [OF h1 h2] by simp
qed

end
