(* ===== verification/MoodLog.thy ===== *)
theory MoodLog
  imports Prelude "HOL-Library.Multiset"
begin

text \<open>
  The mood logger of \<open>src/src/components/MoodLogger.tsx\<close>. The history is a list of
  entries keyed by ISO date; \<open>logMood\<close> replaces today's entry in place when there is one
  and otherwise appends the new entry and sorts the history by date (\<open>localeCompare\<close>,
  which on fixed-format ISO dates is the lexicographic order, and a stable sort, which is
  \<open>sort_key\<close>). "Today" is the UTC date \<open>new Date().toISOString().split('T')[0]\<close>,
  passed in as a parameter. The averages are kept exactly: \<open>toFixed(1)\<close> is the average
  rounded to tenths (half up), here as an integer number of tenths.
\<close>

section \<open>State\<close>

record mood_entry =
  me_date :: js_date
  mood :: int
  entry_note :: "string option"

definition moodLabels :: "string list" where
  "moodLabels = [''Very Sad'', ''Sad'', ''Neutral'', ''Happy'', ''Very Happy'']"

record mood_state =
  currentMood :: "int option"
  currentNote :: string
  moodHistory :: "mood_entry list"

definition mood_init :: mood_state where
  "mood_init =
    \<lparr>currentMood = None, currentNote = [],
     moodHistory =
      [\<lparr>me_date = ''2025-08-29'', mood = 4, entry_note = Some ''Great day at work!''\<rparr>,
       \<lparr>me_date = ''2025-08-30'', mood = 3, entry_note = Some ''Normal day, nothing special''\<rparr>,
       \<lparr>me_date = ''2025-08-31'', mood = 5, entry_note = Some ''Weekend vibes! Feeling amazing!''\<rparr>,
       \<lparr>me_date = ''2025-09-01'', mood = 3, entry_note = Some ''Back to work, feeling okay''\<rparr>,
       \<lparr>me_date = ''2025-09-02'', mood = 4, entry_note = Some ''Productive day, accomplished a lot''\<rparr>]\<rparr>"

section \<open>Handlers\<close>

text \<open>\<open>logMood\<close>: nothing without a selected mood; otherwise today's entry is replaced at the
  index \<open>findIndex\<close> returns, or the entry is appended and the history sorted by date; the
  selection and the note are cleared. An empty note is stored as \<open>undefined\<close>.\<close>

definition logMood :: "js_date \<Rightarrow> mood_state \<Rightarrow> mood_state" where
  "logMood today s =
     (case currentMood s of
        None \<Rightarrow> s
      | Some m \<Rightarrow>
          (let newEntry = \<lparr>me_date = today, mood = m,
                           entry_note = (if currentNote s = [] then None else Some (currentNote s))\<rparr>;
               hist = (case find_index (\<lambda>e. me_date e = today) (moodHistory s) of
                         Some i \<Rightarrow> (moodHistory s)[i := newEntry]
                       | None \<Rightarrow> sort_key me_date (moodHistory s @ [newEntry]))
           in s\<lparr>moodHistory := hist, currentMood := None, currentNote := []\<rparr>))"

text \<open>The mood buttons set \<open>index + 1\<close> for the five emoji; the note area sets the note.\<close>

datatype mood_event = SelectMood nat | SetNote string | LogMood js_date

fun mood_step :: "mood_state \<Rightarrow> mood_event \<Rightarrow> mood_state" where
  "mood_step s (SelectMood i) = (if i < 5 then s\<lparr>currentMood := Some (int i + 1)\<rparr> else s)"
| "mood_step s (SetNote n) = s\<lparr>currentNote := n\<rparr>"
| "mood_step s (LogMood today) = logMood today s"

inductive mood_reach :: "mood_state \<Rightarrow> bool" where
  init: "mood_reach mood_init"
| step: "mood_reach s \<Longrightarrow> mood_reach (mood_step s e)"

section \<open>What the logger renders\<close>

definition getTodaysMood :: "js_date \<Rightarrow> mood_state \<Rightarrow> mood_entry option" where
  "getTodaysMood today s = find (\<lambda>e. me_date e = today) (moodHistory s)"

text \<open>\<open>getAverageMood\<close> in tenths: 0 for an empty history, otherwise the average rounded to
  one decimal.\<close>

definition getAverageMood_tenths :: "mood_state \<Rightarrow> int" where
  "getAverageMood_tenths s =
     (if moodHistory s = [] then 0
      else js_round_div (10 * sum_list (map mood (moodHistory s))) (int (length (moodHistory s))))"

text \<open>The emoji index of the average card: \<open>Math.round(parseFloat(avg)) - 1\<close> when there are
  entries (\<open>None\<close>: the neutral placeholder is shown).\<close>

definition average_emoji_index :: "mood_state \<Rightarrow> int option" where
  "average_emoji_index s =
     (if moodHistory s = [] then None else Some (js_round_div (getAverageMood_tenths s) 10 - 1))"

text \<open>The label of today's entry, \<open>moodLabels[todaysMood.mood - 1]\<close>.\<close>

definition todays_label :: "js_date \<Rightarrow> mood_state \<Rightarrow> string option" where
  "todays_label today s = map_option (\<lambda>e. moodLabels ! nat (mood e - 1)) (getTodaysMood today s)"

text \<open>"Entries Logged" and the five most recent entries, newest first.\<close>

definition entries_logged :: "mood_state \<Rightarrow> nat" where
  "entries_logged s = length (moodHistory s)"

definition recent_entries :: "mood_state \<Rightarrow> mood_entry list" where
  "recent_entries s = rev (js_slice_from (-5) (moodHistory s))"

text \<open>The five mood emoji (\<open>moodEmojis\<close>, by code point) and the parts of the render that
  read the state: the title and current mood of the selection card, the five mood buttons with
  the highlighted one, the note and log button shown once a mood is selected, the average and
  count cards, the chart's points with the tooltip's label, and the recent entries, whose
  \<open>toLocaleDateString()\<close> is a parameter \<open>locale\<close>.\<close>

definition moodEmojis :: "string list" where
  "moodEmojis = [''U+1F622'', ''U+1F61F'', ''U+1F610'', ''U+1F60A'', ''U+1F604'']"

definition mood_card_title :: "js_date \<Rightarrow> mood_state \<Rightarrow> string" where
  "mood_card_title today s = (if getTodaysMood today s = None then ''Log Your Mood'' else ''Update Today's Mood'')"

definition todays_current :: "js_date \<Rightarrow> mood_state \<Rightarrow> string option" where
  "todays_current today s =
     map_option (\<lambda>e. ''Current: '' @ moodEmojis ! nat (mood e - 1) @ '' '' @ moodLabels ! nat (mood e - 1))
       (getTodaysMood today s)"

definition mood_buttons :: "mood_state \<Rightarrow> (string \<times> bool) list" where
  "mood_buttons s = map (\<lambda>i. (moodEmojis ! i, currentMood s = Some (int i + 1))) [0..<5]"

definition log_button :: "js_date \<Rightarrow> mood_state \<Rightarrow> string option" where
  "log_button today s =
     (case currentMood s of
        None \<Rightarrow> None
      | Some _ \<Rightarrow> Some (if getTodaysMood today s = None then ''Log Mood'' else ''Update Mood''))"

definition average_card :: "mood_state \<Rightarrow> string \<times> string" where
  "average_card s =
     ((case average_emoji_index s of None \<Rightarrow> ''U+1F610'' | Some k \<Rightarrow> moodEmojis ! nat k),
      (if moodHistory s = [] then ''0'' else js_fixed1 (getAverageMood_tenths s)) @ ''/5'')"

definition entries_card :: "mood_state \<Rightarrow> string" where
  "entries_card s = js_int_string (int (entries_logged s)) @ '' days''"

definition mood_chart :: "mood_state \<Rightarrow> (js_date \<times> int) list" where
  "mood_chart s = map (\<lambda>e. (me_date e, mood e)) (moodHistory s)"

definition mood_tooltip :: "int \<Rightarrow> string" where
  "mood_tooltip v = moodLabels ! nat (v - 1)"

definition recent_view :: "(js_date \<Rightarrow> string) \<Rightarrow> mood_state \<Rightarrow> (string \<times> string \<times> string \<times> string option) list" where
  "recent_view locale s =
     map (\<lambda>e. (moodEmojis ! nat (mood e - 1), locale (me_date e), moodLabels ! nat (mood e - 1), entry_note e))
       (recent_entries s)"

section \<open>The history invariant\<close>

definition mood_inv :: "mood_state \<Rightarrow> bool" where
  "mood_inv s \<longleftrightarrow>
     sorted (map me_date (moodHistory s)) \<and> distinct (map me_date (moodHistory s)) \<and>
     (\<forall>e \<in> set (moodHistory s). 1 \<le> mood e \<and> mood e \<le> 5) \<and>
     (\<forall>m. currentMood s = Some m \<longrightarrow> 1 \<le> m \<and> m \<le> 5)"

text \<open>The map a history stands for: the mood and the note logged for each date. On a
  history with one entry per date this is the abstract state of the spec's mood log.\<close>

definition mood_map :: "mood_entry list \<Rightarrow> js_date \<rightharpoonup> int \<times> string option" where
  "mood_map h = map_of (map (\<lambda>e. (me_date e, (mood e, entry_note e))) h)"

section \<open>Lemmas\<close>

lemma logMood_None [simp]: "currentMood s = None \<Longrightarrow> logMood today s = s"
  by (simp add: logMood_def)

lemma logMood_inv:
  assumes inv: "mood_inv s" shows "mood_inv (logMood today s)"
proof (cases "currentMood s")
  case None
  with inv show ?thesis by simp
next
  case (Some m)
  note cm = this
  define ne where "ne = \<lparr>me_date = today, mood = m,
                      entry_note = (if currentNote s = [] then None else Some (currentNote s))\<rparr>"
  have m: "1 \<le> m \<and> m \<le> 5" using inv cm by (simp add: mood_inv_def)
  have cur: "currentMood (logMood today s) = None" using cm by (simp add: logMood_def Let_def)
  show ?thesis
  proof (cases "find_index (\<lambda>e. me_date e = today) (moodHistory s)")
    case None
    then have notin: "today \<notin> set (map me_date (moodHistory s))" by auto
    have h: "moodHistory (logMood today s) = sort_key me_date (moodHistory s @ [ne])"
      using cm None by (simp add: logMood_def Let_def ne_def del: find_index_None)
    show ?thesis
      using inv m notin cur
      by (auto simp: mood_inv_def h distinct_map_sort_key ne_def)
  next
    case (Some i)
    have i: "i < length (moodHistory s)" "me_date (moodHistory s ! i) = today"
      using find_index_Some [OF Some] by auto
    have h: "moodHistory (logMood today s) = (moodHistory s)[i := ne]"
      using cm Some by (simp add: logMood_def Let_def ne_def)
    have d: "map me_date ((moodHistory s)[i := ne]) = map me_date (moodHistory s)"
      using i by (intro map_update_same_key) (simp_all add: ne_def)
    have range: "\<forall>e \<in> set ((moodHistory s)[i := ne]). 1 \<le> mood e \<and> mood e \<le> 5"
      using inv m by (auto simp: mood_inv_def ne_def dest!: set_update_subset_insert [THEN subsetD])
    show ?thesis
      unfolding mood_inv_def h d using inv range cur by (simp add: mood_inv_def)
  qed
qed

lemma mood_step_inv: "mood_inv s \<Longrightarrow> mood_inv (mood_step s e)"
proof (cases e)
  case (LogMood d)
  assume "mood_inv s"
  with LogMood show ?thesis by (simp add: logMood_inv)
qed (auto simp: mood_inv_def)

lemma mood_inv_init: "mood_inv mood_init"
  by (simp add: mood_inv_def mood_init_def)

section \<open>Properties\<close>

text \<open>C21: every reachable state of the mood logger keeps the history strictly sorted by date (one entry per day) with every mood, and the selected mood, between 1 and 5.\<close>

theorem mood_reach_inv: "mood_reach s \<Longrightarrow> mood_inv s"
proof (induction rule: mood_reach.induct)
  case init
  show ?case by (rule mood_inv_init)
next
  case (step s e)
  from step.IH show ?case by (rule mood_step_inv)
qed

text \<open>C22: after logging a selected mood, today's entry is exactly the new one: this mood and the note (an empty note stored as undefined).\<close>

theorem logMood_todays_mood:
  "currentMood s = Some m \<Longrightarrow>
   getTodaysMood today (logMood today s) =
     Some \<lparr>me_date = today, mood = m,
           entry_note = (if currentNote s = [] then None else Some (currentNote s))\<rparr>"
proof (cases "find_index (\<lambda>e. me_date e = today) (moodHistory s)")
  case None
  assume cm: "currentMood s = Some m"
  have "filter (\<lambda>e. me_date e = today) (moodHistory s) = []"
    using None by (simp add: filter_empty_conv)
  with cm None show ?thesis
    by (simp add: logMood_def Let_def getTodaysMood_def find_conv_filter filter_sort
        del: find_index_None)
next
  case (Some i)
  assume cm: "currentMood s = Some m"
  then show ?thesis
    using Some by (simp add: logMood_def Let_def getTodaysMood_def find_update_found)
qed

text \<open>Logging a mood adds an entry only on a day without one; a second log on the same day replaces the entry in place.\<close>

lemma logMood_length:
  "currentMood s = Some m \<Longrightarrow>
   length (moodHistory (logMood today s)) =
     length (moodHistory s) + (if today \<in> me_date ` set (moodHistory s) then 0 else 1)"
proof (cases "find_index (\<lambda>e. me_date e = today) (moodHistory s)")
  case None
  assume "currentMood s = Some m"
  moreover have "today \<notin> me_date ` set (moodHistory s)" using None by auto
  ultimately show ?thesis using None by (simp add: logMood_def Let_def del: find_index_None)
next
  case (Some i)
  assume "currentMood s = Some m"
  moreover have "today \<in> me_date ` set (moodHistory s)"
    using find_index_Some [OF Some] by (metis image_eqI nth_mem)
  ultimately show ?thesis using Some by (simp add: logMood_def Let_def)
qed

text \<open>On a date-sorted history, logging a mood leaves the entries of every other day untouched and in order.\<close>

lemma logMood_keeps_other_days:
  "sorted (map me_date (moodHistory s)) \<Longrightarrow>
   filter (\<lambda>e. me_date e \<noteq> today) (moodHistory (logMood today s)) =
   filter (\<lambda>e. me_date e \<noteq> today) (moodHistory s)"
proof (cases "currentMood s")
  case None
  then show ?thesis by simp
next
  case (Some m)
  note cm = this
  assume sorted: "sorted (map me_date (moodHistory s))"
  show ?thesis
  proof (cases "find_index (\<lambda>e. me_date e = today) (moodHistory s)")
    case None
    have "sorted (map me_date (filter (\<lambda>e. me_date e \<noteq> today) (moodHistory s)))"
      using sorted by (simp add: sorted_filter)
    then show ?thesis
      using cm None
      by (simp add: logMood_def Let_def filter_sort sort_key_id_if_sorted del: find_index_None)
  next
    case (Some i)
    have i: "i < length (moodHistory s)" "me_date (moodHistory s ! i) = today"
      using find_index_Some [OF Some] by auto
    from cm Some i show ?thesis
      by (simp add: logMood_def Let_def filter_update_other)
  qed
qed

text \<open>C25: with moods between 1 and 5, the average card's emoji index Math.round(average) - 1 lies within the five emoji.\<close>

theorem average_emoji_in_range:
  "mood_inv s \<Longrightarrow> moodHistory s \<noteq> [] \<Longrightarrow>
   \<exists>k. average_emoji_index s = Some k \<and> 0 \<le> k \<and> k \<le> 4"
proof -
  assume inv: "mood_inv s" and ne: "moodHistory s \<noteq> []"
  let ?n = "int (length (moodHistory s))"
  let ?sum = "sum_list (map mood (moodHistory s))"
  have n: "0 < ?n" using ne by simp
  have sb: "1 * ?n \<le> ?sum \<and> ?sum \<le> 5 * ?n"
    using inv by (intro sum_list_bounds) (simp add: mood_inv_def)
  have "js_round_div (10 * ?n) ?n \<le> js_round_div (10 * ?sum) ?n"
    using n sb by (intro js_round_div_mono) simp_all
  moreover have "js_round_div (10 * ?sum) ?n \<le> js_round_div (50 * ?n) ?n"
    using n sb by (intro js_round_div_mono) simp_all
  ultimately have t: "10 \<le> getAverageMood_tenths s \<and> getAverageMood_tenths s \<le> 50"
    using n ne by (simp add: getAverageMood_tenths_def js_round_div_exact)
  have "js_round_div (1 * 10) 10 \<le> js_round_div (getAverageMood_tenths s) 10"
    using t by (intro js_round_div_mono) simp_all
  moreover have "js_round_div (getAverageMood_tenths s) 10 \<le> js_round_div (5 * 10) 10"
    using t by (intro js_round_div_mono) simp_all
  ultimately have "1 \<le> js_round_div (getAverageMood_tenths s) 10 \<and>
                   js_round_div (getAverageMood_tenths s) 10 \<le> 5"
    by (simp only: js_round_div_exact [of 10] zero_less_numeral)
  then show ?thesis using ne by (simp add: average_emoji_index_def)
qed

text \<open>C26: logging a mood refines the spec's map update: on a history with one entry per
  date, the map from dates to (mood, note) after \<open>logMood\<close> is the map before, updated at
  today with the selected mood and the note, whether today had an entry (replaced in place)
  or not (appended and re-sorted).\<close>

theorem logMood_refines_map_update:
  assumes "mood_inv s" "currentMood s = Some m"
  shows "mood_map (moodHistory (logMood today s)) =
           (mood_map (moodHistory s))(today \<mapsto> (m, if currentNote s = [] then None else Some (currentNote s)))"
proof -
  define ne where "ne = \<lparr>me_date = today, mood = m,
                      entry_note = (if currentNote s = [] then None else Some (currentNote s))\<rparr>"
  define g where "g = (\<lambda>e::mood_entry. (me_date e, (mood e, entry_note e)))"
  have d: "distinct (map fst (map g (moodHistory s)))"
    using assms(1) by (simp add: mood_inv_def g_def comp_def)
  show ?thesis
  proof (cases "find_index (\<lambda>e. me_date e = today) (moodHistory s)")
    case None
    have h: "moodHistory (logMood today s) = sort_key me_date (moodHistory s @ [ne])"
      using assms(2) None by (simp add: logMood_def Let_def ne_def del: find_index_None)
    have fresh: "today \<notin> set (map fst (map g (moodHistory s)))"
      using None by (auto simp: g_def)
    have "map_of (map g (sort_key me_date (moodHistory s @ [ne]))) = map_of (map g (moodHistory s) @ [g ne])"
      by (rule map_of_inject_set [THEN iffD2])
        (use d fresh in \<open>simp_all add: g_def ne_def comp_def distinct_map_sort_key\<close>)
    also have "\<dots> = (map_of (map g (moodHistory s)))(today \<mapsto> snd (g ne))"
      using map_of_snoc_fresh [OF fresh, of "snd (g ne)"] by (simp add: g_def ne_def)
    finally show ?thesis by (simp add: mood_map_def h g_def ne_def)
  next
    case (Some i)
    have i: "i < length (moodHistory s)" "me_date (moodHistory s ! i) = today"
      using find_index_Some [OF Some] by auto
    have h: "moodHistory (logMood today s) = (moodHistory s)[i := ne]"
      using assms(2) Some by (simp add: logMood_def Let_def ne_def)
    have "map_of ((map g (moodHistory s))[i := g ne]) = (map_of (map g (moodHistory s)))(today \<mapsto> snd (g ne))"
      using d i by (simp add: g_def ne_def map_of_update_key)
    then show ?thesis by (simp add: mood_map_def h map_update flip: g_def) (simp add: g_def ne_def)
  qed
qed

text \<open>Logging mood 4 and then mood 2 on a new day leaves one entry for that day, with mood 2, and six entries in all.\<close>

lemma mood_scenario_same_day:
  "let d = ''2025-09-03'';
       s1 = logMood d (mood_init\<lparr>currentMood := Some 4\<rparr>);
       s2 = logMood d (s1\<lparr>currentMood := Some 2\<rparr>)
   in filter (\<lambda>e. me_date e = d) (moodHistory s2) = [\<lparr>me_date = d, mood = 2, entry_note = None\<rparr>] \<and>
      length (moodHistory s2) = 6 \<and> entries_logged s2 = 6 \<and>
      getTodaysMood d s2 = Some \<lparr>me_date = d, mood = 2, entry_note = None\<rparr>"
  by (simp add: Let_def logMood_def mood_init_def getTodaysMood_def entries_logged_def)


section \<open>Witnesses\<close>

definition mood_selected :: mood_state where
  "mood_selected = mood_init\<lparr>currentMood := Some 4\<rparr>"

theorem mood_reach_inv_witness:
  "mood_reach (mood_step mood_init (SelectMood 3)) \<and> mood_inv (mood_step mood_init (SelectMood 3))"
proof -
  have r: "mood_reach (mood_step mood_init (SelectMood 3))"
    by (rule mood_reach.step [OF mood_reach.init])
  show ?thesis using r mood_reach_inv [OF r] by simp
qed

theorem logMood_todays_mood_witness:
  "currentMood mood_selected = Some 4 \<and>
   getTodaysMood ''2025-09-03'' (logMood ''2025-09-03'' mood_selected) =
     Some \<lparr>me_date = ''2025-09-03'', mood = 4, entry_note = None\<rparr>"
proof -
  have h: "currentMood mood_selected = Some 4" by (simp add: mood_selected_def)
  have n: "currentNote mood_selected = []" by (simp add: mood_selected_def mood_init_def)
  show ?thesis using h n logMood_todays_mood [OF h, of "''2025-09-03''"] by simp
qed

theorem logMood_length_witness:
  "currentMood mood_selected = Some 4 \<and>
   length (moodHistory (logMood ''2025-09-02'' mood_selected)) = 5"
proof -
  have h: "currentMood mood_selected = Some 4" by (simp add: mood_selected_def)
  have d: "''2025-09-02'' \<in> me_date ` set (moodHistory mood_selected)"
    by (simp add: mood_selected_def mood_init_def)
  have l: "length (moodHistory mood_selected) = 5" by (simp add: mood_selected_def mood_init_def)
  show ?thesis using h d l logMood_length [OF h, of "''2025-09-02''"] by simp
qed

theorem logMood_keeps_other_days_witness:
  "sorted (map me_date (moodHistory mood_selected)) \<and>
   filter (\<lambda>e. me_date e \<noteq> ''2025-09-01'') (moodHistory (logMood ''2025-09-01'' mood_selected)) =
   filter (\<lambda>e. me_date e \<noteq> ''2025-09-01'') (moodHistory mood_selected)"
proof -
  have h: "sorted (map me_date (moodHistory mood_selected))"
    by (simp add: mood_selected_def mood_init_def)
  show ?thesis using h logMood_keeps_other_days [OF h] by simp
qed

theorem average_emoji_in_range_witness:
  "mood_inv mood_init \<and> moodHistory mood_init \<noteq> [] \<and>
   (\<exists>k. average_emoji_index mood_init = Some k \<and> 0 \<le> k \<and> k \<le> 4)"
proof -
  have h1: "mood_inv mood_init" by (simp add: mood_inv_def mood_init_def)
  have h2: "moodHistory mood_init \<noteq> []" by (simp add: mood_init_def)
  show ?thesis using h1 h2 average_emoji_in_range [OF h1 h2] by simp
qed

theorem logMood_refines_map_update_witness:
  "mood_inv mood_selected \<and> currentMood mood_selected = Some 4 \<and>
   mood_map (moodHistory (logMood ''2025-09-01'' mood_selected)) =
     (mood_map (moodHistory mood_selected))(''2025-09-01'' \<mapsto> (4, None))"
proof -
  have h1: "mood_inv mood_selected" by (simp add: mood_inv_def mood_selected_def mood_init_def)
  have h2: "currentMood mood_selected = Some 4" by (simp add: mood_selected_def)
  have n: "currentNote mood_selected = []" by (simp add: mood_selected_def mood_init_def)
  show ?thesis using h1 h2 n logMood_refines_map_update [OF h1 h2, of "''2025-09-01''"] by simp
qed

text \<open>On every state with moods in 1..5 the recent entries index the emoji and the labels
  within bounds (\<open>moodEmojis[entry.mood - 1]\<close> is never \<open>undefined\<close>).\<close>

lemma recent_view_in_range:
  "mood_inv s \<Longrightarrow>
   list_all (\<lambda>(em, d, l, n). em \<in> set moodEmojis \<and> l \<in> set moodLabels) (recent_view locale s)"
proof -
  assume inv: "mood_inv s"
  have "\<forall>e \<in> set (recent_entries s). 1 \<le> mood e \<and> mood e \<le> 5"
    using inv set_js_slice_from [of "-5" "moodHistory s"] by (auto simp: mood_inv_def recent_entries_def)
  then have "\<forall>e \<in> set (recent_entries s). nat (mood e - 1) < 5" by auto
  moreover have "length moodEmojis = 5" "length moodLabels = 5"
    by (simp_all add: moodEmojis_def moodLabels_def)
  ultimately show ?thesis
    by (auto simp: recent_view_def list_all_iff intro!: nth_mem)
qed

lemma average_card_init: "average_card mood_init = (''U+1F60A'', ''3.8/5'')"
  by code_simp

lemma mood_buttons_highlight:
  "length (filter snd (mood_buttons s)) \<le> 1"
proof -
  have "distinct (map (\<lambda>i. int i + 1) [0..<5])" by (simp add: distinct_map inj_on_def)
  then show ?thesis
    by (cases "currentMood s") (auto simp: mood_buttons_def filter_map comp_def length_filter_conv_card
        card_le_Suc0_iff_eq)
qed

end
