(* ===== verification/StatsService.thy ===== *)
theory StatsService
  imports Prelude
begin

text \<open>
  The mock statistics service of \<open>src/src/services/statsService.ts\<close>. The class
  \<open>StatsService\<close> has only static methods over two module-level mutable values,
  \<open>mockDailyStats\<close> and \<open>mockUserStats\<close>; they form the record \<open>stats_store\<close>, threaded
  explicitly through the two mutators \<open>updateStats\<close> (\<open>Object.assign\<close> of a partial
  record, one \<open>option\<close> per field) and \<open>addDailyEntry\<close> (replace today's entry or
  push a new one). JavaScript numbers of the mock are integers and are modelled as
  \<open>int\<close>, except \<open>averageMood\<close> (4.2), a \<open>rat\<close>. \<open>Math.round\<close> of a quotient is
  \<^const>\<open>js_round_div\<close> on the exact values; a division by zero (NaN or Infinity in
  JavaScript) is \<open>None\<close>. \<open>new Date().toISOString().split('T')[0]\<close> is the
  parameter \<open>today\<close>.
\<close>

record daily_stats =
  ds_date :: js_date
  tasksCompleted :: int
  pomodoroSessions :: int
  moodRating :: int
  focusMinutes :: int

text \<open>\<open>Omit<DailyStats, 'date'>\<close>, the argument of \<open>addDailyEntry\<close>.\<close>

record day_entry =
  e_tasksCompleted :: int
  e_pomodoroSessions :: int
  e_moodRating :: int
  e_focusMinutes :: int

record user_stats =
  totalTasksCompleted :: int
  totalTasks :: int
  totalPomodoroSessions :: int
  totalFocusMinutes :: int
  currentStreak :: int
  longestStreak :: int
  coinsEarned :: int
  us_petHappiness :: int
  averageMood :: rat
  moodEntries :: int

record stats_store =
  dailyStats :: "daily_stats list"
  userStats :: user_stats

definition mk_day :: "js_date \<Rightarrow> int \<Rightarrow> int \<Rightarrow> int \<Rightarrow> int \<Rightarrow> daily_stats" where
  "mk_day d t p m f = \<lparr>ds_date = d, tasksCompleted = t, pomodoroSessions = p, moodRating = m,
     focusMinutes = f\<rparr>"

definition mockDailyStats :: "daily_stats list" where
  "mockDailyStats =
    [mk_day ''2025-08-29'' 8 4 4 100, mk_day ''2025-08-30'' 6 3 5 75,
     mk_day ''2025-08-31'' 10 5 4 125, mk_day ''2025-09-01'' 7 4 3 100,
     mk_day ''2025-09-02'' 9 6 5 150, mk_day ''2025-09-03'' 4 2 4 50,
     mk_day ''2025-09-04'' 3 1 4 25]"

definition mockUserStats :: user_stats where
  "mockUserStats = \<lparr>totalTasksCompleted = 47, totalTasks = 52, totalPomodoroSessions = 25,
     totalFocusMinutes = 625, currentStreak = 5, longestStreak = 12, coinsEarned = 230,
     us_petHappiness = 85, averageMood = 42 / 10, moodEntries = 12\<rparr>"

definition stats_init :: stats_store where
  "stats_init = \<lparr>dailyStats = mockDailyStats, userStats = mockUserStats\<rparr>"

text \<open>\<open>getDailyStats(days = 7)\<close>: \<open>mockDailyStats.slice(-days)\<close>.\<close>

definition getDailyStats :: "int \<Rightarrow> stats_store \<Rightarrow> daily_stats list" where
  "getDailyStats days st = js_slice_from (- days) (dailyStats st)"

definition getUserStats :: "stats_store \<Rightarrow> user_stats" where
  "getUserStats st = userStats st"

definition getTaskCompletionRate :: "stats_store \<Rightarrow> int option" where
  "getTaskCompletionRate st =
     (let stats = getUserStats st in
      if totalTasks stats = 0 then None
      else Some (js_round_div (100 * totalTasksCompleted stats) (totalTasks stats)))"

record weekly_progress =
  tasksThisWeek :: int
  pomodorosThisWeek :: int
  averageMoodThisWeek_tenths :: "int option"
  completionRateChange :: int

text \<open>\<open>Math.round(avg * 10) / 10\<close> is kept as the integer number of tenths.\<close>

definition getWeeklyProgress :: "stats_store \<Rightarrow> weekly_progress" where
  "getWeeklyProgress st =
     (let weeklyStats = getDailyStats 7 st;
          n = int (length weeklyStats) in
      \<lparr>tasksThisWeek = sum_list (map tasksCompleted weeklyStats),
       pomodorosThisWeek = sum_list (map pomodoroSessions weeklyStats),
       averageMoodThisWeek_tenths =
         (if n = 0 then None else Some (js_round_div (10 * sum_list (map moodRating weeklyStats)) n)),
       completionRateChange = 12\<rparr>)"

definition getMoodDistribution :: "(string \<times> int \<times> string) list" where
  "getMoodDistribution =
    [(''Excellent'', 25, ''#FF9FB5''), (''Good'', 35, ''#B5E5B5''),
     (''Neutral'', 25, ''#E5E5FF''), (''Low'', 15, ''#FFE5B5'')]"

record achievement =
  ach_id :: string
  title :: string
  description :: string
  unlocked :: bool
  progress :: int
  maxProgress :: int

definition getAchievements :: "stats_store \<Rightarrow> achievement list" where
  "getAchievements st =
     (let stats = getUserStats st in
      [\<lparr>ach_id = ''streak-5'', title = ''Getting Started'',
        description = ''Complete tasks for 5 days in a row'',
        unlocked = (5 \<le> currentStreak stats), progress = min (currentStreak stats) 5, maxProgress = 5\<rparr>,
       \<lparr>ach_id = ''pomodoro-master'', title = ''Pomodoro Master'',
        description = ''Complete 25 pomodoro sessions'',
        unlocked = (25 \<le> totalPomodoroSessions stats), progress = totalPomodoroSessions stats,
        maxProgress = 25\<rparr>,
       \<lparr>ach_id = ''task-completionist'', title = ''Task Completionist'',
        description = ''Complete 100 tasks total'',
        unlocked = (100 \<le> totalTasksCompleted stats), progress = totalTasksCompleted stats,
        maxProgress = 100\<rparr>,
       \<lparr>ach_id = ''focus-champion'', title = ''Focus Champion'',
        description = ''Accumulate 10 hours of focused work time'',
        unlocked = (600 \<le> totalFocusMinutes stats), progress = totalFocusMinutes stats,
        maxProgress = 600\<rparr>])"

text \<open>\<open>Partial<UserStats>\<close>: a field is either absent (\<open>None\<close>) or overrides.\<close>

record user_stats_patch =
  set_totalTasksCompleted :: "int option"
  set_totalTasks :: "int option"
  set_totalPomodoroSessions :: "int option"
  set_totalFocusMinutes :: "int option"
  set_currentStreak :: "int option"
  set_longestStreak :: "int option"
  set_coinsEarned :: "int option"
  set_petHappiness :: "int option"
  set_averageMood :: "rat option"
  set_moodEntries :: "int option"

definition no_patch :: user_stats_patch where
  "no_patch = \<lparr>set_totalTasksCompleted = None, set_totalTasks = None,
     set_totalPomodoroSessions = None, set_totalFocusMinutes = None, set_currentStreak = None,
     set_longestStreak = None, set_coinsEarned = None, set_petHappiness = None,
     set_averageMood = None, set_moodEntries = None\<rparr>"

definition assign :: "'a option \<Rightarrow> 'a \<Rightarrow> 'a" where
  "assign u x = (case u of None \<Rightarrow> x | Some v \<Rightarrow> v)"

definition updateStats :: "user_stats_patch \<Rightarrow> stats_store \<Rightarrow> stats_store" where
  "updateStats u st = st\<lparr>userStats := (let s = userStats st in
     s\<lparr>totalTasksCompleted := assign (set_totalTasksCompleted u) (totalTasksCompleted s),
       totalTasks := assign (set_totalTasks u) (totalTasks s),
       totalPomodoroSessions := assign (set_totalPomodoroSessions u) (totalPomodoroSessions s),
       totalFocusMinutes := assign (set_totalFocusMinutes u) (totalFocusMinutes s),
       currentStreak := assign (set_currentStreak u) (currentStreak s),
       longestStreak := assign (set_longestStreak u) (longestStreak s),
       coinsEarned := assign (set_coinsEarned u) (coinsEarned s),
       us_petHappiness := assign (set_petHappiness u) (us_petHappiness s),
       averageMood := assign (set_averageMood u) (averageMood s),
       moodEntries := assign (set_moodEntries u) (moodEntries s)\<rparr>)\<rparr>"

text \<open>\<open>{ ...existing, ...entry }\<close> keeps the date and takes every other field from
  the entry; \<open>{ date: today, ...entry }\<close> is the same with the date \<open>today\<close>.\<close>

definition spread_entry :: "daily_stats \<Rightarrow> day_entry \<Rightarrow> daily_stats" where
  "spread_entry d e = d\<lparr>tasksCompleted := e_tasksCompleted e, pomodoroSessions := e_pomodoroSessions e,
     moodRating := e_moodRating e, focusMinutes := e_focusMinutes e\<rparr>"

definition dated :: "js_date \<Rightarrow> day_entry \<Rightarrow> daily_stats" where
  "dated today e = mk_day today (e_tasksCompleted e) (e_pomodoroSessions e) (e_moodRating e)
     (e_focusMinutes e)"

definition addDailyEntry :: "js_date \<Rightarrow> day_entry \<Rightarrow> stats_store \<Rightarrow> stats_store" where
  "addDailyEntry today e st =
     (let ds = dailyStats st in
      case find_index (\<lambda>stat. ds_date stat = today) ds of
        Some existingIndex \<Rightarrow> st\<lparr>dailyStats := ds[existingIndex := spread_entry (ds ! existingIndex) e]\<rparr>
      | None \<Rightarrow> st\<lparr>dailyStats := ds @ [dated today e]\<rparr>)"

section \<open>Properties\<close>

lemma ds_date_spread_entry [simp]: "ds_date (spread_entry d e) = ds_date d"
  by (simp add: spread_entry_def)

lemma spread_entry_dated: "spread_entry d e = dated (ds_date d) e"
  by (simp add: spread_entry_def dated_def mk_day_def)

lemma ds_date_dated [simp]: "ds_date (dated today e) = today"
  by (simp add: dated_def mk_day_def)

lemma addDailyEntry_cases:
  obtains (update) i where "find_index (\<lambda>s. ds_date s = today) (dailyStats st) = Some i"
      "i < length (dailyStats st)" "ds_date (dailyStats st ! i) = today"
      "dailyStats (addDailyEntry today e st) = (dailyStats st)[i := dated today e]"
  | (push) "\<forall>s \<in> set (dailyStats st). ds_date s \<noteq> today"
      "dailyStats (addDailyEntry today e st) = dailyStats st @ [dated today e]"
proof (cases "find_index (\<lambda>s. ds_date s = today) (dailyStats st)")
  case None
  then have "\<forall>s \<in> set (dailyStats st). ds_date s \<noteq> today" by simp
  with None show ?thesis using push by (simp add: addDailyEntry_def Let_def del: find_index_None)
next
  case (Some i)
  with find_index_Some_nth [of _ _ i] have "i < length (dailyStats st)" "ds_date (dailyStats st ! i) = today"
    by auto
  with Some show ?thesis using update
    by (simp add: addDailyEntry_def Let_def spread_entry_dated)
qed

text \<open>C27: on a history with distinct dates, addDailyEntry keeps the dates distinct, leaves exactly one entry for today carrying the new values, and leaves every other day untouched.\<close>

lemma addDailyEntry_today:
  assumes dist: "distinct (map ds_date (dailyStats st))"
  shows "distinct (map ds_date (dailyStats (addDailyEntry today e st))) \<and>
    filter (\<lambda>s. ds_date s = today) (dailyStats (addDailyEntry today e st)) = [dated today e] \<and>
    filter (\<lambda>s. ds_date s \<noteq> today) (dailyStats (addDailyEntry today e st)) =
      filter (\<lambda>s. ds_date s \<noteq> today) (dailyStats st)"
proof (cases rule: addDailyEntry_cases [of today st e])
  case (update i)
  have "filter (\<lambda>s. ds_date s = ds_date (dated today e)) ((dailyStats st)[i := dated today e]) = [dated today e]"
    using dist update by (intro filter_key_update) simp_all
  with dist update show ?thesis by (simp add: map_update_same_key filter_update_other)
next
  case push
  then show ?thesis using dist by (auto simp: filter_empty_conv)
qed

text \<open>After adding an entry for a new day, getDailyStats d (d > 0) returns the last d - 1 earlier days followed by the new entry.\<close>

lemma getDailyStats_after_new_day:
  assumes "today \<notin> set (map ds_date (dailyStats st))" "0 < d"
  shows "getDailyStats d (addDailyEntry today e st) =
    drop (length (dailyStats st) + 1 - nat d) (dailyStats st) @ [dated today e]"
proof -
  have "dailyStats (addDailyEntry today e st) = dailyStats st @ [dated today e]"
    using assms(1) by (cases rule: addDailyEntry_cases [of today st e]) auto
  moreover have "length (dailyStats st) + 1 - nat d \<le> length (dailyStats st)" using assms(2) by simp
  ultimately show ?thesis using assms(2) by (simp add: getDailyStats_def js_slice_from_neg)
qed

lemma getDailyStats_after_new_day_witness:
  "getDailyStats 7 (addDailyEntry ''2025-09-05'' \<lparr>e_tasksCompleted = 2, e_pomodoroSessions = 1,
      e_moodRating = 5, e_focusMinutes = 25\<rparr> stats_init) =
    drop 1 mockDailyStats @ [mk_day ''2025-09-05'' 2 1 5 25]"
  using getDailyStats_after_new_day [of "''2025-09-05''" stats_init 7]
  by (simp add: stats_init_def mockDailyStats_def mk_day_def dated_def)

lemma addDailyEntry_today_witness:
  "distinct (map ds_date (dailyStats stats_init)) \<and>
   filter (\<lambda>s. ds_date s = ''2025-09-04'') (dailyStats (addDailyEntry ''2025-09-04''
      \<lparr>e_tasksCompleted = 5, e_pomodoroSessions = 2, e_moodRating = 3, e_focusMinutes = 50\<rparr> stats_init)) =
    [mk_day ''2025-09-04'' 5 2 3 50]"
  using addDailyEntry_today [of stats_init "''2025-09-04''"]
  by (simp add: stats_init_def mockDailyStats_def mk_day_def dated_def)

text \<open>Every achievement of getAchievements is unlocked exactly when its progress reaches its maximum, and the achievement ids are distinct.\<close>

lemma achievements_unlocked_iff:
  "list_all (\<lambda>a. unlocked a \<longleftrightarrow> maxProgress a \<le> progress a) (getAchievements st) \<and>
   distinct (map ach_id (getAchievements st))"
  by (simp add: getAchievements_def Let_def)

text \<open>C30: unlock status is recomputed from the current counters with no memory: lowering the pomodoro total below 25 with updateStats re-locks the Pomodoro Master achievement.\<close>

lemma achievement_relock:
  "unlocked (getAchievements st ! 1) \<Longrightarrow> n < 25 \<Longrightarrow>
   \<not> unlocked (getAchievements (updateStats (no_patch\<lparr>set_totalPomodoroSessions := Some n\<rparr>) st) ! 1)"
  by (simp add: getAchievements_def getUserStats_def updateStats_def no_patch_def assign_def)

lemma achievement_relock_witness:
  "unlocked (getAchievements stats_init ! 1) \<and>
   \<not> unlocked (getAchievements (updateStats (no_patch\<lparr>set_totalPomodoroSessions := Some 0\<rparr>) stats_init) ! 1)"
  using achievement_relock [of stats_init 0]
  by (simp add: getAchievements_def getUserStats_def stats_init_def mockUserStats_def)

text \<open>C31: the completion rate is undefined (NaN or Infinity in JavaScript) exactly when there
  are no tasks, and with 0 <= completed <= total it is otherwise a percentage in 0..100.\<close>

lemma getTaskCompletionRate_bounds:
  assumes "0 \<le> totalTasksCompleted (userStats st)" "totalTasksCompleted (userStats st) \<le> totalTasks (userStats st)"
  shows "(getTaskCompletionRate st = None \<longleftrightarrow> totalTasks (userStats st) = 0) \<and>
    set_option (getTaskCompletionRate st) \<subseteq> {0..100}"
proof (cases "totalTasks (userStats st) = 0")
  case True
  then show ?thesis by (simp add: getTaskCompletionRate_def getUserStats_def)
next
  case False
  with assms have "0 < totalTasks (userStats st)" by simp
  with assms have "0 \<le> js_round_div (100 * totalTasksCompleted (userStats st)) (totalTasks (userStats st)) \<and>
      js_round_div (100 * totalTasksCompleted (userStats st)) (totalTasks (userStats st)) \<le> 100"
    by (intro js_round_div_bounds) simp_all
  with False show ?thesis by (simp add: getTaskCompletionRate_def getUserStats_def Let_def)
qed

lemma getTaskCompletionRate_bounds_witness:
  "getTaskCompletionRate stats_init = Some 90 \<and> 90 \<in> {0..100::int}"
  using getTaskCompletionRate_bounds [of stats_init]
  by (simp add: getTaskCompletionRate_def getUserStats_def stats_init_def mockUserStats_def js_round_div_def)

text \<open>The weekly sums of the mock daily statistics agree with the mock user totals for tasks, pomodoros and focus minutes, while the weekly average mood rounds to 4.1 against the stored 4.2.\<close>

lemma mock_weekly_consistent:
  "tasksThisWeek (getWeeklyProgress stats_init) = totalTasksCompleted mockUserStats \<and>
   pomodorosThisWeek (getWeeklyProgress stats_init) = totalPomodoroSessions mockUserStats \<and>
   sum_list (map focusMinutes (getDailyStats 7 stats_init)) = totalFocusMinutes mockUserStats \<and>
   averageMoodThisWeek_tenths (getWeeklyProgress stats_init) = Some 41 \<and>
   averageMood mockUserStats = 42 / 10"
  by (simp add: getWeeklyProgress_def getDailyStats_def stats_init_def mockDailyStats_def
      mockUserStats_def mk_day_def js_slice_from_def js_round_div_def)

end
