(* ===== verification/Statistics.thy ===== *)
theory Statistics
  imports StatsService
begin

text \<open>
  The analytics page of \<open>src/src/components/Statistics.tsx\<close>. Its hooks are the record
  \<open>statistics_view\<close>: the active tab, the time range and the mock
  \<open>ProductivityStats\<close>, whose setter is never called. The weekly chart data, the mood
  distribution and the achievements are constants of the render; the numbers the page
  derives from them (completion rate, focus hours and minutes, unlocked count and the
  progress bars) are functions of the state. The page does not use
  \<open>statsService.ts\<close>; its achievements extend the service's \<open>achievement\<close> record with
  the badge colour. The time-range buttons change nothing but their own highlight.
\<close>

record productivity_stats =
  ps_tasksCompleted :: int
  ps_totalTasks :: int
  ps_pomodoroSessions :: int
  ps_focusMinutes :: int
  ps_moodEntries :: int
  ps_averageMood :: rat
  ps_currentStreak :: int
  ps_longestStreak :: int
  ps_petHappiness :: int
  ps_coinsEarned :: int

record weekly_data =
  wd_day :: string
  wd_tasks :: int
  wd_pomodoros :: int
  wd_mood :: int

record stat_achievement = achievement +
  ach_color :: string

datatype time_range = Week | Month | Year

record statistics_view =
  stat_activeTab :: string
  timeRange :: time_range
  stats :: productivity_stats

definition statistics_init :: statistics_view where
  "statistics_init = \<lparr>stat_activeTab = ''overview'', timeRange = Week,
     stats = \<lparr>ps_tasksCompleted = 47, ps_totalTasks = 52, ps_pomodoroSessions = 23, ps_focusMinutes = 575,
       ps_moodEntries = 12, ps_averageMood = 42 / 10, ps_currentStreak = 5, ps_longestStreak = 12,
       ps_petHappiness = 85, ps_coinsEarned = 230\<rparr>\<rparr>"

definition mk_week_day :: "string \<Rightarrow> int \<Rightarrow> int \<Rightarrow> int \<Rightarrow> weekly_data" where
  "mk_week_day d t p m = \<lparr>wd_day = d, wd_tasks = t, wd_pomodoros = p, wd_mood = m\<rparr>"

definition weeklyData :: "weekly_data list" where
  "weeklyData =
    [mk_week_day ''Mon'' 8 4 4, mk_week_day ''Tue'' 6 3 5, mk_week_day ''Wed'' 10 5 4,
     mk_week_day ''Thu'' 7 4 3, mk_week_day ''Fri'' 9 6 5, mk_week_day ''Sat'' 4 2 4,
     mk_week_day ''Sun'' 3 1 4]"

definition moodDistribution :: "(string \<times> int \<times> string) list" where
  "moodDistribution =
    [(''Excellent'', 25, ''#FF9FB5''), (''Good'', 35, ''#B5E5B5''),
     (''Neutral'', 25, ''#E5E5FF''), (''Low'', 15, ''#FFE5B5'')]"

definition mk_achievement :: "string \<Rightarrow> string \<Rightarrow> string \<Rightarrow> bool \<Rightarrow> int \<Rightarrow> int \<Rightarrow> string \<Rightarrow> stat_achievement" where
  "mk_achievement i t d u p mx c = \<lparr>ach_id = i, title = t, description = d, unlocked = u, progress = p,
     maxProgress = mx, ach_color = c\<rparr>"

definition stat_achievements :: "stat_achievement list" where
  "stat_achievements =
    [mk_achievement ''streak-5'' ''Getting Started'' ''Complete tasks for 5 days in a row'' True 5 5
       ''bg-pink-100 text-pink-700'',
     mk_achievement ''pomodoro-master'' ''Pomodoro Master'' ''Complete 25 pomodoro sessions'' False 23 25
       ''bg-blue-100 text-blue-700'',
     mk_achievement ''mood-tracker'' ''Mood Keeper'' ''Log your mood for 14 consecutive days'' False 12 14
       ''bg-purple-100 text-purple-700'',
     mk_achievement ''task-completionist'' ''Task Completionist'' ''Complete 100 tasks total'' False 47 100
       ''bg-green-100 text-green-700'',
     mk_achievement ''pet-lover'' ''Pet Whisperer'' ''Keep pet happiness above 80% for a week'' True 7 7
       ''bg-yellow-100 text-yellow-700'',
     mk_achievement ''focus-champion'' ''Focus Champion'' ''Accumulate 10 hours of focused work time'' False 575 600
       ''bg-indigo-100 text-indigo-700'']"

text \<open>The derived numbers of the overview cards. \<open>Math.round(x * 100)\<close> of a quotient is
  \<^const>\<open>js_round_div\<close>; a page with no tasks would show \<open>NaN%\<close> (\<open>None\<close>).\<close>

definition completionRate :: "statistics_view \<Rightarrow> int option" where
  "completionRate v =
     (if ps_totalTasks (stats v) = 0 then None
      else Some (js_round_div (100 * ps_tasksCompleted (stats v)) (ps_totalTasks (stats v))))"

definition focusHours :: "statistics_view \<Rightarrow> int" where
  "focusHours v = ps_focusMinutes (stats v) div 60"

definition focusMinutesRemaining :: "statistics_view \<Rightarrow> int" where
  "focusMinutesRemaining v = js_rem (ps_focusMinutes (stats v)) 60"

text \<open>The width of an achievement's progress bar and of the overall bar, in percent
  (exact rationals of \<open>(a / b) * 100\<close>).\<close>

definition achievement_bar :: "'a achievement_scheme \<Rightarrow> rat" where
  "achievement_bar a = of_int (progress a) / of_int (maxProgress a) * 100"

definition unlocked_count :: "nat" where
  "unlocked_count = length (filter unlocked stat_achievements)"

definition overall_bar :: "rat" where
  "overall_bar = of_nat unlocked_count / of_nat (length stat_achievements) * 100"

datatype statistics_event = RangeClick time_range | TabChange string

fun statistics_step :: "statistics_event \<Rightarrow> statistics_view \<Rightarrow> statistics_view" where
  "statistics_step (RangeClick r) v = v\<lparr>timeRange := r\<rparr>"
| "statistics_step (TabChange t) v = v\<lparr>stat_activeTab := t\<rparr>"

section \<open>What the page renders\<close>

text \<open>The time-range buttons, each with whether it is highlighted (\<open>variant="default"\<close>).\<close>

definition range_buttons :: "statistics_view \<Rightarrow> (time_range \<times> bool) list" where
  "range_buttons v = map (\<lambda>r. (r, timeRange v = r)) [Week, Month, Year]"

text \<open>\<open>Tabs value={activeTab}\<close>: the panel whose \<open>TabsContent\<close> value is the active tab is
  shown; a value matching none shows no panel.\<close>

datatype stat_panel = OverviewPanel | ProductivityPanel | WellbeingPanel | AchievementsPanel

definition statistics_panel :: "statistics_view \<Rightarrow> stat_panel option" where
  "statistics_panel v =
     (if stat_activeTab v = ''overview'' then Some OverviewPanel
      else if stat_activeTab v = ''productivity'' then Some ProductivityPanel
      else if stat_activeTab v = ''wellbeing'' then Some WellbeingPanel
      else if stat_activeTab v = ''achievements'' then Some AchievementsPanel else None)"

text \<open>\<open>{completionRate}%\<close>: with no tasks the quotient is \<open>NaN\<close> (or an infinity when tasks
  are completed out of none), which JavaScript prints as such.\<close>

definition completion_text :: "statistics_view \<Rightarrow> string" where
  "completion_text v =
     (case completionRate v of
        Some r \<Rightarrow> js_int_string r
      | None \<Rightarrow> (if ps_tasksCompleted (stats v) = 0 then ''NaN''
                else if 0 < ps_tasksCompleted (stats v) then ''Infinity'' else ''-Infinity'')) @ ''%''"

text \<open>The four cards of the overview panel: title, large text, small text.\<close>

definition overview_cards :: "statistics_view \<Rightarrow> (string \<times> string \<times> string) list" where
  "overview_cards v =
    [(''Task Completion'', completion_text v,
      js_int_string (ps_tasksCompleted (stats v)) @ '' of '' @ js_int_string (ps_totalTasks (stats v)) @ '' tasks''),
     (''Focus Time'', js_int_string (focusHours v) @ ''h '' @ js_int_string (focusMinutesRemaining v) @ ''m'',
      js_int_string (ps_pomodoroSessions (stats v)) @ '' sessions''),
     (''Current Streak'', js_int_string (ps_currentStreak (stats v)) @ '' days'',
      ''Best: '' @ js_int_string (ps_longestStreak (stats v)) @ '' days''),
     (''Coins Earned'', js_int_string (ps_coinsEarned (stats v)),
      ''Pet happiness: '' @ js_int_string (ps_petHappiness (stats v)) @ ''%'')]"

text \<open>A chart: its x-axis labels and its series (name, colour, values), all read from
  \<^const>\<open>weeklyData\<close> by \<open>dataKey\<close>.\<close>

type_synonym chart = "string list \<times> (string \<times> string \<times> int list) list"

definition activity_chart :: chart where
  "activity_chart = (map wd_day weeklyData,
     [(''Tasks Completed'', ''#FF9FB5'', map wd_tasks weeklyData),
      (''Pomodoro Sessions'', ''#B5E5FF'', map wd_pomodoros weeklyData)])"

definition productivity_charts :: "chart list" where
  "productivity_charts =
    [(map wd_day weeklyData, [(''tasks'', ''#FF9FB5'', map wd_tasks weeklyData)]),
     (map wd_day weeklyData, [(''pomodoros'', ''#B5E5FF'', map wd_pomodoros weeklyData)])]"

definition productivity_cards :: "(string \<times> string \<times> string) list" where
  "productivity_cards =
    [(''Average Focus Session'', ''25 min'', ''Perfect pomodoro length!''),
     (''Daily Goal Achievement'', ''86%'', ''6 out of 7 days''),
     (''Productivity Trend'', ''U+2197 12%'', ''vs. last week'')]"

text \<open>The wellbeing panel: the pie's slice labels \<open>`${mood}: ${value}%`\<close> with their
  colours, the mood trend line, and the two cards (the average mood is a number that
  JavaScript prints, shown over 5).\<close>

definition mood_pie :: "(string \<times> string) list" where
  "mood_pie = map (\<lambda>(m, val, c). (m @ '': '' @ js_int_string val @ ''%'', c)) moodDistribution"

definition mood_trend_chart :: chart where
  "mood_trend_chart = (map wd_day weeklyData, [(''Daily Mood'', ''#A28BF0'', map wd_mood weeklyData)])"

definition wellbeing_cards :: "statistics_view \<Rightarrow> rat \<times> string" where
  "wellbeing_cards v = (ps_averageMood (stats v), js_int_string (ps_petHappiness (stats v)) @ ''%'')"

text \<open>An achievement card: title, the "Unlocked" badge, description, the progress text
  \<open>progress/maxProgress\<close> and the bar; and the summary under the cards.\<close>

definition achievement_card :: "'a achievement_scheme \<Rightarrow> string \<times> bool \<times> string \<times> string \<times> rat" where
  "achievement_card a = (title a, unlocked a, description a,
     js_int_string (progress a) @ ''/'' @ js_int_string (maxProgress a), achievement_bar a)"

definition hunter_summary :: string where
  "hunter_summary = ''You've unlocked '' @ js_int_string (int unlocked_count) @ '' out of '' @
     js_int_string (int (length stat_achievements)) @ '' achievements!''"

section \<open>Properties\<close>

lemma focus_split:
  "0 \<le> ps_focusMinutes (stats v) \<Longrightarrow>
   60 * focusHours v + focusMinutesRemaining v = ps_focusMinutes (stats v) \<and>
   0 \<le> focusMinutesRemaining v \<and> focusMinutesRemaining v < 60"
  by (simp add: focusHours_def focusMinutesRemaining_def js_rem_nonneg)

lemma statistics_step_stats: "stats (statistics_step e v) = stats v"
  by (cases e) simp_all

lemma stat_achievements_consistent:
  "list_all (\<lambda>a. unlocked a \<longleftrightarrow> maxProgress a \<le> progress a) stat_achievements"
  by (simp add: stat_achievements_def mk_achievement_def)

lemma statistics_overview_numbers:
  "completionRate statistics_init = Some 90 \<and> focusHours statistics_init = 9 \<and>
   focusMinutesRemaining statistics_init = 35 \<and> unlocked_count = 2 \<and> overall_bar = 100 / 3"
  by (simp add: completionRate_def focusHours_def focusMinutesRemaining_def statistics_init_def
      js_round_div_def js_rem_def unlocked_count_def overall_bar_def stat_achievements_def mk_achievement_def)

text \<open>The weekly chart and the cards of the same page disagree: the chart totals 25
  pomodoros, the card shows 23 sessions.\<close>

lemma weekly_chart_vs_cards:
  "sum_list (map wd_tasks weeklyData) = ps_tasksCompleted (stats statistics_init) \<and>
   sum_list (map wd_pomodoros weeklyData) = 25 \<and> ps_pomodoroSessions (stats statistics_init) = 23"
  by (simp add: weeklyData_def mk_week_day_def statistics_init_def)

lemma statistics_vs_service:
  "ps_pomodoroSessions (stats statistics_init) \<noteq> totalPomodoroSessions mockUserStats \<and>
   ps_focusMinutes (stats statistics_init) \<noteq> totalFocusMinutes mockUserStats \<and>
   map ach_id (getAchievements stats_init) \<noteq> map ach_id stat_achievements"
  by (simp add: statistics_init_def mockUserStats_def getAchievements_def Let_def stat_achievements_def mk_achievement_def)

text \<open>The overview panel of the page as first shown.\<close>

lemma overview_cards_init:
  "overview_cards statistics_init =
    [(''Task Completion'', ''90%'', ''47 of 52 tasks''), (''Focus Time'', ''9h 35m'', ''23 sessions''),
     (''Current Streak'', ''5 days'', ''Best: 12 days''), (''Coins Earned'', ''230'', ''Pet happiness: 85%'')]"
  by code_simp

text \<open>A page without tasks prints \<open>NaN%\<close> as its completion rate.\<close>

lemma completion_text_no_tasks:
  "ps_totalTasks (stats v) = 0 \<Longrightarrow> ps_tasksCompleted (stats v) = 0 \<Longrightarrow> completion_text v = ''NaN%''"
  by (simp add: completion_text_def completionRate_def)

text \<open>Exactly the achievements whose bar is full carry the badge; the summary counts them.\<close>

lemma achievement_cards_badge:
  "list_all (\<lambda>a. fst (snd (achievement_card a)) \<longleftrightarrow> snd (snd (snd (snd (achievement_card a)))) = 100)
     stat_achievements"
  by (simp add: stat_achievements_def mk_achievement_def achievement_card_def achievement_bar_def)

lemma hunter_summary_text: "hunter_summary = ''You've unlocked 2 out of 6 achievements!''"
  by code_simp

lemma statistics_step_panel:
  "statistics_panel (statistics_step (RangeClick r) v) = statistics_panel v"
  by (simp add: statistics_panel_def)

end
