(* ===== verification/TodoList.thy ===== *)
theory TodoList
  imports Prelude
begin

text \<open>
  The to-do list of \<open>src/src/components/TodoList.tsx\<close>. The four \<open>useState\<close> hooks
  are the record \<open>todo_state\<close>; \<open>addTodo\<close>, \<open>toggleTodo\<close> and \<open>deleteTodo\<close> are
  functions on it, and the inputs, the Enter key, the add button, the check boxes and
  the delete buttons are the events of \<open>todo_step\<close>. \<open>Date.now()\<close>, the source of a new
  task's id, is a parameter of the add events; its \<open>toString()\<close> is
  \<^const>\<open>dec_string\<close>. The priority select only offers \<open>low\<close>, \<open>medium\<close> and \<open>high\<close>,
  so the priority is a datatype and the \<open>default\<close> branches of the two switches are
  unreachable.
\<close>

datatype priority = Low | Medium | High

record todo =
  todo_id :: string
  todo_text :: string
  completed :: bool
  priority :: priority
  dueDate :: "js_date option"

record todo_state =
  todos :: "todo list"
  newTodo :: string
  newPriority :: priority
  newDueDate :: string

definition todo_init :: todo_state where
  "todo_init = \<lparr>todos =
     [\<lparr>todo_id = ''1'', todo_text = ''Review presentation slides'', completed = False, priority = High,
       dueDate = Some ''2025-09-04''\<rparr>,
      \<lparr>todo_id = ''2'', todo_text = ''Call team meeting'', completed = True, priority = Medium,
       dueDate = Some ''2025-09-03''\<rparr>,
      \<lparr>todo_id = ''3'', todo_text = ''Organize desk workspace'', completed = False, priority = Low,
       dueDate = None\<rparr>,
      \<lparr>todo_id = ''4'', todo_text = ''Submit expense reports'', completed = False, priority = High,
       dueDate = Some ''2025-09-05''\<rparr>],
     newTodo = [], newPriority = Medium, newDueDate = []\<rparr>"

text \<open>\<open>newDueDate || undefined\<close>: the empty string is falsy.\<close>

definition js_or_undefined :: "string \<Rightarrow> string option" where
  "js_or_undefined s = (if s = [] then None else Some s)"

definition addTodo :: "nat \<Rightarrow> todo_state \<Rightarrow> todo_state" where
  "addTodo now s =
     (if js_trim (newTodo s) \<noteq> []
      then (let t = \<lparr>todo_id = dec_string now, todo_text = newTodo s, completed = False,
                     priority = newPriority s, dueDate = js_or_undefined (newDueDate s)\<rparr>
            in s\<lparr>todos := t # todos s, newTodo := [], newDueDate := []\<rparr>)
      else s)"

definition toggleTodo :: "string \<Rightarrow> todo_state \<Rightarrow> todo_state" where
  "toggleTodo i s =
     s\<lparr>todos := map (\<lambda>t. if todo_id t = i then t\<lparr>completed := \<not> completed t\<rparr> else t) (todos s)\<rparr>"

definition deleteTodo :: "string \<Rightarrow> todo_state \<Rightarrow> todo_state" where
  "deleteTodo i s = s\<lparr>todos := filter (\<lambda>t. todo_id t \<noteq> i) (todos s)\<rparr>"

fun getPriorityColor :: "priority \<Rightarrow> string" where
  "getPriorityColor High = ''from-red-200 to-pink-200 border-red-300''"
| "getPriorityColor Medium = ''from-yellow-200 to-orange-200 border-yellow-300''"
| "getPriorityColor Low = ''from-green-200 to-mint-200 border-green-300''"

fun getPriorityBadge :: "priority \<Rightarrow> string" where
  "getPriorityBadge High = ''High''"
| "getPriorityBadge Medium = ''Medium''"
| "getPriorityBadge Low = ''Low''"

datatype todo_event =
    SetNewTodo string
  | KeyPress string nat
  | AddClick nat
  | SetNewDueDate string
  | SetNewPriority priority
  | CheckTodo string
  | DeleteClick string

text \<open>The Enter key runs \<open>addTodo\<close> (\<open>e.key === 'Enter' && addTodo()\<close>); any other key
  does nothing.\<close>

fun todo_step :: "todo_event \<Rightarrow> todo_state \<Rightarrow> todo_state" where
  "todo_step (SetNewTodo v) s = s\<lparr>newTodo := v\<rparr>"
| "todo_step (KeyPress k now) s = (if k = ''Enter'' then addTodo now s else s)"
| "todo_step (AddClick now) s = addTodo now s"
| "todo_step (SetNewDueDate v) s = s\<lparr>newDueDate := v\<rparr>"
| "todo_step (SetNewPriority p) s = s\<lparr>newPriority := p\<rparr>"
| "todo_step (CheckTodo i) s = toggleTodo i s"
| "todo_step (DeleteClick i) s = deleteTodo i s"

inductive todo_reach :: "todo_state \<Rightarrow> bool" where
  todo_reach_init: "todo_reach todo_init"
| todo_reach_step: "todo_reach s \<Longrightarrow> todo_reach (todo_step e s)"

definition todo_inv :: "todo_state \<Rightarrow> bool" where
  "todo_inv s \<longleftrightarrow> (\<forall>t \<in> set (todos s). js_trim (todo_text t) \<noteq> [] \<and> dueDate t \<noteq> Some [])"

text \<open>The line-through style and the empty-list message of the render.\<close>

definition shown_done :: "todo_state \<Rightarrow> string list" where
  "shown_done s = map todo_text (filter completed (todos s))"

definition shows_empty_message :: "todo_state \<Rightarrow> bool" where
  "shows_empty_message s \<longleftrightarrow> length (todos s) = 0"

section \<open>Properties\<close>

lemma todo_inv_init: "todo_inv todo_init"
  by (simp add: todo_inv_def todo_init_def js_trim_def js_ws_def)

lemma todo_inv_step: "todo_inv s \<Longrightarrow> todo_inv (todo_step e s)"
  by (cases e) (auto simp: todo_inv_def addTodo_def toggleTodo_def deleteTodo_def js_or_undefined_def Let_def)

text \<open>C33: in every reachable state of the to-do list each task has a non-blank text (the add guard trims) and no task has an empty due date (the empty input becomes undefined).\<close>

lemma todo_reach_inv: "todo_reach s \<Longrightarrow> todo_inv s"
proof (induction rule: todo_reach.induct)
  case todo_reach_init
  show ?case by (rule todo_inv_init)
next
  case (todo_reach_step s e)
  from todo_reach_step.IH show ?case by (rule todo_inv_step)
qed

lemma todo_reach_inv_witness:
  "todo_reach (todo_step (AddClick 1757000000000) (todo_step (SetNewTodo '' Buy milk'') todo_init)) \<and>
   todo_inv (todo_step (AddClick 1757000000000) (todo_step (SetNewTodo '' Buy milk'') todo_init))"
proof -
  have r: "todo_reach (todo_step (AddClick 1757000000000) (todo_step (SetNewTodo '' Buy milk'') todo_init))"
    by (intro todo_reach_step todo_reach_init)
  with todo_reach_inv [OF r] show ?thesis by simp
qed

text \<open>C34: when task ids are distinct, checking a task flips the completed flag of that task alone and leaves the list otherwise unchanged.\<close>

lemma toggleTodo_single:
  assumes "distinct (map todo_id (todos s))" "i < length (todos s)"
  shows "todos (toggleTodo (todo_id (todos s ! i)) s) =
    (todos s)[i := (todos s ! i)\<lparr>completed := \<not> completed (todos s ! i)\<rparr>]"
proof (rule nth_equalityI)
  fix j assume "j < length (todos (toggleTodo (todo_id (todos s ! i)) s))"
  then have j: "j < length (todos s)" by (simp add: toggleTodo_def)
  have "todo_id (todos s ! j) = todo_id (todos s ! i) \<longleftrightarrow> j = i"
    using assms j nth_eq_iff_index_eq [of "map todo_id (todos s)" j i] by simp
  with j assms(2) show "todos (toggleTodo (todo_id (todos s ! i)) s) ! j =
      (todos s)[i := (todos s ! i)\<lparr>completed := \<not> completed (todos s ! i)\<rparr>] ! j"
    by (simp add: toggleTodo_def)
qed (simp add: toggleTodo_def)

lemma toggleTodo_single_witness:
  "todos (toggleTodo ''2'' todo_init) =
    (todos todo_init)[1 := (todos todo_init ! 1)\<lparr>completed := False\<rparr>]"
  using toggleTodo_single [of todo_init 1] by (simp add: todo_init_def)

text \<open>C35: two tasks added in the same millisecond get the same id (Date.now().toString()), after which one check box toggles both of them and one delete button removes both.\<close>

lemma same_millisecond_ids_collide:
  assumes "js_trim x \<noteq> []" "js_trim y \<noteq> []"
  shows "let s2 = addTodo now ((addTodo now (s\<lparr>newTodo := x\<rparr>))\<lparr>newTodo := y\<rparr>) in
     todo_id (todos s2 ! 0) = todo_id (todos s2 ! 1) \<and>
     take 2 (map completed (todos (toggleTodo (dec_string now) s2))) = [True, True] \<and>
     length (todos (deleteTodo (dec_string now) s2)) \<le> length (todos s)"
proof -
  have "length (filter (\<lambda>t. todo_id t \<noteq> dec_string now) (todos s)) \<le> length (todos s)"
    by (rule length_filter_le)
  with assms show ?thesis by (simp add: addTodo_def toggleTodo_def deleteTodo_def Let_def)
qed

lemma same_millisecond_ids_collide_witness:
  "let s2 = addTodo 5 ((addTodo 5 (todo_init\<lparr>newTodo := ''a''\<rparr>))\<lparr>newTodo := ''b''\<rparr>) in
     todo_id (todos s2 ! 0) = todo_id (todos s2 ! 1) \<and>
     take 2 (map completed (todos (toggleTodo (dec_string 5) s2))) = [True, True] \<and>
     length (todos (deleteTodo (dec_string 5) s2)) \<le> length (todos todo_init)"
  using same_millisecond_ids_collide [of "''a''" "''b''" 5 todo_init]
  by (simp add: js_trim_def js_ws_def)

end
