(* ===== verification/StickyNotes.thy ===== *)
theory StickyNotes
  imports Prelude
begin

text \<open>
  The corkboard of \<open>src/src/components/StickyNotes.tsx\<close>. The hooks are the record
  \<open>sticky_state\<close>, extended by the document listeners that a drag registers: each
  \<open>handleMouseDown\<close> adds a \<open>mousemove\<close>/\<open>mouseup\<close> pair, kept here as a
  \<open>drag_session\<close> that remembers what the listener closures capture (the note id, the
  pointer and note start coordinates, and the \<open>notes\<close> array of the render that created
  \<open>handleMouseDown\<close>, which \<open>updateNotePosition\<close> maps over). A \<open>mouseup\<close> on the
  document runs every registered \<open>handleMouseUp\<close> and so removes all sessions; a
  \<open>mouseup\<close> the document never sees (released outside the window) leaves them in
  place. Coordinates are rationals; \<open>Math.random()\<close> and \<open>Date.now()\<close> are parameters
  of the add event. The render reads \<open>noteColors[note.colorIndex].gradient\<close>, which
  throws a TypeError for an index outside the palette.
\<close>

record sticky_note =
  note_id :: string
  content :: string
  colorIndex :: nat
  nx :: rat
  ny :: rat

record note_color =
  color_name :: string
  gradient :: string
  bg :: string

definition noteColors :: "note_color list" where
  "noteColors =
    [\<lparr>color_name = ''Yellow'', gradient = ''from-yellow-200 to-yellow-300 border-yellow-400'', bg = ''bg-yellow-200''\<rparr>,
     \<lparr>color_name = ''Pink'', gradient = ''from-pink-200 to-pink-300 border-pink-400'', bg = ''bg-pink-200''\<rparr>,
     \<lparr>color_name = ''Green'', gradient = ''from-green-200 to-green-300 border-green-400'', bg = ''bg-green-200''\<rparr>,
     \<lparr>color_name = ''Blue'', gradient = ''from-blue-200 to-blue-300 border-blue-400'', bg = ''bg-blue-200''\<rparr>,
     \<lparr>color_name = ''Purple'', gradient = ''from-purple-200 to-purple-300 border-purple-400'', bg = ''bg-purple-200''\<rparr>,
     \<lparr>color_name = ''Orange'', gradient = ''from-orange-200 to-orange-300 border-orange-400'', bg = ''bg-orange-200''\<rparr>]"

record drag_session =
  drag_note :: string
  startX :: rat
  startY :: rat
  startNoteX :: rat
  startNoteY :: rat
  drag_notes :: "sticky_note list"

record sticky_state =
  sticky_notes :: "sticky_note list"
  showAddForm :: bool
  newNoteContent :: string
  selectedColorIndex :: nat
  listeners :: "drag_session list"

text \<open>The initial notes' texts, with their line breaks and their emoji as UTF-8 bytes.\<close>

fun text_lines :: "string list \<Rightarrow> string" where
  "text_lines [] = []"
| "text_lines [l] = l"
| "text_lines (l # ls) = l @ CHR 0x0A # text_lines ls"

definition utf8 :: "nat list \<Rightarrow> string" where
  "utf8 bs = map char_of bs"

definition sticky_init :: sticky_state where
  "sticky_init = \<lparr>sticky_notes =
     [\<lparr>note_id = ''1'',
       content = text_lines [''Remember to buy groceries! '' @ utf8 [0xF0, 0x9F, 0x9B, 0x92],
         ''- Milk'', ''- Bread'', ''- Apples''],
       colorIndex = 0, nx = 20, ny = 20\<rparr>,
      \<lparr>note_id = ''2'',
       content = text_lines [''Meeting notes:'', ''- Project deadline: Sept 15'', ''- Review with Sarah'',
         ''- Update presentation''],
       colorIndex = 1, nx = 250, ny = 80\<rparr>,
      \<lparr>note_id = ''3'',
       content = text_lines [''Weekend plans! '' @ utf8 [0xF0, 0x9F, 0x8C, 0x9F], ''- Visit the park'',
         ''- Movie night'', ''- Catch up on reading''],
       colorIndex = 2, nx = 480, ny = 40\<rparr>],
     showAddForm = False, newNoteContent = [], selectedColorIndex = 0, listeners = []\<rparr>"

definition addNote :: "nat \<Rightarrow> rat \<Rightarrow> rat \<Rightarrow> sticky_state \<Rightarrow> sticky_state" where
  "addNote now rx ry s =
     (if js_trim (newNoteContent s) \<noteq> []
      then (let n = \<lparr>note_id = dec_string now, content = newNoteContent s,
                     colorIndex = selectedColorIndex s, nx = rx * 300 + 20, ny = ry * 200 + 100\<rparr>
            in s\<lparr>sticky_notes := sticky_notes s @ [n], newNoteContent := [], selectedColorIndex := 0,
                 showAddForm := False\<rparr>)
      else s)"

definition deleteNote :: "string \<Rightarrow> sticky_state \<Rightarrow> sticky_state" where
  "deleteNote i s = s\<lparr>sticky_notes := filter (\<lambda>n. note_id n \<noteq> i) (sticky_notes s)\<rparr>"

definition updateNoteContent :: "string \<Rightarrow> string \<Rightarrow> sticky_state \<Rightarrow> sticky_state" where
  "updateNoteContent i c s = s\<lparr>sticky_notes := map_where (\<lambda>n. note_id n = i) (\<lambda>n. n\<lparr>content := c\<rparr>) (sticky_notes s)\<rparr>"

definition updateNoteColor :: "string \<Rightarrow> nat \<Rightarrow> sticky_state \<Rightarrow> sticky_state" where
  "updateNoteColor i k s = s\<lparr>sticky_notes := map_where (\<lambda>n. note_id n = i) (\<lambda>n. n\<lparr>colorIndex := k\<rparr>) (sticky_notes s)\<rparr>"

text \<open>\<open>updateNotePosition\<close> maps over the \<open>notes\<close> its render closed over.\<close>

definition updateNotePosition :: "string \<Rightarrow> rat \<Rightarrow> rat \<Rightarrow> sticky_note list \<Rightarrow> sticky_note list" where
  "updateNotePosition i x y ns = map_where (\<lambda>n. note_id n = i) (\<lambda>n. n\<lparr>nx := x, ny := y\<rparr>) ns"

definition handleMouseDown :: "string \<Rightarrow> rat \<Rightarrow> rat \<Rightarrow> sticky_state \<Rightarrow> sticky_state" where
  "handleMouseDown i cx cy s =
     (case find (\<lambda>n. note_id n = i) (sticky_notes s) of
        None \<Rightarrow> s
      | Some n \<Rightarrow> s\<lparr>listeners := listeners s @
          [\<lparr>drag_note = i, startX = cx, startY = cy, startNoteX = nx n, startNoteY = ny n,
            drag_notes = sticky_notes s\<rparr>]\<rparr>)"

definition drag_move :: "rat \<Rightarrow> rat \<Rightarrow> drag_session \<Rightarrow> sticky_note list" where
  "drag_move cx cy d =
     updateNotePosition (drag_note d) (startNoteX d + (cx - startX d)) (startNoteY d + (cy - startY d))
       (drag_notes d)"

text \<open>A \<open>mousemove\<close> runs the registered listeners in registration order; each one
  calls \<open>setNotes\<close> with a value, so the last one's value is the new state.\<close>

definition handleMouseMove :: "rat \<Rightarrow> rat \<Rightarrow> sticky_state \<Rightarrow> sticky_state" where
  "handleMouseMove cx cy s = foldl (\<lambda>t d. t\<lparr>sticky_notes := drag_move cx cy d\<rparr>) s (listeners s)"

definition handleMouseUp :: "sticky_state \<Rightarrow> sticky_state" where
  "handleMouseUp s = s\<lparr>listeners := []\<rparr>"

datatype sticky_event =
    OpenAddForm
  | SetNewContent string
  | PickColor nat
  | AddNoteClick nat rat rat
  | CancelAdd
  | DeleteNoteClick string
  | EditNote string string
  | NoteColorClick string nat
  | MouseDown string rat rat
  | MouseMove rat rat
  | MouseUp

fun sticky_handler :: "sticky_event \<Rightarrow> sticky_state \<Rightarrow> sticky_state" where
  "sticky_handler OpenAddForm s = s\<lparr>showAddForm := True\<rparr>"
| "sticky_handler (SetNewContent c) s = s\<lparr>newNoteContent := c\<rparr>"
| "sticky_handler (PickColor k) s = s\<lparr>selectedColorIndex := k\<rparr>"
| "sticky_handler (AddNoteClick now rx ry) s = addNote now rx ry s"
| "sticky_handler CancelAdd s = s\<lparr>showAddForm := False\<rparr>"
| "sticky_handler (DeleteNoteClick i) s = deleteNote i s"
| "sticky_handler (EditNote i c) s = updateNoteContent i c s"
| "sticky_handler (NoteColorClick i k) s = updateNoteColor i k s"
| "sticky_handler (MouseDown i cx cy) s = handleMouseDown i cx cy s"
| "sticky_handler (MouseMove cx cy) s = handleMouseMove cx cy s"
| "sticky_handler MouseUp s = handleMouseUp s"

text \<open>The events the render offers: colour buttons exist for the palette's indices
  only, \<open>Math.random()\<close> lies in \<open>[0, 1)\<close>.\<close>

fun sticky_offered :: "sticky_event \<Rightarrow> bool" where
  "sticky_offered (PickColor k) = (k < length noteColors)"
| "sticky_offered (NoteColorClick i k) = (k < length noteColors)"
| "sticky_offered (AddNoteClick now rx ry) = (0 \<le> rx \<and> rx < 1 \<and> 0 \<le> ry \<and> ry < 1)"
| "sticky_offered e = True"

inductive sticky_reach :: "sticky_state \<Rightarrow> bool" where
  sticky_reach_init: "sticky_reach sticky_init"
| sticky_reach_step: "sticky_reach s \<Longrightarrow> sticky_offered e \<Longrightarrow> sticky_reach (sticky_handler e s)"

text \<open>A sequence of events, handled in order.\<close>

definition sticky_run :: "sticky_event list \<Rightarrow> sticky_state \<Rightarrow> sticky_state" where
  "sticky_run es s = foldl (\<lambda>t e. sticky_handler e t) s es"

text \<open>The rendered gradient of every note, or the TypeError of reading
  \<open>.gradient\<close> of \<open>undefined\<close>.\<close>

fun render_gradients :: "sticky_note list \<Rightarrow> js_error + string list" where
  "render_gradients [] = Inr []"
| "render_gradients (n # ns) =
     (if colorIndex n < length noteColors
      then map_sum id (Cons (gradient (noteColors ! colorIndex n))) (render_gradients ns)
      else Inl (TypeError ''Cannot read properties of undefined (reading gradient)''))"

definition sticky_inv :: "sticky_state \<Rightarrow> bool" where
  "sticky_inv s \<longleftrightarrow> selectedColorIndex s < length noteColors \<and>
     (\<forall>n \<in> set (sticky_notes s). colorIndex n < length noteColors) \<and>
     (\<forall>d \<in> set (listeners s). \<forall>n \<in> set (drag_notes d). colorIndex n < length noteColors)"

section \<open>Properties\<close>

lemma foldl_set_sticky_notes:
  "foldl (\<lambda>t d. t\<lparr>sticky_notes := f d\<rparr>) s ds = (if ds = [] then s else s\<lparr>sticky_notes := f (last ds)\<rparr>)"
  by (induction ds arbitrary: s) auto

lemma handleMouseMove_eq:
  "handleMouseMove cx cy s =
     (if listeners s = [] then s else s\<lparr>sticky_notes := drag_move cx cy (last (listeners s))\<rparr>)"
  by (simp add: handleMouseMove_def foldl_set_sticky_notes)

lemma colorIndex_updateNotePosition:
  "\<forall>n \<in> set ns. colorIndex n < k \<Longrightarrow> \<forall>n \<in> set (updateNotePosition i x y ns). colorIndex n < k"
  by (auto simp: updateNotePosition_def map_where_def)

lemma sticky_run_Nil [simp]: "sticky_run [] s = s"
  by (simp add: sticky_run_def)

lemma sticky_run_Cons [simp]: "sticky_run (e # es) s = sticky_run es (sticky_handler e s)"
  by (simp add: sticky_run_def)

lemma sticky_run_append: "sticky_run (es @ fs) s = sticky_run fs (sticky_run es s)"
  by (simp add: sticky_run_def)

lemma sticky_inv_step: "sticky_inv s \<Longrightarrow> sticky_offered e \<Longrightarrow> sticky_inv (sticky_handler e s)"
proof (cases e)
  case (MouseMove cx cy)
  assume inv: "sticky_inv s"
  show ?thesis
  proof (cases "listeners s = []")
    case False
    then have "last (listeners s) \<in> set (listeners s)" by simp
    with inv have "\<forall>n \<in> set (drag_notes (last (listeners s))). colorIndex n < length noteColors"
      by (simp add: sticky_inv_def)
    then have "\<forall>n \<in> set (drag_move cx cy (last (listeners s))). colorIndex n < length noteColors"
      unfolding drag_move_def by (rule colorIndex_updateNotePosition)
    with inv False MouseMove show ?thesis by (simp add: sticky_inv_def handleMouseMove_eq)
  qed (use inv MouseMove in \<open>simp add: handleMouseMove_eq\<close>)
qed (auto simp: sticky_inv_def addNote_def deleteNote_def updateNoteContent_def updateNoteColor_def
       handleMouseDown_def handleMouseUp_def map_where_def Let_def split: option.splits)

lemma render_gradients_ok:
  "\<forall>n \<in> set ns. colorIndex n < length noteColors \<Longrightarrow> \<exists>gs. render_gradients ns = Inr gs"
  by (induction ns) auto

lemma sticky_inv_init: "sticky_inv sticky_init"
  by (simp add: sticky_inv_def sticky_init_def noteColors_def)

text \<open>C36: in every reachable corkboard state every note, every pending selection and every drag snapshot uses a palette colour, so rendering the notes never throws the TypeError of noteColors[colorIndex].gradient.\<close>

lemma sticky_reach_inv:
  "sticky_reach s \<Longrightarrow> sticky_inv s \<and> (\<exists>gs. render_gradients (sticky_notes s) = Inr gs)"
proof -
  assume "sticky_reach s"
  then have "sticky_inv s"
  proof (induction rule: sticky_reach.induct)
    case sticky_reach_init
    show ?case by (rule sticky_inv_init)
  next
    case (sticky_reach_step s e)
    then show ?case by (simp add: sticky_inv_step)
  qed
  then show ?thesis by (simp add: sticky_inv_def render_gradients_ok)
qed

lemma sticky_reach_inv_witness:
  "sticky_reach (sticky_handler (AddNoteClick 7 (1/2) (1/2)) (sticky_handler (SetNewContent ''x'') sticky_init)) \<and>
   sticky_inv (sticky_handler (AddNoteClick 7 (1/2) (1/2)) (sticky_handler (SetNewContent ''x'') sticky_init))"
proof -
  have r: "sticky_reach (sticky_handler (AddNoteClick 7 (1/2) (1/2)) (sticky_handler (SetNewContent ''x'') sticky_init))"
    by (intro sticky_reach_step sticky_reach_init) simp_all
  from sticky_reach_inv [OF r] r show ?thesis by simp
qed

lemma run_moves_single:
  "listeners t = [d] \<Longrightarrow> ms \<noteq> [] \<Longrightarrow>
   sticky_run (map (case_prod MouseMove) ms) t = t\<lparr>sticky_notes := drag_move (fst (last ms)) (snd (last ms)) d\<rparr>"
proof (induction ms arbitrary: t)
  case Nil
  then show ?case by simp
next
  case (Cons m ms)
  show ?case
  proof (cases "ms = []")
    case True
    with Cons.prems show ?thesis by (cases m) (simp add: handleMouseMove_eq)
  next
    case False
    with Cons show ?thesis by (cases m) (simp add: handleMouseMove_eq)
  qed
qed

lemma run_moves_idle: "listeners t = [] \<Longrightarrow> sticky_run (map (case_prod MouseMove) ms) t = t"
  by (induction ms) (auto simp: handleMouseMove_eq)

text \<open>C37: a drag moves only the grabbed note, to its start position plus the pointer displacement of the last move (intermediate moves leave no trace), and after the mouse button is released further mouse moves change nothing.\<close>

lemma drag_then_release:
  assumes "listeners s = []" "find (\<lambda>n. note_id n = i) (sticky_notes s) = Some n"
    "ms \<noteq> []" "last ms = (cx, cy)"
  shows "sticky_notes (sticky_run (map (case_prod MouseMove) ms) (handleMouseDown i sx sy s)) =
      updateNotePosition i (nx n + (cx - sx)) (ny n + (cy - sy)) (sticky_notes s) \<and>
    sticky_run (map (case_prod MouseMove) ms')
      (sticky_run (map (case_prod MouseMove) ms @ [MouseUp]) (handleMouseDown i sx sy s)) =
    sticky_run (map (case_prod MouseMove) ms @ [MouseUp]) (handleMouseDown i sx sy s)"
proof -
  define d where "d = \<lparr>drag_note = i, startX = sx, startY = sy, startNoteX = nx n, startNoteY = ny n,
      drag_notes = sticky_notes s\<rparr>"
  have down: "handleMouseDown i sx sy s = s\<lparr>listeners := [d]\<rparr>"
    using assms(1,2) by (simp add: handleMouseDown_def d_def)
  have moved: "sticky_run (map (case_prod MouseMove) ms) (handleMouseDown i sx sy s) =
      s\<lparr>listeners := [d], sticky_notes := drag_move cx cy d\<rparr>"
    using run_moves_single [of "s\<lparr>listeners := [d]\<rparr>" d ms] assms(3,4) down by simp
  have "sticky_run (map (case_prod MouseMove) ms @ [MouseUp]) (handleMouseDown i sx sy s) =
      s\<lparr>listeners := [], sticky_notes := drag_move cx cy d\<rparr>"
    using moved by (simp add: sticky_run_append handleMouseUp_def)
  with moved show ?thesis by (simp add: run_moves_idle drag_move_def d_def)
qed

lemma drag_then_release_witness:
  "sticky_notes (sticky_run [MouseMove 10 10, MouseMove 30 5] (handleMouseDown ''2'' 0 0 sticky_init)) =
     updateNotePosition ''2'' 280 85 (sticky_notes sticky_init) \<and>
   sticky_run [MouseMove 100 100] (sticky_run [MouseMove 10 10, MouseMove 30 5, MouseUp]
      (handleMouseDown ''2'' 0 0 sticky_init)) =
   sticky_run [MouseMove 10 10, MouseMove 30 5, MouseUp] (handleMouseDown ''2'' 0 0 sticky_init)"
  using drag_then_release [of sticky_init "''2''" _ "[(10, 10), (30, 5)]" 30 5 0 0 "[(100, 100)]"]
  by (simp add: sticky_init_def)

end
