(* ===== verification/WhiteNoise.thy ===== *)
theory WhiteNoise
  imports Prelude
begin

text \<open>
  The ambient-sound mixer of \<open>src/src/components/WhiteNoisePlayer.tsx\<close>. The hooks are
  the record \<open>mixer\<close> (the six sounds and the master volume). \<open>toggleSound\<close>,
  \<open>updateSoundVolume\<close>, \<open>stopAllSounds\<close> and the four "Popular Combinations" buttons
  map over the sounds; the render offers a sound's volume slider only while that sound
  plays, and both kinds of slider report a value in \<open>0..100\<close> (\<open>max={100}\<close>,
  \<open>step={1}\<close>). No audio is produced by the code: the state is all there is. The sound
  icons are React components and are not modelled.
\<close>

record sound =
  sound_id :: string
  sound_name :: string
  sound_color :: string
  isPlaying :: bool
  volume :: int

record mixer =
  sounds :: "sound list"
  masterVolume :: int

definition mk_sound :: "string \<Rightarrow> string \<Rightarrow> string \<Rightarrow> sound" where
  "mk_sound i n c = \<lparr>sound_id = i, sound_name = n, sound_color = c, isPlaying = False, volume = 50\<rparr>"

definition mixer_init :: mixer where
  "mixer_init = \<lparr>sounds =
     [mk_sound ''rain'' ''Rain'' ''from-blue-300 to-blue-400'',
      mk_sound ''coffee'' ''Coffee Shop'' ''from-amber-300 to-orange-400'',
      mk_sound ''waves'' ''Ocean Waves'' ''from-cyan-300 to-blue-400'',
      mk_sound ''wind'' ''Wind'' ''from-gray-300 to-slate-400'',
      mk_sound ''forest'' ''Forest'' ''from-green-300 to-emerald-400'',
      mk_sound ''piano'' ''Piano'' ''from-purple-300 to-pink-400''],
     masterVolume = 70\<rparr>"

definition toggleSound :: "string \<Rightarrow> mixer \<Rightarrow> mixer" where
  "toggleSound i m = m\<lparr>sounds := map_where (\<lambda>s. sound_id s = i) (\<lambda>s. s\<lparr>isPlaying := \<not> isPlaying s\<rparr>) (sounds m)\<rparr>"

definition updateSoundVolume :: "string \<Rightarrow> int \<Rightarrow> mixer \<Rightarrow> mixer" where
  "updateSoundVolume i v m = m\<lparr>sounds := map_where (\<lambda>s. sound_id s = i) (\<lambda>s. s\<lparr>volume := v\<rparr>) (sounds m)\<rparr>"

definition stopAllSounds :: "mixer \<Rightarrow> mixer" where
  "stopAllSounds m = m\<lparr>sounds := map (\<lambda>s. s\<lparr>isPlaying := False\<rparr>) (sounds m)\<rparr>"

definition playingSounds :: "mixer \<Rightarrow> sound list" where
  "playingSounds m = filter isPlaying (sounds m)"

text \<open>A "Popular Combinations" button: sounds \<open>a\<close> and \<open>b\<close> play at volumes \<open>va\<close>
  and \<open>vb\<close>, every other sound stops and keeps its volume.\<close>

definition applyCombination :: "string \<Rightarrow> int \<Rightarrow> string \<Rightarrow> int \<Rightarrow> mixer \<Rightarrow> mixer" where
  "applyCombination a va b vb m = m\<lparr>sounds := map (\<lambda>s. s\<lparr>isPlaying := (sound_id s = a \<or> sound_id s = b),
     volume := (if sound_id s = a then va else if sound_id s = b then vb else volume s)\<rparr>) (sounds m)\<rparr>"

datatype combination = CozyCafe | NatureEscape | OceanSerenity | RainyStudy

fun combination_sounds :: "combination \<Rightarrow> string \<times> int \<times> string \<times> int" where
  "combination_sounds CozyCafe = (''rain'', 60, ''coffee'', 40)"
| "combination_sounds NatureEscape = (''forest'', 70, ''wind'', 30)"
| "combination_sounds OceanSerenity = (''waves'', 50, ''piano'', 60)"
| "combination_sounds RainyStudy = (''rain'', 40, ''piano'', 70)"

datatype mixer_event =
    SetMasterVolume int
  | StopAll
  | ToggleSoundClick string
  | SoundVolumeSlider string int
  | CombinationClick combination

fun mixer_handler :: "mixer_event \<Rightarrow> mixer \<Rightarrow> mixer" where
  "mixer_handler (SetMasterVolume v) m = m\<lparr>masterVolume := v\<rparr>"
| "mixer_handler StopAll m = stopAllSounds m"
| "mixer_handler (ToggleSoundClick i) m = toggleSound i m"
| "mixer_handler (SoundVolumeSlider i v) m = updateSoundVolume i v m"
| "mixer_handler (CombinationClick c) m =
     (case combination_sounds c of (a, va, b, vb) \<Rightarrow> applyCombination a va b vb m)"

text \<open>What the render offers: slider values in \<open>0..100\<close>, a sound's slider only while
  it plays, buttons only for the rendered sounds.\<close>

fun mixer_offered :: "mixer \<Rightarrow> mixer_event \<Rightarrow> bool" where
  "mixer_offered m (SetMasterVolume v) = (0 \<le> v \<and> v \<le> 100)"
| "mixer_offered m (SoundVolumeSlider i v) =
     (0 \<le> v \<and> v \<le> 100 \<and> i \<in> set (map sound_id (playingSounds m)))"
| "mixer_offered m (ToggleSoundClick i) = (i \<in> set (map sound_id (sounds m)))"
| "mixer_offered m e = True"

inductive mixer_reach :: "mixer \<Rightarrow> bool" where
  mixer_reach_init: "mixer_reach mixer_init"
| mixer_reach_step: "mixer_reach m \<Longrightarrow> mixer_offered m e \<Longrightarrow> mixer_reach (mixer_handler e m)"

definition mixer_inv :: "mixer \<Rightarrow> bool" where
  "mixer_inv m \<longleftrightarrow>
     map sound_id (sounds m) = [''rain'', ''coffee'', ''waves'', ''wind'', ''forest'', ''piano''] \<and>
     (\<forall>s \<in> set (sounds m). 0 \<le> volume s \<and> volume s \<le> 100) \<and>
     0 \<le> masterVolume m \<and> masterVolume m \<le> 100"

section \<open>Properties\<close>

lemma map_sound_id_map_where [simp]:
  "map sound_id (map_where p (\<lambda>s. s\<lparr>isPlaying := b s\<rparr>) xs) = map sound_id xs"
  "map sound_id (map_where p (\<lambda>s. s\<lparr>volume := v\<rparr>) xs) = map sound_id xs"
  by (induction xs) simp_all

lemma combination_sounds_range:
  "combination_sounds c = (a, va, b, vb) \<Longrightarrow> 0 \<le> va \<and> va \<le> 100 \<and> 0 \<le> vb \<and> vb \<le> 100"
  by (cases c) auto

lemma mixer_inv_init: "mixer_inv mixer_init"
  by (simp add: mixer_inv_def mixer_init_def mk_sound_def)

lemma mixer_handler_ids: "map sound_id (sounds (mixer_handler e m)) = map sound_id (sounds m)"
  by (cases e) (simp_all add: toggleSound_def updateSoundVolume_def stopAllSounds_def
      applyCombination_def comp_def split: prod.splits)

lemma mixer_handler_master:
  "mixer_offered m e \<Longrightarrow> 0 \<le> masterVolume m \<and> masterVolume m \<le> 100 \<Longrightarrow>
   0 \<le> masterVolume (mixer_handler e m) \<and> masterVolume (mixer_handler e m) \<le> 100"
  by (cases e) (simp_all add: toggleSound_def updateSoundVolume_def stopAllSounds_def
      applyCombination_def split: prod.splits)

lemma mixer_handler_volumes:
  assumes "mixer_offered m e" "\<forall>s \<in> set (sounds m). 0 \<le> volume s \<and> volume s \<le> 100"
  shows "\<forall>s \<in> set (sounds (mixer_handler e m)). 0 \<le> volume s \<and> volume s \<le> 100"
proof (cases e)
  case (CombinationClick c)
  obtain a va b vb where c: "combination_sounds c = (a, va, b, vb)" by (cases "combination_sounds c") auto
  from combination_sounds_range [OF c] assms(2) c CombinationClick show ?thesis
    by (simp add: applyCombination_def)
qed (use assms in \<open>auto simp: toggleSound_def updateSoundVolume_def stopAllSounds_def map_where_def\<close>)

lemma mixer_inv_step: "mixer_inv m \<Longrightarrow> mixer_offered m e \<Longrightarrow> mixer_inv (mixer_handler e m)"
  unfolding mixer_inv_def using mixer_handler_ids mixer_handler_master mixer_handler_volumes by metis

text \<open>C38: in every reachable state of the sound mixer the six sounds keep their ids and order, every sound volume and the master volume stay within 0..100.\<close>

lemma mixer_reach_inv: "mixer_reach m \<Longrightarrow> mixer_inv m"
proof (induction rule: mixer_reach.induct)
  case mixer_reach_init
  show ?case by (rule mixer_inv_init)
next
  case (mixer_reach_step m e)
  then show ?case by (simp add: mixer_inv_step)
qed

lemma mixer_reach_inv_witness:
  "mixer_reach (mixer_handler (SoundVolumeSlider ''rain'' 90) (mixer_handler (ToggleSoundClick ''rain'') mixer_init)) \<and>
   mixer_inv (mixer_handler (SoundVolumeSlider ''rain'' 90) (mixer_handler (ToggleSoundClick ''rain'') mixer_init))"
proof -
  have r0: "mixer_reach (mixer_handler (ToggleSoundClick ''rain'') mixer_init)"
    by (rule mixer_reach_step [OF mixer_reach_init]) (simp add: mixer_init_def mk_sound_def)
  have "''rain'' \<in> set (map sound_id (playingSounds (mixer_handler (ToggleSoundClick ''rain'') mixer_init)))"
    by (simp add: mixer_init_def mk_sound_def toggleSound_def playingSounds_def map_where_def)
  then have r: "mixer_reach (mixer_handler (SoundVolumeSlider ''rain'' 90) (mixer_handler (ToggleSoundClick ''rain'') mixer_init))"
    by (intro mixer_reach_step [OF r0]) simp
  from mixer_reach_inv [OF r] r show ?thesis by simp
qed

end
