(* ===== verification/Mascot.thy ===== *)
theory Mascot
  imports PixelPet
begin

text \<open>
  The mascot of \<open>src/src/components/Mascot.tsx\<close>: a pixel pet with a speech bubble that
  rotates through \<open>mascotFacts\<close>. Its two hooks are the record \<open>mascot_state\<close>. While
  \<open>showFacts\<close> holds, an effect on \<open>[showFacts, currentFact]\<close> runs an 8-second
  interval whose callback advances \<open>currentFact\<close> modulo the number of facts and sets
  \<open>showPetTip\<close> from the \<open>currentFact\<close> its render captured; since the effect is
  re-registered whenever \<open>currentFact\<close> changes, that captured value is the current one,
  and one interval firing is \<open>mascot_tick\<close>. The bubble shows the pet-specific tip
  (which dereferences \<open>petInfo[type]\<close> and throws a TypeError for a type missing from it)
  or the current fact.
\<close>

definition mascotFacts :: "string list" where
  "mascotFacts =
    [''Did you know? Taking breaks every 25 minutes helps your brain stay fresh!'',
     ''Fun fact: Writing tasks down makes you 42% more likely to complete them!'',
     ''Tip: A tidy workspace leads to a tidy mind!'',
     ''Remember: You'' @ [CHR 0x27] @ ''re doing great! Every small step counts!'',
     ''Pro tip: Drinking water helps your brain function better!'',
     ''Did you know? Plants in your workspace can boost productivity by 15%!'',
     ''Fun fact: The best time to study is when you'' @ [CHR 0x27] @ ''re most alert!'',
     ''Reminder: Celebrate your wins, no matter how small!'']"

definition getPetSpecificTip :: "string \<Rightarrow> js_error + string" where
  "getPetSpecificTip k =
     (case petInfo_get k of
        None \<Rightarrow> Inl (TypeError ''Cannot read properties of undefined (reading name)'')
      | Some pet \<Rightarrow> Inr (info_name pet @ '' says: '' @ [CHR 0x22] @ personality pet @
          '' companions like me are here to support your journey!'' @ [CHR 0x22]))"

record mascot_state =
  currentFact :: nat
  showPetTip :: bool

definition mascot_init :: mascot_state where
  "mascot_init = \<lparr>currentFact = 0, showPetTip = False\<rparr>"

definition mascot_tick :: "mascot_state \<Rightarrow> mascot_state" where
  "mascot_tick s = \<lparr>currentFact = (currentFact s + 1) mod length mascotFacts,
     showPetTip = ((currentFact s + 1) mod 3 = 0)\<rparr>"

text \<open>The interval exists only while \<open>showFacts\<close> holds.\<close>

inductive mascot_reach :: "bool \<Rightarrow> mascot_state \<Rightarrow> bool" for showFacts :: bool where
  mascot_reach_init: "mascot_reach showFacts mascot_init"
| mascot_reach_tick: "mascot_reach showFacts s \<Longrightarrow> showFacts \<Longrightarrow> mascot_reach showFacts (mascot_tick s)"

definition currentTip :: "string \<Rightarrow> mascot_state \<Rightarrow> js_error + string" where
  "currentTip k s = (if showPetTip s then getPetSpecificTip k else Inr (mascotFacts ! currentFact s))"

fun getMoodIcon :: "pet_mood \<Rightarrow> string" where
  "getMoodIcon Excited = ''Sparkles''"
| "getMoodIcon Sleeping = ''Moon''"
| "getMoodIcon Working = ''Coffee''"
| "getMoodIcon Happy = ''Heart''"

text \<open>What the component renders: the sprite caption, the mood badge, and the bubble
  when \<open>showFacts\<close> holds.\<close>

definition mascot_render ::
  "string \<Rightarrow> pet_mood \<Rightarrow> pet_size \<Rightarrow> bool \<Rightarrow> mascot_state \<Rightarrow>
   js_error + ((string \<times> string) option \<times> string \<times> string option)" where
  "mascot_render k mood sz showFacts s =
     (case currentTip k s of
        Inl e \<Rightarrow> Inl e
      | Inr tip \<Rightarrow> Inr (pixelPet_caption k sz, getMoodIcon mood, if showFacts then Some tip else None))"

text \<open>The mascot of \<open>LoginPage\<close>: \<open><Mascot type="cat" mood="happy" size="md"
  showFacts={false} />\<close>.\<close>

definition loginPage_mascot :: "mascot_state \<Rightarrow> js_error + ((string \<times> string) option \<times> string \<times> string option)" where
  "loginPage_mascot s = mascot_render ''cat'' Happy Md False s"

definition mascot_inv :: "mascot_state \<Rightarrow> bool" where
  "mascot_inv s \<longleftrightarrow> currentFact s < 8 \<and> (showPetTip s \<longleftrightarrow> currentFact s = 3 \<or> currentFact s = 6)"

section \<open>Properties\<close>

lemma length_mascotFacts [simp]: "length mascotFacts = 8"
  by (simp add: mascotFacts_def)


lemma tick_tip_index:
  assumes "c < (8::nat)"
  shows "(Suc c mod 3 = 0) = (Suc c mod 8 = 3 \<or> Suc c mod 8 = 6)"
proof -
  from assms have "c = 0 \<or> c = 1 \<or> c = 2 \<or> c = 3 \<or> c = 4 \<or> c = 5 \<or> c = 6 \<or> c = 7" by linarith
  then show ?thesis by auto
qed

lemma mascot_inv_tick: "mascot_inv s \<Longrightarrow> mascot_inv (mascot_tick s)"
  unfolding mascot_inv_def mascot_tick_def by (simp add: tick_tip_index)

lemma mascot_reach_inv_aux: "mascot_reach b s \<Longrightarrow> mascot_inv s"
proof (induction rule: mascot_reach.induct)
  case mascot_reach_init
  show ?case by (simp add: mascot_inv_def mascot_init_def)
next
  case (mascot_reach_tick s)
  from mascot_reach_tick.IH show ?case by (rule mascot_inv_tick)
qed

lemma mascot_reach_hidden: "mascot_reach False s \<Longrightarrow> s = mascot_init"
  by (induction rule: mascot_reach.induct) simp_all

lemma distinct_mascotFacts: "distinct mascotFacts"
  by (simp add: mascotFacts_def)

lemma pet_tip_not_fact:
  "getPetSpecificTip (pet_key t) \<noteq> Inr (mascotFacts ! 3) \<and> getPetSpecificTip (pet_key t) \<noteq> Inr (mascotFacts ! 6)"
  by (cases t) (simp_all add: getPetSpecificTip_def petInfo_get_def mascotFacts_def)

lemma petInfo_get_key [simp]: "petInfo_get (pet_key t) = Some (petInfo t)"
  by (cases t) (simp_all add: petInfo_get_def)

text \<open>C39: while facts are shown, the bubble never throws for a pet type, the pet tip replaces exactly facts 3 and 6 of the rotation, and so those two facts are never displayed (the comment promises a tip "every 3rd fact").\<close>

lemma mascot_rotation:
  assumes "mascot_reach True s"
  shows "(\<exists>tip. currentTip (pet_key t) s = Inr tip) \<and>
    currentTip (pet_key t) s \<noteq> Inr (mascotFacts ! 3) \<and> currentTip (pet_key t) s \<noteq> Inr (mascotFacts ! 6) \<and>
    (showPetTip s \<longleftrightarrow> currentFact s = 3 \<or> currentFact s = 6)"
proof -
  have inv: "mascot_inv s" using assms by (rule mascot_reach_inv_aux)
  have ne: "mascotFacts ! currentFact s \<noteq> mascotFacts ! 3 \<and> mascotFacts ! currentFact s \<noteq> mascotFacts ! 6"
    if "\<not> showPetTip s"
  proof -
    from inv that have "currentFact s < length mascotFacts" "currentFact s \<noteq> 3" "currentFact s \<noteq> 6"
      by (simp_all add: mascot_inv_def)
    with distinct_mascotFacts show ?thesis by (simp add: nth_eq_iff_index_eq)
  qed
  have "\<exists>tip. currentTip (pet_key t) s = Inr tip" by (simp add: currentTip_def getPetSpecificTip_def)
  with inv ne pet_tip_not_fact [of t] show ?thesis by (simp add: currentTip_def mascot_inv_def)
qed

lemma mascot_rotation_witness:
  "mascot_reach True (mascot_tick (mascot_tick (mascot_tick mascot_init))) \<and>
   currentTip (pet_key Hoot) (mascot_tick (mascot_tick (mascot_tick mascot_init))) \<noteq> Inr (mascotFacts ! 3) \<and>
   showPetTip (mascot_tick (mascot_tick (mascot_tick mascot_init)))"
proof -
  have r: "mascot_reach True (mascot_tick (mascot_tick (mascot_tick mascot_init)))"
    by (intro mascot_reach_tick mascot_reach_init TrueI)
  have "currentFact (mascot_tick (mascot_tick (mascot_tick mascot_init))) = 3"
    by (simp add: mascot_tick_def mascot_init_def)
  with mascot_rotation [OF r, of Hoot] r show ?thesis by simp
qed

text \<open>C40: a mascot whose type is not a key of \<open>petInfo\<close> (the login page passes "cat")
  renders without error while facts are hidden, since the interval never runs; with facts
  shown its bubble throws a TypeError exactly when the rotation reaches the pet tip (facts 3
  and 6, counted from 0); a pet type never throws.\<close>

lemma login_mascot_unknown:
  assumes "mascot_reach b s"
  shows "(\<exists>err. mascot_render k mood sz b s = Inl err) \<longleftrightarrow>
    b \<and> petInfo_get k = None \<and> (currentFact s = 3 \<or> currentFact s = 6)"
proof (cases b)
  case True
  have "showPetTip s \<longleftrightarrow> currentFact s = 3 \<or> currentFact s = 6"
    using mascot_reach_inv_aux [OF assms] by (simp add: mascot_inv_def)
  with True show ?thesis
    by (auto simp: mascot_render_def currentTip_def getPetSpecificTip_def split: option.splits)
next
  case False
  then have "s = mascot_init" using assms by (simp add: mascot_reach_hidden)
  then show ?thesis using False by (simp add: mascot_render_def currentTip_def mascot_init_def)
qed

lemma login_mascot_unknown_witness:
  "(\<exists>err. mascot_render ''cat'' Happy Md True (mascot_tick (mascot_tick (mascot_tick mascot_init))) = Inl err) \<and>
   \<not> (\<exists>err. loginPage_mascot mascot_init = Inl err)"
proof -
  have r: "mascot_reach True (mascot_tick (mascot_tick (mascot_tick mascot_init)))"
    by (intro mascot_reach_tick mascot_reach_init TrueI)
  have c: "currentFact (mascot_tick (mascot_tick (mascot_tick mascot_init))) = 3"
    by (simp add: mascot_tick_def mascot_init_def)
  have cat: "petInfo_get ''cat'' = None" by (simp add: petInfo_get_def)
  show ?thesis
    using login_mascot_unknown [OF r, of "''cat''" Happy Md]
      login_mascot_unknown [OF mascot_reach_init [of False], of "''cat''" Happy Md] c cat
    by (simp add: loginPage_mascot_def)
qed

end
