(* ===== verification/Calendar.thy ===== *)
theory Calendar
  imports TodoList
begin

text \<open>
  The month calendar of \<open>src/src/components/CalendarView.tsx\<close>. A \<open>Date\<close> the
  component builds is a local midnight and is modelled by its local civil date
  \<open>(year, monthIndex, day)\<close> with the month counted from 0 as in JavaScript. The
  constructor \<open>new Date(y, m, d)\<close> normalises an out-of-range month or day by carrying
  into the neighbouring months (\<open>js_make_date\<close>, a terminating recursion on the day);
  \<open>getDay()\<close> is the weekday of the proleptic Gregorian calendar; \<open>toISOString()\<close>
  of a local midnight is the date of that instant in UTC, computed from the offset
  \<open>tz\<close> (minutes east of UTC, a parameter: a fixed offset, no daylight-saving change). The task
  type is the one of \<open>TodoList\<close> (the file declares the same interface). The hooks
  are the record \<open>calendar_state\<close>; the grid that \<open>renderCalendarDays\<close> builds is the
  list of \<open>cell\<close>s of \<open>calendar_days\<close>.
\<close>

type_synonym civil = "int \<times> int \<times> int"

definition is_leap :: "int \<Rightarrow> bool" where
  "is_leap y \<longleftrightarrow> (y mod 4 = 0 \<and> y mod 100 \<noteq> 0) \<or> y mod 400 = 0"

text \<open>Days of month \<open>m\<close> (0-based) of year \<open>y\<close>, for \<open>m\<close> in \<open>0..11\<close>.\<close>

definition days_in_month :: "int \<Rightarrow> int \<Rightarrow> int" where
  "days_in_month y m =
     (if m = 1 then (if is_leap y then 29 else 28)
      else if m = 3 \<or> m = 5 \<or> m = 8 \<or> m = 10 then 30 else 31)"

function js_make_date :: "int \<Rightarrow> int \<Rightarrow> int \<Rightarrow> civil" where
  "js_make_date y m d =
     (let y1 = y + m div 12; m1 = m mod 12 in
      if d < 1 then js_make_date y1 (m1 - 1) (d + days_in_month (y1 + (m1 - 1) div 12) ((m1 - 1) mod 12))
      else if days_in_month y1 m1 < d then js_make_date y1 (m1 + 1) (d - days_in_month y1 m1)
      else (y1, m1, d))"
  by pat_completeness auto
termination
proof (relation "measure (\<lambda>(y, m, d). nat (if d < 1 then 63 - d else d))")
  show "wf (measure (\<lambda>(y, m, d). nat (if d < 1 then 63 - d else d)))" by simp
next
  fix y m d y1 m1 :: int
  assume "y1 = y + m div 12" "m1 = m mod 12" "d < 1"
  then show "((y1, m1 - 1, d + days_in_month (y1 + (m1 - 1) div 12) ((m1 - 1) mod 12)), (y, m, d))
      \<in> measure (\<lambda>(y, m, d). nat (if d < 1 then 63 - d else d))"
    by (auto simp: days_in_month_def)
next
  fix y m d y1 m1 :: int
  assume "y1 = y + m div 12" "m1 = m mod 12" "\<not> d < 1" "days_in_month y1 m1 < d"
  then show "((y1, m1 + 1, d - days_in_month y1 m1), (y, m, d))
      \<in> measure (\<lambda>(y, m, d). nat (if d < 1 then 63 - d else d))"
    by (auto simp: days_in_month_def)
qed

declare js_make_date.simps [simp del]

definition getFullYear :: "civil \<Rightarrow> int" where
  "getFullYear c = fst c"

definition getMonth :: "civil \<Rightarrow> int" where
  "getMonth c = fst (snd c)"

definition getDate :: "civil \<Rightarrow> int" where
  "getDate c = snd (snd c)"

text \<open>\<open>getDay()\<close>: Sakamoto's weekday formula, 0 for Sunday.\<close>

definition getDay :: "civil \<Rightarrow> int" where
  "getDay c =
     (let (y, m, d) = c; t = [0, 3, 2, 5, 0, 3, 5, 1, 4, 6, 2, 4 :: int];
          y' = (if m < 2 then y - 1 else y) in
      (y' + y' div 4 - y' div 100 + y' div 400 + t ! nat m + d) mod 7)"

text \<open>\<open>toISOString().split('T')[0]\<close> of the local midnight of \<open>c\<close>: the date of the UTC
  instant \<open>tz\<close> minutes before that midnight, i.e. the local date carried by
  \<open>floor(-tz / 1440)\<close> days (\<open>new Date(y, m, d, 0, -tz)\<close>, normalised as the constructor
  does), written \<open>YYYY-MM-DD\<close> (years \<open>0..9999\<close>).\<close>

definition utc_date :: "int \<Rightarrow> civil \<Rightarrow> civil" where
  "utc_date tz c = js_make_date (getFullYear c) (getMonth c) (getDate c + (- tz) div 1440)"

definition iso_date :: "civil \<Rightarrow> string" where
  "iso_date c =
     pad_start 4 CHR ''0'' (js_int_string (getFullYear c)) @ ''-'' @
     pad_start 2 CHR ''0'' (js_int_string (getMonth c + 1)) @ ''-'' @
     pad_start 2 CHR ''0'' (js_int_string (getDate c))"

definition getTodosForDate :: "int \<Rightarrow> todo list \<Rightarrow> civil \<Rightarrow> todo list" where
  "getTodosForDate tz tds c = filter (\<lambda>t. dueDate t = Some (iso_date (utc_date tz c))) tds"

definition defaultTodos :: "todo list" where
  "defaultTodos =
    [\<lparr>todo_id = ''1'', todo_text = ''Review presentation slides'', completed = False, priority = High,
      dueDate = Some ''2025-09-04''\<rparr>,
     \<lparr>todo_id = ''2'', todo_text = ''Call team meeting'', completed = True, priority = Medium,
      dueDate = Some ''2025-09-03''\<rparr>,
     \<lparr>todo_id = ''3'', todo_text = ''Submit expense reports'', completed = False, priority = High,
      dueDate = Some ''2025-09-05''\<rparr>,
     \<lparr>todo_id = ''4'', todo_text = ''Plan weekend trip'', completed = False, priority = Low,
      dueDate = Some ''2025-09-07''\<rparr>,
     \<lparr>todo_id = ''5'', todo_text = ''Doctor appointment'', completed = False, priority = Medium,
      dueDate = Some ''2025-09-10''\<rparr>,
     \<lparr>todo_id = ''6'', todo_text = ''Grocery shopping'', completed = False, priority = Low,
      dueDate = Some ''2025-09-12''\<rparr>]"

record calendar_state =
  currentDate :: civil
  selectedDate :: "civil option"

definition calendar_init :: "civil \<Rightarrow> calendar_state" where
  "calendar_init today = \<lparr>currentDate = today, selectedDate = None\<rparr>"

datatype direction = Prev | Next

definition navigateMonth :: "direction \<Rightarrow> calendar_state \<Rightarrow> calendar_state" where
  "navigateMonth dir s =
     (let c = currentDate s in
      s\<lparr>currentDate := js_make_date (getFullYear c) (getMonth c + (if dir = Next then 1 else -1)) 1,
        selectedDate := None\<rparr>)"

definition selectDate :: "civil \<Rightarrow> calendar_state \<Rightarrow> calendar_state" where
  "selectDate c s = s\<lparr>selectedDate := Some c\<rparr>"

definition firstDayWeekday :: "calendar_state \<Rightarrow> int" where
  "firstDayWeekday s = getDay (js_make_date (getFullYear (currentDate s)) (getMonth (currentDate s)) 1)"

definition daysInMonth :: "calendar_state \<Rightarrow> int" where
  "daysInMonth s = getDate (js_make_date (getFullYear (currentDate s)) (getMonth (currentDate s) + 1) 0)"

fun getPriorityDot :: "priority \<Rightarrow> string" where
  "getPriorityDot High = ''bg-red-500''"
| "getPriorityDot Medium = ''bg-yellow-500''"
| "getPriorityDot Low = ''bg-green-500''"

datatype cell_kind = PrevMonth | CurMonth | NextMonth

record cell =
  cell_kind :: cell_kind
  cell_label :: int
  cell_date :: civil
  cell_dots :: "string list"
  cell_more :: "int option"
  cell_today :: bool
  cell_selected :: bool

text \<open>The dots of a cell: the first \<open>k\<close> tasks' priority dots and a \<open>+n\<close> badge for the rest.\<close>

definition dots :: "nat \<Rightarrow> todo list \<Rightarrow> string list \<times> int option" where
  "dots k ts = (map (getPriorityDot \<circ> priority) (take k ts),
     (if k < length ts then Some (int (length ts - k)) else None))"

definition outside_cell :: "cell_kind \<Rightarrow> int \<Rightarrow> todo list \<Rightarrow> int \<Rightarrow> civil \<Rightarrow> cell" where
  "outside_cell kind tz tds day date =
     (let ds = dots 2 (getTodosForDate tz tds date) in
      \<lparr>cell_kind = kind, cell_label = day, cell_date = date, cell_dots = fst ds, cell_more = snd ds,
       cell_today = False, cell_selected = False\<rparr>)"

definition month_cell :: "int \<Rightarrow> civil \<Rightarrow> todo list \<Rightarrow> calendar_state \<Rightarrow> int \<Rightarrow> cell" where
  "month_cell tz today tds s day =
     (let date = js_make_date (getFullYear (currentDate s)) (getMonth (currentDate s)) day;
          pending = filter (\<lambda>t. \<not> completed t) (getTodosForDate tz tds date);
          ds = dots 3 pending in
      \<lparr>cell_kind = CurMonth, cell_label = day, cell_date = date, cell_dots = fst ds, cell_more = snd ds,
       cell_today = (date = today), cell_selected = (selectedDate s = Some date)\<rparr>)"

definition calendar_days :: "int \<Rightarrow> civil \<Rightarrow> todo list \<Rightarrow> calendar_state \<Rightarrow> cell list" where
  "calendar_days tz today tds s =
     (let y = getFullYear (currentDate s); m = getMonth (currentDate s);
          w = firstDayWeekday s; dim = daysInMonth s;
          prevMonthDays = getDate (js_make_date y (m - 1) 0);
          leading = map (\<lambda>i. let day = prevMonthDays - i in
                        outside_cell PrevMonth tz tds day (js_make_date y (m - 1) day))
                      (rev [0..<nat w]);
          current = map (month_cell tz today tds s) [1..dim];
          totalCells = ((w + dim + 6) div 7) * 7;
          nextMonthDays = totalCells - w - dim;
          trailing = map (\<lambda>day. outside_cell NextMonth tz tds day (js_make_date y (m + 1) day))
                       [1..nextMonthDays]
      in leading @ current @ trailing)"

definition selectedDateTodos :: "int \<Rightarrow> todo list \<Rightarrow> calendar_state \<Rightarrow> todo list" where
  "selectedDateTodos tz tds s = (case selectedDate s of None \<Rightarrow> [] | Some c \<Rightarrow> getTodosForDate tz tds c)"

definition quick_stats :: "todo list \<Rightarrow> nat \<times> nat \<times> nat \<times> nat" where
  "quick_stats tds = (length tds, length (filter (\<lambda>t. \<not> completed t) tds),
     length (filter completed tds), length (filter (\<lambda>t. priority t = High \<and> \<not> completed t) tds))"

text \<open>The rest of the render: month and day names, the legend, the month title between the
  navigation buttons, and the task sidebar with its three states (no date selected, no tasks
  on the date, the task cards). A task card shows its text (struck through when done), the
  priority dot, the priority badge and, for a completed task, the "Completed" badge; the
  selected date's \<open>toLocaleDateString()\<close> is a parameter \<open>locale\<close>.\<close>

definition monthNames :: "string list" where
  "monthNames = [''January'', ''February'', ''March'', ''April'', ''May'', ''June'',
                 ''July'', ''August'', ''September'', ''October'', ''November'', ''December'']"

definition dayNames :: "string list" where
  "dayNames = [''Sun'', ''Mon'', ''Tue'', ''Wed'', ''Thu'', ''Fri'', ''Sat'']"

fun calendar_priority_color :: "priority \<Rightarrow> string" where
  "calendar_priority_color High = ''bg-red-400 border-red-500''"
| "calendar_priority_color Medium = ''bg-yellow-400 border-yellow-500''"
| "calendar_priority_color Low = ''bg-green-400 border-green-500''"

definition calendar_legend :: "(string \<times> string) list" where
  "calendar_legend = [(''bg-red-500'', ''High Priority''), (''bg-yellow-500'', ''Medium Priority''),
     (''bg-green-500'', ''Low Priority''), (''border-pink-400'', ''Today'')]"

definition calendar_title :: "calendar_state \<Rightarrow> string" where
  "calendar_title s = monthNames ! nat (getMonth (currentDate s)) @ '' '' @ js_int_string (getFullYear (currentDate s))"

fun priority_name :: "priority \<Rightarrow> string" where
  "priority_name High = ''high''"
| "priority_name Medium = ''medium''"
| "priority_name Low = ''low''"

record task_card =
  tc_text :: string
  tc_struck :: bool
  tc_dot :: string
  tc_badge :: string
  tc_completedBadge :: bool

datatype task_panel = ClickPrompt | NoTasks | TaskCards "task_card list"

definition sidebar_title :: "(civil \<Rightarrow> string) \<Rightarrow> calendar_state \<Rightarrow> string" where
  "sidebar_title locale s = (case selectedDate s of None \<Rightarrow> ''Select a date'' | Some c \<Rightarrow> ''Tasks for '' @ locale c)"

definition task_panel :: "int \<Rightarrow> todo list \<Rightarrow> calendar_state \<Rightarrow> task_panel" where
  "task_panel tz tds s =
     (case selectedDate s of
        None \<Rightarrow> ClickPrompt
      | Some c \<Rightarrow>
          (let ts = selectedDateTodos tz tds s in
           if ts = [] then NoTasks
           else TaskCards (map (\<lambda>t. \<lparr>tc_text = todo_text t, tc_struck = completed t, tc_dot = getPriorityDot (priority t),
                                      tc_badge = priority_name (priority t), tc_completedBadge = completed t\<rparr>) ts)))"

section \<open>Properties\<close>

lemma days_in_month_bounds: "28 \<le> days_in_month y m \<and> days_in_month y m \<le> 31"
  by (simp add: days_in_month_def)

lemma days_in_month_ge1 [simp]: "1 \<le> days_in_month y m"
  by (simp add: days_in_month_def)

lemma js_make_date_valid:
  "1 \<le> d \<Longrightarrow> d \<le> days_in_month (y + m div 12) (m mod 12) \<Longrightarrow>
   js_make_date y m d = (y + m div 12, m mod 12, d)"
  by (subst js_make_date.simps) (simp add: Let_def)

lemma js_make_date_day1 [simp]: "js_make_date y m 1 = (y + m div 12, m mod 12, 1)"
  by (intro js_make_date_valid) simp_all

lemma js_make_date_zero:
  "js_make_date y m 0 =
     (let y1 = y + m div 12; m1 = m mod 12; y0 = y1 + (m1 - 1) div 12; m0 = (m1 - 1) mod 12
      in (y0, m0, days_in_month y0 m0))"
proof -
  define y1 where "y1 = y + m div 12"
  define m1 where "m1 = m mod 12"
  have "js_make_date y m 0 = js_make_date y1 (m1 - 1) (days_in_month (y1 + (m1 - 1) div 12) ((m1 - 1) mod 12))"
    by (subst js_make_date.simps) (simp add: Let_def y1_def m1_def)
  also have "\<dots> = (y1 + (m1 - 1) div 12, (m1 - 1) mod 12, days_in_month (y1 + (m1 - 1) div 12) ((m1 - 1) mod 12))"
    by (intro js_make_date_valid) simp_all
  finally show ?thesis by (simp add: Let_def y1_def m1_def)
qed

lemma month_norm_small: "0 \<le> m \<Longrightarrow> m < 12 \<Longrightarrow> m div 12 = 0 \<and> m mod 12 = (m::int)"
  by simp

lemma month_before_next:
  assumes "0 \<le> m" "m < (12::int)"
  shows "y + (m + 1) div 12 + ((m + 1) mod 12 - 1) div 12 = y \<and> ((m + 1) mod 12 - 1) mod 12 = m"
proof (cases "m = 11")
  case True
  then show ?thesis by simp
next
  case False
  with assms have "0 \<le> m + 1" "m + 1 < 12" by simp_all
  then have "(m + 1) div 12 = 0" "(m + 1) mod 12 = m + 1" by simp_all
  with assms show ?thesis by simp
qed

lemma daysInMonth_eq:
  "currentDate s = (y, m, d) \<Longrightarrow> 0 \<le> m \<Longrightarrow> m < 12 \<Longrightarrow> daysInMonth s = days_in_month y m"
proof -
  assume cd: "currentDate s = (y, m, d)" and m: "0 \<le> m" "m < 12"
  from month_before_next [OF m, of y] have
    e1: "y + (m + 1) div 12 + ((m + 1) mod 12 - 1) div 12 = y" and e2: "((m + 1) mod 12 - 1) mod 12 = m"
    by simp_all
  show ?thesis
    unfolding daysInMonth_def cd getFullYear_def getMonth_def fst_conv snd_conv js_make_date_zero Let_def e1 e2
    by (simp add: getDate_def)
qed

lemma getDay_range: "0 \<le> getDay c \<and> getDay c < 7"
  by (simp add: getDay_def Let_def split: prod.splits)

lemma leading_labels:
  assumes "currentDate s = (y, m, d)"
  shows "map cell_label (take (nat (firstDayWeekday s)) (calendar_days tz today tds s)) =
    map (\<lambda>i. snd (snd (js_make_date y (m - 1) 0)) - int i) (rev [0..<nat (firstDayWeekday s)])"
  using assms by (simp add: calendar_days_def Let_def outside_cell_def getFullYear_def getMonth_def getDate_def comp_def)

lemma div_mod_pred: "a div 12 + (a mod 12 - 1) div 12 = (a - 1) div (12::int)"
proof (cases "a mod 12 = 0")
  case True
  then show ?thesis by (simp add: div_eq_minus1 zdiv_zminus1_eq_if minus_div_mult_eq_mod [symmetric])
next
  case False
  then have "0 \<le> a mod 12 - 1" "a mod 12 - 1 < 12" using pos_mod_sign [of 12 a] pos_mod_bound [of 12 a] by linarith+
  then have "(a mod 12 - 1) div 12 = 0" by simp
  moreover have "(a - 1) div 12 = a div 12"
  proof -
    have "a - 1 = (a mod 12 - 1) + a div 12 * 12" by simp
    then have "(a - 1) div 12 = ((a mod 12 - 1) + a div 12 * 12) div 12" by (rule arg_cong)
    also have "\<dots> = a div 12 + (a mod 12 - 1) div 12" by (rule div_mult_self1) simp
    finally show ?thesis using \<open>(a mod 12 - 1) div 12 = 0\<close> by simp
  qed
  ultimately show ?thesis by simp
qed

text \<open>C9: the grid cells before the first of the month are labelled with the last days of the month two months back (new Date(y, m - 1, 0) is the last day of month m - 2), not of the previous month; in October 2025 they read 29, 30, 31 and the cell labelled 31 is the date 1 October, which the grid shows again as the first day of the month.\<close>

lemma leading_cells_two_months_back:
  assumes "currentDate s = (y, m, d)"
  shows "map cell_label (take (nat (firstDayWeekday s)) (calendar_days tz today tds s)) =
    map (\<lambda>i. days_in_month (y + (m - 2) div 12) ((m - 2) mod 12) - int i) (rev [0..<nat (firstDayWeekday s)])"
proof -
  have e1: "y + (m - 1) div 12 + ((m - 1) mod 12 - 1) div 12 = y + (m - 2) div 12"
    using div_mod_pred [of "m - 1"] by simp
  have e2: "((m - 1) mod 12 - 1) mod 12 = (m - 2) mod 12"
    by (simp add: mod_diff_left_eq)
  have "snd (snd (js_make_date y (m - 1) 0)) = days_in_month (y + (m - 2) div 12) ((m - 2) mod 12)"
    unfolding js_make_date_zero Let_def e1 e2 by simp
  with leading_labels [OF assms] show ?thesis by simp
qed

lemma oct_2025_first_weekday: "firstDayWeekday (calendar_init (2025, 9, 15)) = 3"
  by (simp add: firstDayWeekday_def calendar_init_def getDay_def getFullYear_def getMonth_def)

lemma sep_2025_day_31: "js_make_date 2025 8 31 = (2025, 9, 1)"
proof -
  have "js_make_date 2025 8 31 = js_make_date 2025 9 1"
    by (subst js_make_date.simps) (simp add: days_in_month_def)
  then show ?thesis by simp
qed

lemma oct_2025_leading_dates: "cell_date (calendar_days 0 (2025, 9, 1) [] (calendar_init (2025, 9, 15)) ! 2) = (2025, 9, 1) \<and>
      cell_date (calendar_days 0 (2025, 9, 1) [] (calendar_init (2025, 9, 15)) ! 3) = (2025, 9, 1)"
proof -
  have r: "rev [0..<3] = [2, 1, 0::nat]" by (simp add: numeral_3_eq_3)
  have p: "getDate (js_make_date 2025 (9 - 1) 0) = 31"
    by (simp add: js_make_date_zero getDate_def days_in_month_def)
  have lead: "take 3 (calendar_days 0 (2025, 9, 1) [] (calendar_init (2025, 9, 15))) =
     map (\<lambda>i. outside_cell PrevMonth 0 [] (31 - int i) (js_make_date 2025 (9 - 1) (31 - int i))) [2, 1, 0]"
    using oct_2025_first_weekday p
    by (simp add: calendar_days_def Let_def calendar_init_def getFullYear_def getMonth_def r)
  have c2: "cell_date (calendar_days 0 (2025, 9, 1) [] (calendar_init (2025, 9, 15)) ! 2) = (2025, 9, 1)"
  proof -
    have "calendar_days 0 (2025, 9, 1) [] (calendar_init (2025, 9, 15)) ! 2 =
        take 3 (calendar_days 0 (2025, 9, 1) [] (calendar_init (2025, 9, 15))) ! 2" by simp
    then show ?thesis unfolding lead by (simp add: outside_cell_def Let_def sep_2025_day_31)
  qed
  have dim: "daysInMonth (calendar_init (2025, 9, 15)) = 31"
    by (simp add: daysInMonth_eq [of _ 2025 9 15] calendar_init_def days_in_month_def)
  have "[1..31] = (1::int) # [2..31]" by (simp add: upto_rec1)
  then have c3: "calendar_days 0 (2025, 9, 1) [] (calendar_init (2025, 9, 15)) ! 3 =
     month_cell 0 (2025, 9, 1) [] (calendar_init (2025, 9, 15)) 1"
    using oct_2025_first_weekday dim p
    by (simp add: calendar_days_def Let_def calendar_init_def getFullYear_def getMonth_def r nth_append)
  have "cell_date (month_cell 0 (2025, 9, 1) [] (calendar_init (2025, 9, 15)) 1) = (2025, 9, 1)"
    by (simp add: month_cell_def Let_def calendar_init_def getFullYear_def getMonth_def)
  with c2 c3 show ?thesis by simp
qed

lemma leading_cells_two_months_back_witness:
  "map cell_label (take 3 (calendar_days 0 (2025, 9, 1) [] (calendar_init (2025, 9, 15)))) = [29, 30, 31] \<and>
   cell_date (calendar_days 0 (2025, 9, 1) [] (calendar_init (2025, 9, 15)) ! 2) = (2025, 9, 1) \<and>
   cell_date (calendar_days 0 (2025, 9, 1) [] (calendar_init (2025, 9, 15)) ! 3) = (2025, 9, 1)"
proof -
  have r: "rev [0..<3] = [2, 1, 0::nat]" by (simp add: numeral_3_eq_3)
  have d: "days_in_month (2025 + (9 - 2) div 12) ((9 - 2) mod 12) = 31" by (simp add: days_in_month_def)
  from leading_cells_two_months_back [of "calendar_init (2025, 9, 15)" 2025 9 15 0 "(2025, 9, 1)" "[]"]
  have "map cell_label (take (nat (firstDayWeekday (calendar_init (2025, 9, 15))))
      (calendar_days 0 (2025, 9, 1) [] (calendar_init (2025, 9, 15)))) =
    map (\<lambda>i. 31 - int i) (rev [0..<nat (firstDayWeekday (calendar_init (2025, 9, 15)))])"
    unfolding d by (simp add: calendar_init_def)
  then have "map cell_label (take 3 (calendar_days 0 (2025, 9, 1) [] (calendar_init (2025, 9, 15)))) = [29, 30, 31]"
    unfolding oct_2025_first_weekday by (simp only: nat_numeral r) simp
  with oct_2025_leading_dates show ?thesis by simp
qed

lemma utc_day_offset:
  "- 1440 < tz \<Longrightarrow> tz < 1440 \<Longrightarrow> (- tz) div 1440 = (if 0 < tz then -1 else (0::int))"
  by (auto simp: div_eq_minus1 intro: div_pos_neg_trivial div_pos_pos_trivial)

text \<open>Within a month the cell of day \<open>d > 1\<close> lists, east of UTC, the tasks due on day
  \<open>d - 1\<close>.\<close>

lemma getTodosForDate_utc:
  assumes "1 < d" "d \<le> days_in_month y m" "0 \<le> m" "m < 12" "- 1440 < tz" "tz < 1440"
  shows "getTodosForDate tz tds (y, m, d) =
    getTodosForDate 0 tds (if 0 < tz then (y, m, d - 1) else (y, m, d))"
proof -
  have "js_make_date y m (d - 1) = (y, m, d - 1)" "js_make_date y m d = (y, m, d)"
    using assms by (subst js_make_date_valid; simp)+
  then show ?thesis using assms(5,6)
    by (simp add: getTodosForDate_def utc_date_def utc_day_offset getFullYear_def getMonth_def getDate_def)
qed

lemma todos_due_2025_09_03: "getTodosForDate 0 defaultTodos (2025, 8, 3) = [defaultTodos ! 1]"
  by code_simp

lemma todos_due_2025_09_04: "getTodosForDate 0 defaultTodos (2025, 8, 4) = [defaultTodos ! 0]"
  by code_simp

lemma getTodosForDate_utc_example:
  "getTodosForDate 120 defaultTodos (2025, 8, 4) = [defaultTodos ! 1] \<and>
   getTodosForDate 0 defaultTodos (2025, 8, 4) = [defaultTodos ! 0]"
proof -
  have "getTodosForDate 120 defaultTodos (2025, 8, 4) = getTodosForDate 0 defaultTodos (2025, 8, 3)"
    using getTodosForDate_utc [of 4 2025 8 120 defaultTodos] by (simp add: days_in_month_def)
  with todos_due_2025_09_03 todos_due_2025_09_04 show ?thesis by simp
qed

lemma navigate_roundtrip:
  assumes "currentDate s = (y, m, d)" "0 \<le> m" "m < 12"
  shows "navigateMonth Prev (navigateMonth Next s) = s\<lparr>currentDate := (y, m, 1), selectedDate := None\<rparr>"
proof -
  from month_before_next [OF assms(2,3), of y] have
    e1: "y + (m + 1) div 12 + ((m + 1) mod 12 - 1) div 12 = y" and e2: "((m + 1) mod 12 - 1) mod 12 = m"
    by simp_all
  show ?thesis
    using assms(1) by (simp add: navigateMonth_def Let_def getFullYear_def getMonth_def e1 e2)
qed

lemma calendar_days_whole_weeks:
  assumes "currentDate s = (y, m, d)" "0 \<le> m" "m < 12"
  shows "7 dvd length (calendar_days tz today tds s)"
proof -
  define w where "w = firstDayWeekday s"
  define dim where "dim = daysInMonth s"
  have w: "0 \<le> w" using getDay_range by (simp add: w_def firstDayWeekday_def)
  have dim: "0 \<le> dim" using daysInMonth_eq [OF assms] days_in_month_bounds [of y m] by (simp add: dim_def)
  have tot: "w + dim \<le> (w + dim + 6) div 7 * 7" by linarith
  have "length (calendar_days tz today tds s) = nat w + nat dim + nat ((w + dim + 6) div 7 * 7 - w - dim)"
    by (simp add: calendar_days_def Let_def w_def dim_def)
  also have "\<dots> = nat ((w + dim + 6) div 7 * 7)" using w dim tot by linarith
  also have "\<dots> = nat ((w + dim + 6) div 7) * 7" using w dim by (simp add: nat_mult_distrib)
  finally show ?thesis by simp
qed

text \<open>The month title names the month shown, for every normalised date.\<close>

lemma calendar_title_month:
  "currentDate s = (y, m, d) \<Longrightarrow> 0 \<le> m \<Longrightarrow> m < 12 \<Longrightarrow>
   calendar_title s = monthNames ! nat m @ '' '' @ js_int_string y \<and> monthNames ! nat m \<in> set monthNames"
proof -
  assume c: "currentDate s = (y, m, d)" and m: "0 \<le> m" "m < 12"
  have "length monthNames = 12" by (simp add: monthNames_def)
  with m have "monthNames ! nat m \<in> set monthNames" by (intro nth_mem) simp
  with c show ?thesis by (simp add: calendar_title_def getMonth_def getFullYear_def)
qed

text \<open>Month navigation moves a month counter \<open>12 * year + month\<close> by one, in both
  directions, from every normalised date.\<close>

definition month_index :: "civil \<Rightarrow> int" where
  "month_index c = 12 * getFullYear c + getMonth c"

lemma navigateMonth_index:
  "month_index (currentDate (navigateMonth d s)) = month_index (currentDate s) + (if d = Next then 1 else -1)"
  by (simp add: navigateMonth_def Let_def month_index_def getFullYear_def getMonth_def)

text \<open>The sidebar lists the cards only for a selected date with tasks, one card per task.\<close>

lemma task_panel_cards:
  "task_panel tz tds s = TaskCards cs \<Longrightarrow>
   \<exists>c. selectedDate s = Some c \<and> cs \<noteq> [] \<and> map tc_text cs = map todo_text (getTodosForDate tz tds c)"
  by (auto simp: task_panel_def selectedDateTodos_def Let_def split: option.splits if_splits)

end
