(* ===== verification/DateArith.thy ===== *)
theory DateArith
  imports Calendar
begin

text \<open>
  The date arithmetic that \<open>src/src/components/CalendarView.tsx\<close> relies on, against a
  reference model of the proleptic Gregorian calendar. A date is valid when its month is in
  \<open>0..11\<close> and its day within the month; \<open>day_number\<close> counts the days from a
  fixed epoch (\<open>days_before_year\<close> with the leap years before the year, plus
  \<open>days_before_month\<close>, plus the day). Two results connect the component's primitives to this
  model: the carry of \<open>new Date(y, m, d)\<close> (\<^const>\<open>js_make_date\<close>) is exactly "the valid date
  \<open>d - 1\<close> days after the first of month \<open>m\<close>", and \<open>getDay()\<close> (Sakamoto's formula,
  \<^const>\<open>getDay\<close>) is the day number modulo 7. The proofs go by computation induction on
  \<^const>\<open>js_make_date\<close> and by the month table of the year.
\<close>

definition valid_civil :: "civil \<Rightarrow> bool" where
  "valid_civil c \<longleftrightarrow> (case c of (y, m, d) \<Rightarrow> 0 \<le> m \<and> m < 12 \<and> 1 \<le> d \<and> d \<le> days_in_month y m)"

definition days_in_year :: "int \<Rightarrow> int" where
  "days_in_year y = (if is_leap y then 366 else 365)"

definition days_before_month :: "int \<Rightarrow> int \<Rightarrow> int" where
  "days_before_month y m = sum_list (map (\<lambda>k. days_in_month y (int k)) [0..<nat m])"

definition leap_count :: "int \<Rightarrow> int" where
  "leap_count y = y div 4 - y div 100 + y div 400"

definition days_before_year :: "int \<Rightarrow> int" where
  "days_before_year y = 365 * y + leap_count (y - 1)"

definition day_number :: "civil \<Rightarrow> int" where
  "day_number c = (case c of (y, m, d) \<Rightarrow> days_before_year y + days_before_month y m + d)"

section \<open>Lemmas\<close>

lemma div_step:
  assumes k: "0 < (k::int)"
  shows "y div k = (y - 1) div k + (if y mod k = 0 then 1 else 0)"
proof -
  define q where "q = y div k"
  define r where "r = y mod k"
  have y: "y = k * q + r" by (simp add: q_def r_def)
  have r: "0 \<le> r" "r < k" using k by (simp_all add: r_def)
  show ?thesis
  proof (cases "r = 0")
    case True
    have "(y - 1) div k = q - 1"
      by (rule int_div_pos_eq [where r = "k - 1"]) (use y True k in \<open>simp_all add: right_diff_distrib\<close>)
    then show ?thesis using True by (simp add: q_def r_def)
  next
    case False
    have "(y - 1) div k = q"
      by (rule int_div_pos_eq [where r = "r - 1"]) (use y r False in simp_all)
    then show ?thesis using False by (simp add: q_def r_def)
  qed
qed

lemma mod_zero_dvd_trans: "(k::int) dvd l \<Longrightarrow> y mod l = 0 \<Longrightarrow> y mod k = 0"
  by (simp add: mod_eq_0_iff_dvd) (rule dvd_trans)

lemma leap_count_step: "leap_count y = leap_count (y - 1) + (if is_leap y then 1 else 0)"
proof -
  define a where "a = (if y mod 4 = 0 then 1 else 0 :: int)"
  define b where "b = (if y mod 100 = 0 then 1 else 0 :: int)"
  define c where "c = (if y mod 400 = 0 then 1 else 0 :: int)"
  have p: "(0::int) < 4" "(0::int) < 100" "(0::int) < 400" by simp_all
  have s: "y div 4 = (y - 1) div 4 + a" "y div 100 = (y - 1) div 100 + b" "y div 400 = (y - 1) div 400 + c"
    unfolding a_def b_def c_def by (rule div_step [OF p(1)], rule div_step [OF p(2)], rule div_step [OF p(3)])
  have "y mod 400 = 0 \<Longrightarrow> y mod 100 = 0" "y mod 100 = 0 \<Longrightarrow> y mod 4 = 0"
    using mod_zero_dvd_trans [of 100 400 y] mod_zero_dvd_trans [of 4 100 y] by simp_all
  then have "a - b + c = (if is_leap y then 1 else 0)"
    unfolding a_def b_def c_def is_leap_def by auto
  moreover have "leap_count y = leap_count (y - 1) + (a - b + c)"
    unfolding leap_count_def s by simp
  ultimately show ?thesis by simp
qed

lemma days_before_year_succ: "days_before_year (y + 1) = days_before_year y + days_in_year y"
  using leap_count_step [of y] by (simp add: days_before_year_def days_in_year_def)

lemma days_before_month_succ:
  "0 \<le> m \<Longrightarrow> days_before_month y (m + 1) = days_before_month y m + days_in_month y m"
  by (simp add: days_before_month_def nat_add_distrib)

lemma days_before_month_0 [simp]: "days_before_month y 0 = 0"
  by (simp add: days_before_month_def)

lemma days_before_month_12: "days_before_month y 12 = days_in_year y"
proof -
  have u: "[0..<12] = [0,1,2,3,4,5,6,7,8,9,10,11::nat]" by code_simp
  show ?thesis by (simp add: days_before_month_def days_in_month_def days_in_year_def u)
qed

lemma month_after_prev:
  assumes "0 \<le> m" "m < (12::int)"
  shows "y + (m - 1) div 12 + ((m - 1) mod 12 + 1) div 12 = y \<and> ((m - 1) mod 12 + 1) mod 12 = m"
proof (cases "m = 0")
  case True
  then show ?thesis by simp
next
  case False
  with assms have "0 \<le> m - 1" "m - 1 < 12" by simp_all
  then have "(m - 1) div 12 = 0" "(m - 1) mod 12 = m - 1" by simp_all
  with assms show ?thesis by simp
qed

lemma day_number_next_month:
  assumes "0 \<le> m" "m < 12"
  shows "day_number (js_make_date y (m + 1) 1) = day_number (y, m, 1) + days_in_month y m"
proof (cases "m = 11")
  case True
  have "days_before_month y 12 = days_before_month y 11 + days_in_month y 11"
    using days_before_month_succ [of 11 y] by simp
  then show ?thesis
    using True days_before_month_12 [of y] by (simp add: day_number_def days_before_year_succ)
next
  case False
  with assms have "(m + 1) div 12 = 0" "(m + 1) mod 12 = m + 1" by simp_all
  then have j: "js_make_date y (m + 1) 1 = (y, m + 1, 1)" by (simp only: js_make_date_day1) simp
  have "day_number (y, m + 1, 1) = days_before_year y + days_before_month y (m + 1) + 1"
    by (simp only: day_number_def prod.case)
  moreover have "day_number (y, m, 1) = days_before_year y + days_before_month y m + 1"
    by (simp only: day_number_def prod.case)
  ultimately show ?thesis unfolding j using days_before_month_succ [OF assms(1), of y] by linarith
qed

lemma js_make_date_day_number:
  "valid_civil (js_make_date y m d) \<and>
   day_number (js_make_date y m d) = day_number (y + m div 12, m mod 12, 1) + d - 1"
proof (induction y m d rule: js_make_date.induct)
  case (1 y m d)
  define y1 where "y1 = y + m div 12"
  define m1 where "m1 = m mod 12"
  have m1: "0 \<le> m1" "m1 < 12" by (simp_all add: m1_def)
  consider (low) "d < 1" | (high) "\<not> d < 1" "days_in_month y1 m1 < d"
    | (ok) "\<not> d < 1" "\<not> days_in_month y1 m1 < d" by blast
  then show ?case
  proof cases
    case low
    define yp where "yp = y1 + (m1 - 1) div 12"
    define mp where "mp = (m1 - 1) mod 12"
    have eq: "js_make_date y m d = js_make_date y1 (m1 - 1) (d + days_in_month yp mp)"
      using low by (subst js_make_date.simps) (simp add: Let_def y1_def m1_def yp_def mp_def)
    have ih: "valid_civil (js_make_date y1 (m1 - 1) (d + days_in_month yp mp)) \<and>
        day_number (js_make_date y1 (m1 - 1) (d + days_in_month yp mp)) =
        day_number (yp, mp, 1) + (d + days_in_month yp mp) - 1"
      using "1.IH"(1) [OF y1_def m1_def low] by (simp add: yp_def mp_def)
    have "js_make_date yp (mp + 1) 1 = (y1, m1, 1)"
      using month_after_prev [OF m1, of y1] by (simp add: yp_def mp_def)
    then have "day_number (yp, mp, 1) + days_in_month yp mp = day_number (y1, m1, 1)"
      using day_number_next_month [of mp yp] by (simp add: mp_def)
    then show ?thesis using eq ih by (simp add: y1_def m1_def)
  next
    case high
    have eq: "js_make_date y m d = js_make_date y1 (m1 + 1) (d - days_in_month y1 m1)"
      using high by (subst js_make_date.simps) (simp add: Let_def y1_def m1_def)
    have ih: "valid_civil (js_make_date y1 (m1 + 1) (d - days_in_month y1 m1)) \<and>
        day_number (js_make_date y1 (m1 + 1) (d - days_in_month y1 m1)) =
        day_number (js_make_date y1 (m1 + 1) 1) + (d - days_in_month y1 m1) - 1"
      using "1.IH"(2) [OF y1_def m1_def high] by simp
    then show ?thesis using eq day_number_next_month [OF m1, of y1] by (simp add: y1_def m1_def)
  next
    case ok
    have "js_make_date y m d = (y1, m1, d)"
      using ok by (subst js_make_date.simps) (simp add: Let_def y1_def m1_def)
    then show ?thesis using ok m1 by (simp add: valid_civil_def day_number_def y1_def m1_def)
  qed
qed

lemma days_before_month_mono: "0 \<le> m \<Longrightarrow> days_before_month y m \<le> days_before_month y (m + int k)"
proof (induction k)
  case 0
  then show ?case by simp
next
  case (Suc k)
  have "days_before_month y (m + int (Suc k)) = days_before_month y (m + int k) + days_in_month y (m + int k)"
    using days_before_month_succ [of "m + int k" y] Suc.prems by (simp add: ac_simps)
  then show ?case using Suc days_in_month_ge1 [of y "m + int k"] by linarith
qed

lemma days_before_year_mono: "days_before_year y \<le> days_before_year (y + int k)"
proof (induction k)
  case 0
  then show ?case by simp
next
  case (Suc k)
  have "days_before_year (y + int (Suc k)) = days_before_year (y + int k) + days_in_year (y + int k)"
    using days_before_year_succ [of "y + int k"] by (simp add: ac_simps)
  then show ?case using Suc by (simp add: days_in_year_def)
qed

lemma int_less_split: "a < (b::int) \<Longrightarrow> b = (a + 1) + int (nat (b - a - 1))"
  by simp

lemma day_number_within_month:
  "valid_civil (y, m, d) \<Longrightarrow>
   days_before_month y m < days_before_month y m + d \<and>
   days_before_month y m + d \<le> days_before_month y (m + 1)"
  by (simp add: valid_civil_def days_before_month_succ)

lemma day_number_within_year:
  assumes "valid_civil (y, m, d)"
  shows "days_before_year y < day_number (y, m, d) \<and> day_number (y, m, d) \<le> days_before_year (y + 1)"
proof -
  have m: "0 \<le> m" "m < 12" using assms by (simp_all add: valid_civil_def)
  have "0 \<le> days_before_month y m" using days_before_month_mono [of 0 y "nat m"] m by simp
  moreover have "days_before_month y (m + 1) \<le> days_before_month y 12"
    using days_before_month_mono [of "m + 1" y "nat (11 - m)"] m by simp
  ultimately show ?thesis
    using day_number_within_month [OF assms] days_before_month_12 [of y] days_before_year_succ [of y]
    by (simp add: day_number_def)
qed

lemma day_number_inj:
  assumes c: "valid_civil c" and c': "valid_civil c'" and eq: "day_number c = day_number c'"
  shows "c = c'"
proof -
  obtain y m d y' m' d' where cs: "c = (y, m, d)" "c' = (y', m', d')" by (cases c, cases c') auto
  have yb: "days_before_year y < day_number c \<and> day_number c \<le> days_before_year (y + 1)"
    "days_before_year y' < day_number c' \<and> day_number c' \<le> days_before_year (y' + 1)"
    using day_number_within_year c c' cs by blast+
  have "\<not> y < y'"
  proof
    assume "y < y'"
    then have "days_before_year (y + 1) \<le> days_before_year y'"
      using days_before_year_mono [of "y + 1" "nat (y' - y - 1)"] int_less_split [of y y'] by simp
    with yb eq show False by linarith
  qed
  moreover have "\<not> y' < y"
  proof
    assume "y' < y"
    then have "days_before_year (y' + 1) \<le> days_before_year y"
      using days_before_year_mono [of "y' + 1" "nat (y - y' - 1)"] int_less_split [of y' y] by simp
    with yb eq show False by linarith
  qed
  ultimately have y: "y' = y" by simp
  have mb: "days_before_month y m < days_before_month y m + d \<and> days_before_month y m + d \<le> days_before_month y (m + 1)"
    "days_before_month y m' < days_before_month y m' + d' \<and> days_before_month y m' + d' \<le> days_before_month y (m' + 1)"
    using day_number_within_month c c' cs y by blast+
  have m0: "0 \<le> m" "0 \<le> m'" using c c' cs by (simp_all add: valid_civil_def)
  have dm: "days_before_month y m + d = days_before_month y m' + d'"
    using eq cs y by (simp add: day_number_def)
  have "\<not> m < m'"
  proof
    assume "m < m'"
    then have "days_before_month y (m + 1) \<le> days_before_month y m'"
      using days_before_month_mono [of "m + 1" y "nat (m' - m - 1)"] int_less_split [of m m'] m0 by simp
    with mb dm show False by linarith
  qed
  moreover have "\<not> m' < m"
  proof
    assume "m' < m"
    then have "days_before_month y (m' + 1) \<le> days_before_month y m"
      using days_before_month_mono [of "m' + 1" y "nat (m - m' - 1)"] int_less_split [of m' m] m0 by simp
    with mb dm show False by linarith
  qed
  ultimately have "m' = m" by simp
  with dm cs y show ?thesis by simp
qed

lemma days_before_month_table:
  "k < 12 \<Longrightarrow> sum_list (map (\<lambda>j. days_in_month y (int j)) [0..<k]) =
     [0, 31, 59, 90, 120, 151, 181, 212, 243, 273, 304, 334] ! k + (if 2 \<le> k \<and> is_leap y then 1 else 0)"
  by (cases "is_leap y") (auto simp: less_Suc_eq numeral_eq_Suc days_in_month_def)

lemma sakamoto_table:
  "k < 12 \<Longrightarrow> 7 dvd ([0, 3, 2, 5, 0, 3, 5, 1, 4, 6, 2, 4 :: int] ! k -
     [0, 31, 59, 90, 120, 151, 181, 212, 243, 273, 304, 334] ! k - (if k < 2 then 1 else 0) + 1)"
  by (auto simp: less_Suc_eq numeral_eq_Suc)

section \<open>Properties\<close>

text \<open>C32: the date carry of \<open>new Date(y, m, d)\<close> is equivalent to day arithmetic: it returns
  a date c exactly when c is a valid date whose day number is that of the first of month m of
  year y (month normalised into the year) plus d - 1, for every month and day, in range or not.\<close>

theorem js_make_date_equiv:
  "js_make_date y m d = c \<longleftrightarrow>
   valid_civil c \<and> day_number c = day_number (y + m div 12, m mod 12, 1) + d - 1"
  using js_make_date_day_number [of y m d] day_number_inj by metis

text \<open>C24: getDay (Sakamoto's formula) agrees with counting days: on every valid date it is
  the day number minus one, modulo 7, so consecutive days have consecutive weekdays across
  month and year ends and leap days.\<close>

theorem getDay_day_number:
  assumes "valid_civil c"
  shows "getDay c = (day_number c - 1) mod 7"
proof -
  obtain y m d where c: "c = (y, m, d)" by (cases c) auto
  have m: "0 \<le> m" "m < 12" using assms c by (simp_all add: valid_civil_def)
  define k where "k = nat m"
  have k: "k < 12" "m = int k" using m by (simp_all add: k_def)
  define t where "t = [0, 3, 2, 5, 0, 3, 5, 1, 4, 6, 2, 4 :: int]"
  define b where "b = [0, 31, 59, 90, 120, 151, 181, 212, 243, 273, 304, 334 :: int]"
  define y' where "y' = (if m < 2 then y - 1 else y)"
  have gd: "getDay c = (y' + leap_count y' + t ! k + d) mod 7"
    by (cases "m < 2") (simp_all add: getDay_def c y'_def t_def k_def leap_count_def Let_def algebra_simps)
  have dn: "day_number c = 365 * y + leap_count (y - 1) + b ! k + (if 2 \<le> k \<and> is_leap y then 1 else 0) + d"
    using days_before_month_table [OF k(1), of y]
    by (simp add: day_number_def c days_before_year_def days_before_month_def k b_def)
  have "y' + leap_count y' + t ! k + d - (day_number c - 1) =
        7 * (- 52 * y) + (t ! k - b ! k - (if k < 2 then 1 else 0) + 1)"
    using leap_count_step [of y] by (simp add: dn y'_def k) 
  moreover have "7 dvd (t ! k - b ! k - (if k < 2 then 1 else 0) + 1)"
    using sakamoto_table [OF k(1)] by (simp add: t_def b_def)
  ultimately have "7 dvd (y' + leap_count y' + t ! k + d - (day_number c - 1))"
    by (metis dvd_add dvd_triv_left)
  then show ?thesis by (simp add: gd mod_eq_dvd_iff)
qed

text \<open>C19: in a time zone east of UTC every calendar cell lists the tasks due the day before
  it, including across month and year boundaries (the cell of the first of a month lists the
  tasks of the last day of the previous month); at UTC and west of it each cell lists its own
  day. The ISO date of the cell's local midnight is a valid date whose day number is the
  cell's, minus one east of UTC.\<close>

theorem utc_date_previous_day:
  assumes "valid_civil c" "- 1440 < tz" "tz < 1440"
  shows "valid_civil (utc_date tz c) \<and>
    day_number (utc_date tz c) = day_number c - (if 0 < tz then 1 else 0)"
proof -
  obtain y m d where c: "c = (y, m, d)" by (cases c) auto
  have m: "m div 12 = 0" "m mod 12 = m" using assms(1) c by (simp_all add: valid_civil_def)
  have u: "utc_date tz c = js_make_date y m (d + (if 0 < tz then -1 else 0))"
    using c assms(2,3) by (simp add: utc_date_def utc_day_offset getFullYear_def getMonth_def getDate_def)
  show ?thesis unfolding u
    using js_make_date_day_number [of y m "d + (if 0 < tz then -1 else 0)"]
    by (simp add: c m day_number_def)
qed

section \<open>Witnesses\<close>

theorem js_make_date_equiv_witness:
  "js_make_date 2025 9 0 = (2025, 8, 30) \<and> valid_civil (2025, 8, 30)"
proof -
  have v: "valid_civil (2025, 8, 30)" by (simp add: valid_civil_def days_in_month_def)
  have "day_number (2025, 8, 30) = day_number (2025 + 9 div 12, 9 mod 12, 1) + 0 - 1"
    using days_before_month_table [of 8 2025] days_before_month_table [of 9 2025]
    by (simp add: day_number_def days_before_month_def)
  then show ?thesis using v js_make_date_equiv [of 2025 9 0 "(2025, 8, 30)"] by simp
qed

theorem getDay_day_number_witness:
  "valid_civil (2025, 9, 1) \<and> getDay (2025, 9, 1) = (day_number (2025, 9, 1) - 1) mod 7"
proof -
  have v: "valid_civil (2025, 9, 1)" by (simp add: valid_civil_def days_in_month_def)
  show ?thesis using v getDay_day_number [OF v] by simp
qed

theorem utc_date_previous_day_witness:
  "valid_civil (2025, 9, 1) \<and> utc_date 120 (2025, 9, 1) = (2025, 8, 30) \<and>
   day_number (2025, 8, 30) = day_number (2025, 9, 1) - 1"
proof -
  have v: "valid_civil (2025, 9, 1)" "valid_civil (2025, 8, 30)"
    by (simp_all add: valid_civil_def days_in_month_def)
  have u: "utc_date 120 (2025, 9, 1) = (2025, 8, 30)"
    by (simp add: utc_date_def getFullYear_def getMonth_def getDate_def js_make_date_zero Let_def days_in_month_def)
  show ?thesis using v u utc_date_previous_day [of "(2025, 9, 1)" 120] by simp
qed

end
