(* ===== verification/Theme.thy ===== *)
theory Theme
  imports Prelude
begin

text \<open>
  The theme switcher of \<open>src/src/components/ThemeProvider.tsx\<close> and the settings page
  of \<open>src/src/components/Settings.tsx\<close>. The provider's state is the record
  \<open>theme_ctx\<close>: the theme hook together with the two pieces of the environment its
  effects touch, the \<open>localStorage\<close> entry \<open>evora-theme\<close> and the class of the document
  element. On mount React runs the provider's two effects in order: the first reads the
  saved theme (the value stored before the mount) and, if it is a non-empty string,
  schedules \<open>setTheme\<close> with it, unchecked (\<open>as Theme\<close> is only a cast); the second
  stores the current theme and sets the class; it runs again after every theme change.
  \<open>useTheme\<close> outside a provider throws. The settings page holds the selected mascot
  (\<open>selectedMascot\<close>), which nothing else reads.
\<close>

record theme_ctx =
  theme :: string
  stored :: "string option"
  docClass :: string

definition persist_theme :: "theme_ctx \<Rightarrow> theme_ctx" where
  "persist_theme c = c\<lparr>stored := Some (theme c), docClass := ''theme-'' @ theme c\<rparr>"

definition theme_mount :: "string option \<Rightarrow> theme_ctx" where
  "theme_mount saved =
     (let c0 = persist_theme \<lparr>theme = ''classic'', stored = saved, docClass = []\<rparr> in
      case saved of
        Some t \<Rightarrow> if t \<noteq> [] then persist_theme (c0\<lparr>theme := t\<rparr>) else c0
      | None \<Rightarrow> c0)"

definition setTheme :: "string \<Rightarrow> theme_ctx \<Rightarrow> theme_ctx" where
  "setTheme t c = persist_theme (c\<lparr>theme := t\<rparr>)"

definition useTheme :: "theme_ctx option \<Rightarrow> js_error + theme_ctx" where
  "useTheme ctx = (case ctx of
       None \<Rightarrow> Inl (Error ''useTheme must be used within a ThemeProvider'')
     | Some c \<Rightarrow> Inr c)"

record theme_option =
  theme_id :: string
  theme_name :: string
  theme_description :: string
  theme_gradient :: string

definition themes :: "theme_option list" where
  "themes =
    [\<lparr>theme_id = ''classic'', theme_name = ''U+1F380 Classic Pastel'',
      theme_description = ''Soft pink, mint, lavender, peach'', theme_gradient = ''from-pink-200 via-purple-200 to-blue-200''\<rparr>,
     \<lparr>theme_id = ''nature'', theme_name = ''U+1F33F Nature Pastel'',
      theme_description = ''Leafy green, sky blue, sand beige'', theme_gradient = ''from-green-200 via-blue-200 to-amber-200''\<rparr>,
     \<lparr>theme_id = ''galaxy'', theme_name = ''U+1F30C Galaxy Pastel'',
      theme_description = ''Pastel purple, midnight blue, starry accents'',
      theme_gradient = ''from-purple-200 via-blue-300 to-indigo-200''\<rparr>]"

record mascot_choice =
  mc_id :: string
  mc_name :: string
  mc_emoji :: string
  mc_description :: string
  mc_tagline :: string

definition mascot_choices :: "mascot_choice list" where
  "mascot_choices =
    [\<lparr>mc_id = ''cat'', mc_name = ''Kitty'', mc_emoji = ''U+1F431'', mc_description = ''Playful and curious companion'',
      mc_tagline = ''Purr-fect productivity partner!''\<rparr>,
     \<lparr>mc_id = ''owl'', mc_name = ''Hoot'', mc_emoji = ''U+1F989'', mc_description = ''Wise and focused helper'',
      mc_tagline = ''Wise choices lead to success!''\<rparr>,
     \<lparr>mc_id = ''bunny'', mc_name = ''Hop'', mc_emoji = ''U+1F430'', mc_description = ''Energetic and encouraging friend'',
      mc_tagline = ''Hop to it! You've got this!''\<rparr>,
     \<lparr>mc_id = ''bookworm'', mc_name = ''Worm'', mc_emoji = ''U+1F41B'', mc_description = ''Studious and detail-oriented buddy'',
      mc_tagline = ''Knowledge is the best adventure!''\<rparr>]"

record settings_state =
  selectedMascot :: string

definition settings_init :: settings_state where
  "settings_init = \<lparr>selectedMascot = ''cat''\<rparr>"

datatype settings_event = ThemeClick string | MascotClick string | QuickAction string

text \<open>The theme and mascot buttons; the four "Quick Actions" buttons have no handler.\<close>

fun settings_step :: "settings_event \<Rightarrow> theme_ctx \<times> settings_state \<Rightarrow> theme_ctx \<times> settings_state" where
  "settings_step (ThemeClick t) (c, s) = (setTheme t c, s)"
| "settings_step (MascotClick m) (c, s) = (c, s\<lparr>selectedMascot := m\<rparr>)"
| "settings_step (QuickAction a) (c, s) = (c, s)"

text \<open>Which theme button is highlighted.\<close>

definition highlighted_theme :: "theme_ctx \<Rightarrow> string list" where
  "highlighted_theme c = map theme_id (filter (\<lambda>opt. theme_id opt = theme c) themes)"

text \<open>What the settings page shows: the theme buttons (name, description, whether it is
  the active theme), the mascot buttons (name, emoji, tagline, whether selected), and the four
  quick-action buttons, each with the handler it has: none.\<close>

definition theme_buttons :: "theme_ctx \<Rightarrow> (string \<times> string \<times> bool) list" where
  "theme_buttons c = map (\<lambda>opt. (theme_name opt, theme_description opt, theme c = theme_id opt)) themes"

definition mascot_buttons :: "settings_state \<Rightarrow> (string \<times> string \<times> string \<times> bool) list" where
  "mascot_buttons s = map (\<lambda>m. (mc_name m, mc_emoji m, mc_tagline m, selectedMascot s = mc_id m)) mascot_choices"

definition settings_quick_actions :: "(string \<times> settings_event option) list" where
  "settings_quick_actions =
    [(''U+1F4CA Export Data'', None), (''U+1F504 Reset Progress'', None), (''U+1F4F1 Mobile App'', None),
     (''U+1F4AC Send Feedback'', None)]"

section \<open>Properties\<close>

lemma theme_reload_roundtrip:
  "t \<noteq> [] \<Longrightarrow> theme (theme_mount (stored (setTheme t c))) = t \<and>
     stored (theme_mount (stored (setTheme t c))) = Some t \<and>
     docClass (theme_mount (stored (setTheme t c))) = ''theme-'' @ t"
  by (simp add: theme_mount_def setTheme_def persist_theme_def Let_def)

lemma theme_mount_fresh: "theme_mount None = \<lparr>theme = ''classic'', stored = Some ''classic'', docClass = ''theme-classic''\<rparr>"
  by (simp add: theme_mount_def persist_theme_def)

lemma theme_mount_unchecked:
  "theme (theme_mount (Some ''dark'')) = ''dark'' \<and> highlighted_theme (theme_mount (Some ''dark'')) = []"
  by (simp add: theme_mount_def persist_theme_def highlighted_theme_def themes_def)

lemma settings_theme_highlight:
  "t \<in> set (map theme_id themes) \<Longrightarrow> highlighted_theme (fst (settings_step (ThemeClick t) (c, s))) = [t]"
  by (auto simp: highlighted_theme_def themes_def setTheme_def persist_theme_def)

text \<open>Exactly one mascot button is highlighted in every state the page reaches, since the
  page only ever selects one of the listed ids.\<close>

lemma mascot_buttons_one:
  "selectedMascot s \<in> set (map mc_id mascot_choices) \<Longrightarrow>
   length (filter (\<lambda>(n, e, t, sel). sel) (mascot_buttons s)) = 1"
  by (auto simp: mascot_buttons_def mascot_choices_def)

end
