(* ===== verification/AuthForms.thy ===== *)
theory AuthForms
  imports Prelude
begin

text \<open>
  The two forms of the authentication gate, \<open>src/src/components/LoginPage.tsx\<close> and
  \<open>src/src/components/SignupPage.tsx\<close>. Their hooks are the records \<open>login_form\<close> and
  \<open>signup_form\<close>; every input's \<open>onChange\<close> sets one field, the login page's check box sets
  \<open>rememberMe\<close>. A click on the submit button first passes the browser's constraint
  validation (the \<open>required\<close> inputs non-empty, the \<open>type="email"\<close> input well formed, which
  is the browser's check and a parameter \<open>email_ok\<close> here) and is impossible while the
  provider's \<open>isLoading\<close> disables the button; then \<open>handleSubmit\<close> runs and emits the
  call to the \<open>AuthProvider\<close> or the alert (\<open>auth_request\<close>). The provider is not in
  the repository, so what the calls do is not modelled; the forms are never reset.
\<close>

section \<open>Form state and submission\<close>

record login_form =
  lf_email :: string
  lf_password :: string
  rememberMe :: bool

record signup_form =
  sf_name :: string
  sf_email :: string
  sf_password :: string
  confirmPassword :: string

datatype auth_request =
    LoginRequest string string
  | SignupRequest string string string
  | AlertMessage string

definition login_init :: login_form where
  "login_init = \<lparr>lf_email = [], lf_password = [], rememberMe = False\<rparr>"

definition signup_init :: signup_form where
  "signup_init = \<lparr>sf_name = [], sf_email = [], sf_password = [], confirmPassword = []\<rparr>"

text \<open>\<open>handleSubmit\<close> of the login page: \<open>rememberMe\<close> is not passed on.\<close>

definition login_submit :: "login_form \<Rightarrow> auth_request" where
  "login_submit f = LoginRequest (lf_email f) (lf_password f)"

definition signup_submit :: "signup_form \<Rightarrow> auth_request" where
  "signup_submit f =
     (if sf_password f \<noteq> confirmPassword f then AlertMessage ''Passwords do not match!''
      else SignupRequest (sf_name f) (sf_email f) (sf_password f))"

section \<open>Form events\<close>

datatype login_event =
    LoginEmailInput string
  | LoginPasswordInput string
  | RememberMeChecked bool
  | LoginSubmitClick

text \<open>The login form: its three inputs and the submit button (\<open>email_ok\<close> is the browser's
  email syntax check, \<open>loading\<close> the provider's \<open>isLoading\<close>).\<close>

fun login_step :: "(string \<Rightarrow> bool) \<Rightarrow> bool \<Rightarrow> login_event \<Rightarrow> login_form \<Rightarrow> login_form \<times> auth_request option" where
  "login_step email_ok loading (LoginEmailInput v) f = (f\<lparr>lf_email := v\<rparr>, None)"
| "login_step email_ok loading (LoginPasswordInput v) f = (f\<lparr>lf_password := v\<rparr>, None)"
| "login_step email_ok loading (RememberMeChecked b) f = (f\<lparr>rememberMe := b\<rparr>, None)"
| "login_step email_ok loading LoginSubmitClick f =
     (f, if loading \<or> lf_email f = [] \<or> \<not> email_ok (lf_email f) \<or> lf_password f = [] then None
         else Some (login_submit f))"

datatype signup_event =
    SignupNameInput string
  | SignupEmailInput string
  | SignupPasswordInput string
  | SignupConfirmInput string
  | SignupSubmitClick

fun signup_step :: "(string \<Rightarrow> bool) \<Rightarrow> bool \<Rightarrow> signup_event \<Rightarrow> signup_form \<Rightarrow> signup_form \<times> auth_request option" where
  "signup_step email_ok loading (SignupNameInput v) f = (f\<lparr>sf_name := v\<rparr>, None)"
| "signup_step email_ok loading (SignupEmailInput v) f = (f\<lparr>sf_email := v\<rparr>, None)"
| "signup_step email_ok loading (SignupPasswordInput v) f = (f\<lparr>sf_password := v\<rparr>, None)"
| "signup_step email_ok loading (SignupConfirmInput v) f = (f\<lparr>confirmPassword := v\<rparr>, None)"
| "signup_step email_ok loading SignupSubmitClick f =
     (f, if loading \<or> sf_name f = [] \<or> sf_email f = [] \<or> \<not> email_ok (sf_email f) \<or> sf_password f = []
            \<or> confirmPassword f = [] then None
         else Some (signup_submit f))"

text \<open>A session on a form: the events in order, and the calls and alerts they emit in order.\<close>

fun login_run :: "(string \<Rightarrow> bool) \<Rightarrow> bool \<Rightarrow> login_event list \<Rightarrow> login_form \<Rightarrow> login_form \<times> auth_request list" where
  "login_run email_ok loading [] f = (f, [])"
| "login_run email_ok loading (e # es) f =
     (let (f', r) = login_step email_ok loading e f; (f'', rs) = login_run email_ok loading es f'
      in (f'', (case r of None \<Rightarrow> rs | Some q \<Rightarrow> q # rs)))"

fun signup_run :: "(string \<Rightarrow> bool) \<Rightarrow> bool \<Rightarrow> signup_event list \<Rightarrow> signup_form \<Rightarrow> signup_form \<times> auth_request list" where
  "signup_run email_ok loading [] f = (f, [])"
| "signup_run email_ok loading (e # es) f =
     (let (f', r) = signup_step email_ok loading e f; (f'', rs) = signup_run email_ok loading es f'
      in (f'', (case r of None \<Rightarrow> rs | Some q \<Rightarrow> q # rs)))"

fun is_remember :: "login_event \<Rightarrow> bool" where
  "is_remember (RememberMeChecked _) = True"
| "is_remember _ = False"

section \<open>Lemmas\<close>

lemma login_step_remember:
  "snd (login_step ok l e (f\<lparr>rememberMe := b\<rparr>)) = snd (login_step ok l e f) \<and>
   fst (login_step ok l e (f\<lparr>rememberMe := b\<rparr>)) = (fst (login_step ok l e f))\<lparr>rememberMe := rememberMe (fst (login_step ok l e (f\<lparr>rememberMe := b\<rparr>)))\<rparr>"
  by (cases e) (simp_all add: login_submit_def)

lemma login_run_remember:
  "snd (login_run ok l es (f\<lparr>rememberMe := b\<rparr>)) = snd (login_run ok l es f)"
proof (induction es arbitrary: f b)
  case Nil
  then show ?case by simp
next
  case (Cons e es)
  obtain f1 r where s: "login_step ok l e f = (f1, r)" by fastforce
  obtain b1 where s': "login_step ok l e (f\<lparr>rememberMe := b\<rparr>) = (f1\<lparr>rememberMe := b1\<rparr>, r)"
    using login_step_remember [of ok l e b f] s by (cases "login_step ok l e (f\<lparr>rememberMe := b\<rparr>)") auto
  show ?case using Cons.IH [of b1 f1] s s' by (cases r) (simp_all add: split_def Let_def)
qed

lemma signup_step_request:
  "snd (signup_step ok l e f) = Some r \<Longrightarrow>
   e = SignupSubmitClick \<and> \<not> l \<and> sf_name f \<noteq> [] \<and> ok (sf_email f) \<and> sf_password f \<noteq> [] \<and>
   r = signup_submit f"
  by (cases e) (auto split: if_splits)

lemma signup_run_fst:
  "fst (signup_run ok l (e # es) f) = fst (signup_run ok l es (fst (signup_step ok l e f)))"
  by (simp add: split_def Let_def)

section \<open>Properties\<close>

text \<open>C28: the login page's "Remember me" check box is dead: whatever the user types and
  clicks, the calls the form sends are exactly those of the same session without any click on
  the check box.\<close>

theorem remember_me_ignored:
  "snd (login_run ok l es f) = snd (login_run ok l (filter (\<lambda>e. \<not> is_remember e) es) f)"
proof (induction es arbitrary: f)
  case Nil
  then show ?case by simp
next
  case (Cons e es)
  show ?case
  proof (cases e)
    case (RememberMeChecked b)
    then show ?thesis
      using Cons.IH [of "f\<lparr>rememberMe := b\<rparr>"] login_run_remember [of ok l es b f]
        login_run_remember [of ok l "filter (\<lambda>e. \<not> is_remember e) es" b f] by simp
  next
    case LoginSubmitClick
    then show ?thesis using Cons.IH [of f] by (cases l) (simp_all add: split_def Let_def)
  qed (simp_all add: Cons.IH split_def Let_def)
qed

text \<open>C23: every sign-up call a session sends comes from a click on the submit button, while
  the provider is not loading, at a moment when the form held exactly the name, email and
  password sent, the name and password non-empty, the email well-formed, and the confirmation
  equal to the password: a mismatch never reaches \<open>signup\<close>.\<close>

theorem signup_requests_checked:
  "SignupRequest n e p \<in> set (snd (signup_run ok l es f)) \<Longrightarrow>
   \<exists>i < length es. es ! i = SignupSubmitClick \<and> \<not> l \<and>
     (let g = fst (signup_run ok l (take i es) f) in
        sf_name g = n \<and> sf_email g = e \<and> sf_password g = p \<and> confirmPassword g = p \<and>
        n \<noteq> [] \<and> ok e \<and> p \<noteq> [])"
proof (induction es arbitrary: f)
  case Nil
  then show ?case by simp
next
  case (Cons ev es)
  obtain f1 q where s: "signup_step ok l ev f = (f1, q)" by fastforce
  show ?case
  proof (cases "q = Some (SignupRequest n e p)")
    case True
    then have "snd (signup_step ok l ev f) = Some (SignupRequest n e p)" using s by simp
    from signup_step_request [OF this] have "ev = SignupSubmitClick \<and> \<not> l \<and>
        sf_name f = n \<and> sf_email f = e \<and> sf_password f = p \<and> confirmPassword f = p \<and>
        n \<noteq> [] \<and> ok e \<and> p \<noteq> []"
      by (auto simp: signup_submit_def split: if_splits)
    then show ?thesis by (intro exI [of _ 0]) simp
  next
    case False
    then have "SignupRequest n e p \<in> set (snd (signup_run ok l es f1))"
      using Cons.prems s by (cases q) (auto simp: Let_def split_def)
    from Cons.IH [OF this] obtain i where "i < length es" "es ! i = SignupSubmitClick" "\<not> l"
      "let g = fst (signup_run ok l (take i es) f1) in
        sf_name g = n \<and> sf_email g = e \<and> sf_password g = p \<and> confirmPassword g = p \<and>
        n \<noteq> [] \<and> ok e \<and> p \<noteq> []" by blast
    then show ?thesis using s by (intro exI [of _ "Suc i"]) (simp del: signup_run.simps add: signup_run_fst)
  qed
qed

section \<open>Witnesses\<close>

definition has_at :: "string \<Rightarrow> bool" where
  "has_at s \<longleftrightarrow> CHR ''@'' \<in> set s"

theorem signup_requests_checked_witness:
  "SignupRequest ''Ada'' ''ada@evora.app'' ''pw1'' \<in> set (snd (signup_run has_at False
     [SignupNameInput ''Ada'', SignupEmailInput ''ada@evora.app'', SignupPasswordInput ''pw1'',
      SignupConfirmInput ''pw1'', SignupSubmitClick] signup_init)) \<and> has_at ''ada@evora.app''"
proof -
  have r: "SignupRequest ''Ada'' ''ada@evora.app'' ''pw1'' \<in> set (snd (signup_run has_at False
     [SignupNameInput ''Ada'', SignupEmailInput ''ada@evora.app'', SignupPasswordInput ''pw1'',
      SignupConfirmInput ''pw1'', SignupSubmitClick] signup_init))"
    by (simp add: signup_init_def signup_submit_def has_at_def)
  from signup_requests_checked [OF r] have "has_at ''ada@evora.app''" by (auto simp: Let_def)
  with r show ?thesis by simp
qed

end
