(* ===== verification/Dashboard.thy ===== *)
theory Dashboard
  imports Statistics
begin

text \<open>
  The home screen of \<open>src/src/components/Dashboard.tsx\<close>. It has no hooks: its render is
  a constant, the four quick statistics, the four quick actions, the "Today's Focus" card and
  the "Productivity Insights" card, all literals of the source. Its only behaviour is the
  \<open>onNavigate(tab)\<close> call of its six buttons (the four quick actions and the two analytics
  buttons), which \<open>App\<close> turns into a tab change (\<open>App.nav_dashboard\<close>). Icons and colour
  classes are kept as the source's strings; a non-ASCII character of a literal (an emoji or
  an arrow) is written as its code point, e.g. \<open>U+1F60A\<close>.
\<close>

record quick_stat =
  qs_label :: string
  qs_value :: string
  qs_color :: string

definition quickStats :: "quick_stat list" where
  "quickStats =
    [\<lparr>qs_label = ''Tasks Completed'', qs_value = ''12'', qs_color = ''from-green-300 to-green-400''\<rparr>,
     \<lparr>qs_label = ''Pomodoros Today'', qs_value = ''4'', qs_color = ''from-orange-300 to-orange-400''\<rparr>,
     \<lparr>qs_label = ''Notes Created'', qs_value = ''8'', qs_color = ''from-yellow-300 to-yellow-400''\<rparr>,
     \<lparr>qs_label = ''Mood Score'', qs_value = ''U+1F60A'', qs_color = ''from-pink-300 to-pink-400''\<rparr>]"

text \<open>A quick action's \<open>action\<close> is \<open>() => onNavigate(target)\<close>; the record keeps the target.\<close>

record quick_action =
  qa_label :: string
  qa_target :: string
  qa_color :: string

definition quickActions :: "quick_action list" where
  "quickActions =
    [\<lparr>qa_label = ''Add New Task'', qa_target = ''todos'', qa_color = ''from-green-300 to-green-400''\<rparr>,
     \<lparr>qa_label = ''Start Timer'', qa_target = ''timer'', qa_color = ''from-orange-300 to-orange-400''\<rparr>,
     \<lparr>qa_label = ''Create Note'', qa_target = ''notes'', qa_color = ''from-yellow-300 to-yellow-400''\<rparr>,
     \<lparr>qa_label = ''Visit Pet'', qa_target = ''pet'', qa_color = ''from-red-300 to-pink-400''\<rparr>]"

text \<open>The cards of the render: each quick statistic shows its value over its label.\<close>

definition quick_stat_cards :: "(string \<times> string) list" where
  "quick_stat_cards = map (\<lambda>s. (qs_value s, qs_label s)) quickStats"

record focus_card =
  mainGoal :: string
  priorityTasks :: string
  timeGoal :: string

definition todaysFocus :: focus_card where
  "todaysFocus = \<lparr>mainGoal = ''Complete the quarterly project presentation'',
     priorityTasks = ''3 high-priority items'', timeGoal = ''6 pomodoro sessions''\<rparr>"

record insights_card =
  weekRate :: string
  weekDelta :: string
  focusSessions :: string
  dayStreak :: string
  analyticsButtons :: "(string \<times> string) list"

definition productivityInsights :: insights_card where
  "productivityInsights = \<lparr>weekRate = ''90%'', weekDelta = ''U+2197 +12%'', focusSessions = ''23'',
     dayStreak = ''5'',
     analyticsButtons = [(''View Analytics U+2192'', ''stats''), (''Full Analytics Dashboard'', ''stats'')]\<rparr>"

text \<open>The buttons of the screen and the tab each one passes to \<open>onNavigate\<close>.\<close>

datatype dashboard_click = QuickActionClick nat | AnalyticsClick nat

fun dashboard_onNavigate :: "dashboard_click \<Rightarrow> string option" where
  "dashboard_onNavigate (QuickActionClick i) =
     (if i < length quickActions then Some (qa_target (quickActions ! i)) else None)"
| "dashboard_onNavigate (AnalyticsClick i) =
     (if i < length (analyticsButtons productivityInsights)
      then Some (snd (analyticsButtons productivityInsights ! i)) else None)"

definition dashboard_targets :: "string list" where
  "dashboard_targets = map qa_target quickActions @ map snd (analyticsButtons productivityInsights)"

section \<open>Properties\<close>

text \<open>The six buttons open exactly the tabs of \<^const>\<open>dashboard_targets\<close>.\<close>

lemma dashboard_targets_set: "set dashboard_targets = {''todos'', ''timer'', ''notes'', ''pet'', ''stats''}"
  by (simp add: dashboard_targets_def quickActions_def productivityInsights_def insert_commute)

lemma dashboard_onNavigate_target:
  "dashboard_onNavigate c = Some t \<Longrightarrow> t \<in> set dashboard_targets"
  by (cases c) (auto simp: dashboard_targets_def split: if_splits)

lemma dashboard_quick_actions:
  "map (\<lambda>i. dashboard_onNavigate (QuickActionClick i)) [0..<4] =
     [Some ''todos'', Some ''timer'', Some ''notes'', Some ''pet'']"
  by (simp add: quickActions_def upt_rec)

text \<open>The literals of the insights card are the numbers the analytics page derives from its
  own initial state: the completion rate \<open>Math.round(47 / 52 * 100) = 90\<close>, 23 focus
  sessions and a 5-day streak; the quick statistics, in contrast, are unrelated to the state
  of any other screen.\<close>

lemma dashboard_insights_agree:
  "weekRate productivityInsights = js_int_string (the (completionRate statistics_init)) @ ''%'' \<and>
   focusSessions productivityInsights = js_int_string (ps_pomodoroSessions (stats statistics_init)) \<and>
   dayStreak productivityInsights = js_int_string (ps_currentStreak (stats statistics_init))"
proof -
  have c: "completionRate statistics_init = Some 90"
    using statistics_overview_numbers by simp
  have s: "ps_pomodoroSessions (stats statistics_init) = 23" "ps_currentStreak (stats statistics_init) = 5"
    by (simp_all add: statistics_init_def)
  have j: "js_int_string 90 = ''90''" "js_int_string 23 = ''23''" "js_int_string 5 = ''5''"
    by code_simp+
  show ?thesis using c s j by (simp add: productivityInsights_def)
qed

end
