(* ===== verification/App.thy ===== *)
theory App
  imports PetShop Pomodoro MoodLog StickyNotes WhiteNoise Calendar Mascot Theme Statistics AuthForms Dashboard
begin

text \<open>
  The application shell: \<open>src/src/App.tsx\<close> (\<open>App\<close>, \<open>AuthWrapper\<close>, \<open>MainApp\<close>),
  \<open>src/src/components/Sidebar.tsx\<close>, \<open>src/src/components/Dashboard.tsx\<close> and the two
  forms \<open>LoginPage.tsx\<close> and \<open>SignupPage.tsx\<close>. The \<open>AuthProvider\<close> the shell imports is
  not part of the repository: its \<open>user\<close> is an input of the model and its \<open>login\<close> and
  \<open>signup\<close> are the requests the forms emit (\<open>auth_request\<close>).

  \<open>MainApp\<close> keeps the active tab and renders one screen for it (\<open>renderContent\<close>).
  When the tab changes to a screen of another component type, React unmounts the old
  screen and mounts the new one with its initial hooks (\<open>mount\<close>); a tab that renders
  the same component type keeps the mounted state. The screens' own events are those of
  the component theories, lifted to \<open>app_step\<close>; a handler that throws leaves the state
  as it was. The floating mascot and the theme live above the screens and survive tab
  switches; the whole \<open>MainApp\<close> is unmounted when the user logs out.
\<close>

section \<open>Screens and tab routing\<close>

datatype view = V_Dashboard | V_Todos | V_Calendar | V_Notes | V_Timer | V_Pet | V_Mood | V_Music
  | V_Stats | V_Settings

definition renderContent :: "string \<Rightarrow> view" where
  "renderContent t =
     (if t = ''dashboard'' then V_Dashboard else if t = ''todos'' then V_Todos
      else if t = ''calendar'' then V_Calendar else if t = ''notes'' then V_Notes
      else if t = ''timer'' then V_Timer else if t = ''pet'' then V_Pet
      else if t = ''mood'' then V_Mood else if t = ''music'' then V_Music
      else if t = ''stats'' then V_Stats else if t = ''settings'' then V_Settings
      else V_Dashboard)"

datatype screen =
    S_Dashboard
  | S_Todos todo_state
  | S_Calendar calendar_state
  | S_Notes sticky_state
  | S_Timer timer
  | S_Pet pet_view
  | S_Mood mood_state
  | S_Music mixer
  | S_Stats statistics_view
  | S_Settings settings_state

fun view_of :: "screen \<Rightarrow> view" where
  "view_of S_Dashboard = V_Dashboard"
| "view_of (S_Todos _) = V_Todos"
| "view_of (S_Calendar _) = V_Calendar"
| "view_of (S_Notes _) = V_Notes"
| "view_of (S_Timer _) = V_Timer"
| "view_of (S_Pet _) = V_Pet"
| "view_of (S_Mood _) = V_Mood"
| "view_of (S_Music _) = V_Music"
| "view_of (S_Stats _) = V_Stats"
| "view_of (S_Settings _) = V_Settings"

text \<open>The initial hooks of the component a view renders; \<open>today\<close> is \<open>new Date()\<close>.\<close>

fun mount :: "civil \<Rightarrow> view \<Rightarrow> screen" where
  "mount today V_Dashboard = S_Dashboard"
| "mount today V_Todos = S_Todos todo_init"
| "mount today V_Calendar = S_Calendar (calendar_init today)"
| "mount today V_Notes = S_Notes sticky_init"
| "mount today V_Timer = S_Timer timer_init"
| "mount today V_Pet = S_Pet pet_init"
| "mount today V_Mood = S_Mood mood_init"
| "mount today V_Music = S_Music mixer_init"
| "mount today V_Stats = S_Stats statistics_init"
| "mount today V_Settings = S_Settings settings_init"

record main_app =
  app_activeTab :: string
  app_screen :: screen
  floatingMascot :: mascot_state

definition main_init :: main_app where
  "main_init = \<lparr>app_activeTab = ''dashboard'', app_screen = S_Dashboard, floatingMascot = mascot_init\<rparr>"

definition setActiveTab :: "civil \<Rightarrow> string \<Rightarrow> main_app \<Rightarrow> main_app" where
  "setActiveTab today t a =
     (let v = renderContent t in
      a\<lparr>app_activeTab := t,
        app_screen := (if v = view_of (app_screen a) then app_screen a else mount today v)\<rparr>)"

definition navigationItems :: "(string \<times> string) list" where
  "navigationItems =
    [(''dashboard'', ''Home''), (''todos'', ''To-Do''), (''calendar'', ''Calendar''), (''notes'', ''Notes''),
     (''timer'', ''Timer''), (''pet'', ''Pet''), (''mood'', ''Mood''), (''music'', ''Music''),
     (''stats'', ''Analytics''), (''settings'', ''Settings'')]"


text \<open>The sidebar: the greeting with the provider's user name, and one button per navigation
  item, highlighted when it is the active tab (its click is \<open>App.nav_sidebar\<close>).\<close>

definition sidebar_greeting :: "string option \<Rightarrow> string" where
  "sidebar_greeting u = ''Hello, '' @ (case u of None \<Rightarrow> ''undefined'' | Some n \<Rightarrow> n) @ ''! U+1F44B''"

definition sidebar_buttons :: "string \<Rightarrow> (string \<times> bool) list" where
  "sidebar_buttons tab = map (\<lambda>(i, label). (label, tab = i)) navigationItems"

text \<open>The mascots of the shell: the floating one of \<open>MainApp\<close>, the sidebar's and the
  forms'. Only the first names a key of \<open>petInfo\<close>.\<close>

definition shell_mascots :: "(string \<times> pet_mood \<times> pet_size \<times> bool) list" where
  "shell_mascots = [(''luna'', Happy, Sm, True), (''owl'', Working, Sm, False),
     (''cat'', Happy, Md, False), (''bunny'', Excited, Md, False)]"

section \<open>The running application\<close>

text \<open>The events a mounted screen offers, as a step relation of \<open>MainApp\<close>.\<close>

inductive app_step :: "civil \<Rightarrow> int \<Rightarrow> main_app \<Rightarrow> main_app \<Rightarrow> bool" for today tz where
  nav_sidebar: "t \<in> set (map fst navigationItems) \<Longrightarrow> app_step today tz a (setActiveTab today t a)"
| nav_dashboard: "app_screen a = S_Dashboard \<Longrightarrow> t \<in> set dashboard_targets \<Longrightarrow>
    app_step today tz a (setActiveTab today t a)"
| mascot_interval: "app_step today tz a (a\<lparr>floatingMascot := mascot_tick (floatingMascot a)\<rparr>)"
| in_todos: "app_screen a = S_Todos s \<Longrightarrow> app_step today tz a (a\<lparr>app_screen := S_Todos (todo_step e s)\<rparr>)"
| in_calendar_nav: "app_screen a = S_Calendar s \<Longrightarrow>
    app_step today tz a (a\<lparr>app_screen := S_Calendar (navigateMonth d s)\<rparr>)"
| in_calendar_select: "app_screen a = S_Calendar s \<Longrightarrow>
    c \<in> set (map cell_date (filter (\<lambda>x. cell_kind x = CurMonth) (calendar_days tz today defaultTodos s))) \<Longrightarrow>
    app_step today tz a (a\<lparr>app_screen := S_Calendar (selectDate c s)\<rparr>)"
| in_notes: "app_screen a = S_Notes s \<Longrightarrow> sticky_offered e \<Longrightarrow>
    app_step today tz a (a\<lparr>app_screen := S_Notes (sticky_handler e s)\<rparr>)"
| in_timer: "app_screen a = S_Timer s \<Longrightarrow>
    app_step today tz a (a\<lparr>app_screen := S_Timer (case timer_step s e of Inl _ \<Rightarrow> s | Inr s' \<Rightarrow> s')\<rparr>)"
| in_pet: "app_screen a = S_Pet v \<Longrightarrow> pet_step v v' \<Longrightarrow> app_step today tz a (a\<lparr>app_screen := S_Pet v'\<rparr>)"
| in_mood: "app_screen a = S_Mood s \<Longrightarrow> app_step today tz a (a\<lparr>app_screen := S_Mood (mood_step s e)\<rparr>)"
| in_music: "app_screen a = S_Music m \<Longrightarrow> mixer_offered m e \<Longrightarrow>
    app_step today tz a (a\<lparr>app_screen := S_Music (mixer_handler e m)\<rparr>)"
| in_stats: "app_screen a = S_Stats v \<Longrightarrow> app_step today tz a (a\<lparr>app_screen := S_Stats (statistics_step e v)\<rparr>)"

inductive app_reach :: "civil \<Rightarrow> int \<Rightarrow> main_app \<Rightarrow> bool" for today tz where
  app_reach_init: "app_reach today tz main_init"
| app_reach_step: "app_reach today tz a \<Longrightarrow> app_step today tz a a' \<Longrightarrow> app_reach today tz a'"

text \<open>The state of a mounted screen is one its component can reach on its own.\<close>

fun screen_ok :: "screen \<Rightarrow> bool" where
  "screen_ok (S_Todos s) = todo_reach s"
| "screen_ok (S_Notes s) = sticky_reach s"
| "screen_ok (S_Timer t) = timer_reach t"
| "screen_ok (S_Pet v) = pet_reach v"
| "screen_ok (S_Mood s) = mood_reach s"
| "screen_ok (S_Music m) = mixer_reach m"
| "screen_ok _ = True"

text \<open>The invariant of each component, read on the mounted screen.\<close>

fun screen_inv :: "screen \<Rightarrow> bool" where
  "screen_inv (S_Todos s) = todo_inv s"
| "screen_inv (S_Notes s) = sticky_inv s"
| "screen_inv (S_Timer t) = timer_inv t"
| "screen_inv (S_Pet v) = pet_inv v"
| "screen_inv (S_Mood s) = mood_inv s"
| "screen_inv (S_Music m) = mixer_inv m"
| "screen_inv _ = True"

section \<open>Authentication gate\<close>

datatype auth_mode = LoginMode | SignupMode

record app_root =
  themeCtx :: theme_ctx
  user :: "string option"
  authMode :: auth_mode
  mainApp :: "main_app option"

definition app_init :: "string option \<Rightarrow> app_root" where
  "app_init saved = \<lparr>themeCtx = theme_mount saved, user = None, authMode = LoginMode, mainApp = None\<rparr>"

text \<open>\<open>AuthWrapper\<close>: a change of the provider's user mounts \<open>MainApp\<close> afresh (on the
  dashboard) or unmounts it; the mode of the login/signup switch is kept.\<close>

definition user_changed :: "string option \<Rightarrow> app_root \<Rightarrow> app_root" where
  "user_changed u r =
     (case u of
        None \<Rightarrow> r\<lparr>user := None, mainApp := None\<rparr>
      | Some n \<Rightarrow> r\<lparr>user := Some n,
          mainApp := (case mainApp r of Some m \<Rightarrow> Some m | None \<Rightarrow> Some main_init)\<rparr>)"

definition switch_auth_mode :: "auth_mode \<Rightarrow> app_root \<Rightarrow> app_root" where
  "switch_auth_mode md r = r\<lparr>authMode := md\<rparr>"

text \<open>The events of the whole application: the provider's user changing, the
  login/signup switch while logged out, the events of \<open>MainApp\<close>, and the settings page,
  whose theme buttons reach the provider above \<open>MainApp\<close>.\<close>

inductive root_step :: "civil \<Rightarrow> int \<Rightarrow> app_root \<Rightarrow> app_root \<Rightarrow> bool" for today tz where
  auth_user: "root_step today tz r (user_changed u r)"
| auth_switch: "mainApp r = None \<Longrightarrow> root_step today tz r (switch_auth_mode md r)"
| in_main: "mainApp r = Some a \<Longrightarrow> app_step today tz a a' \<Longrightarrow> root_step today tz r (r\<lparr>mainApp := Some a'\<rparr>)"
| in_settings: "mainApp r = Some a \<Longrightarrow> app_screen a = S_Settings s \<Longrightarrow>
    settings_step e (themeCtx r, s) = (c', s') \<Longrightarrow>
    root_step today tz r (r\<lparr>themeCtx := c', mainApp := Some (a\<lparr>app_screen := S_Settings s'\<rparr>)\<rparr>)"

section \<open>Properties\<close>

lemma view_of_mount [simp]: "view_of (mount today v) = v"
  by (cases v) simp_all

lemma setActiveTab_view: "view_of (app_screen (setActiveTab today t a)) = renderContent t"
  by (simp add: setActiveTab_def Let_def)

lemma app_step_view:
  "app_step today tz a a' \<Longrightarrow> view_of (app_screen a) = renderContent (app_activeTab a) \<Longrightarrow>
   view_of (app_screen a') = renderContent (app_activeTab a')"
  by (induction rule: app_step.induct) (simp_all add: setActiveTab_view setActiveTab_def Let_def)

text \<open>A click on a dashboard button is a navigation step of the shell.\<close>

lemma dashboard_click_step:
  "app_screen a = S_Dashboard \<Longrightarrow> dashboard_onNavigate c = Some t \<Longrightarrow>
   app_step today tz a (setActiveTab today t a)"
  by (rule nav_dashboard) (simp_all add: dashboard_onNavigate_target)

lemma screen_ok_mount: "screen_ok (mount today v)"
  by (cases v) (simp_all add: todo_reach_init sticky_reach_init timer_reach.init pet_reach.init
      mood_reach.init mixer_reach_init)

lemma app_step_screen_ok: "app_step today tz a a' \<Longrightarrow> screen_ok (app_screen a) \<Longrightarrow> screen_ok (app_screen a')"
proof (induction rule: app_step.induct)
  case (in_timer a s e)
  then show ?case by (auto intro: timer_reach.step split: sum.split)
qed (auto simp: setActiveTab_def Let_def screen_ok_mount intro: todo_reach_step sticky_reach_step
      pet_reach.step mood_reach.step mixer_reach_step)

lemma app_reach_consistent:
  "app_reach today tz a \<Longrightarrow> view_of (app_screen a) = renderContent (app_activeTab a) \<and> screen_ok (app_screen a)"
proof (induction rule: app_reach.induct)
  case app_reach_init
  show ?case by (simp add: main_init_def renderContent_def)
next
  case (app_reach_step a a')
  then show ?case using app_step_view app_step_screen_ok by blast
qed

text \<open>C29: the pet screen loses all its progress when the user visits another tab and comes back: the purchases, coins and equipped items are those of a freshly mounted Pet component again.\<close>

lemma pet_progress_lost_on_return:
  assumes "app_screen a = S_Pet v" "renderContent t \<noteq> V_Pet"
  shows "app_screen (setActiveTab today ''pet'' (setActiveTab today t a)) = S_Pet pet_init"
  using assms by (simp add: setActiveTab_def Let_def renderContent_def)

lemma pet_progress_lost_on_return_witness:
  "coins (petData (pet_init\<lparr>petData := buyWardrobeItem (wardrobeItems ! 0) (petData pet_init)\<rparr>)) = 145 \<and>
   app_screen (setActiveTab (2025, 9, 1) ''pet'' (setActiveTab (2025, 9, 1) ''todos''
     (main_init\<lparr>app_screen := S_Pet (pet_init\<lparr>petData := buyWardrobeItem (wardrobeItems ! 0) (petData pet_init)\<rparr>)\<rparr>)))
   = S_Pet pet_init \<and> coins (petData pet_init) = 245"
proof -
  have "app_screen (setActiveTab (2025, 9, 1) ''pet'' (setActiveTab (2025, 9, 1) ''todos''
     (main_init\<lparr>app_screen := S_Pet (pet_init\<lparr>petData := buyWardrobeItem (wardrobeItems ! 0) (petData pet_init)\<rparr>)\<rparr>)))
   = S_Pet pet_init"
    by (rule pet_progress_lost_on_return) (simp_all add: renderContent_def)
  moreover have "coins (petData (pet_init\<lparr>petData := buyWardrobeItem (wardrobeItems ! 0) (petData pet_init)\<rparr>)) = 145"
    by (simp add: pet_init_def initial_pet_data_def buyWardrobeItem_def wardrobeItems_def)
  moreover have "coins (petData pet_init) = 245" by (simp add: pet_init_def initial_pet_data_def)
  ultimately show ?thesis by simp
qed

text \<open>Composition: every screen the shell can show satisfies its component's invariant,
  whatever sequence of navigation and in-screen events led there (the shop invariant of
  the pet, the timer, mood, to-do, corkboard and mixer invariants).\<close>

lemma screen_inv_mount: "screen_inv (mount today v)"
  by (cases v) (simp_all add: todo_inv_init sticky_inv_init timer_inv_init pet_inv_init mood_inv_init
      mixer_inv_init)

lemma app_step_screen_inv: "app_step today tz a a' \<Longrightarrow> screen_inv (app_screen a) \<Longrightarrow> screen_inv (app_screen a')"
proof (induction rule: app_step.induct)
  case (in_timer a s e)
  then show ?case by (auto intro: timer_step_inv split: sum.split)
qed (auto simp: setActiveTab_def Let_def screen_inv_mount intro: todo_inv_step sticky_inv_step
      pet_step_inv mood_step_inv mixer_inv_step)

lemma app_reach_screen_inv: "app_reach today tz a \<Longrightarrow> screen_inv (app_screen a)"
proof (induction rule: app_reach.induct)
  case app_reach_init
  show ?case by (simp add: main_init_def)
next
  case (app_reach_step a a')
  then show ?case using app_step_screen_inv by blast
qed

text \<open>C8: the shell is well typed in every reachable state: the component mounted is the one
  the active tab renders, and its state satisfies that component's invariant (the shop, timer,
  mood, to-do, corkboard and mixer invariants), whatever navigation and in-screen events led
  there.\<close>

theorem app_reach_typed:
  "app_reach today tz a \<Longrightarrow>
   view_of (app_screen a) = renderContent (app_activeTab a) \<and> screen_inv (app_screen a)"
  using app_reach_consistent app_reach_screen_inv by blast

theorem app_reach_typed_witness:
  "app_reach (2025, 8, 3) 0 (setActiveTab (2025, 8, 3) ''pet'' main_init) \<and>
   view_of (app_screen (setActiveTab (2025, 8, 3) ''pet'' main_init)) = V_Pet \<and>
   screen_inv (app_screen (setActiveTab (2025, 8, 3) ''pet'' main_init))"
proof -
  have r: "app_reach (2025, 8, 3) 0 (setActiveTab (2025, 8, 3) ''pet'' main_init)"
    by (rule app_reach_step [OF app_reach_init nav_sidebar]) (simp add: navigationItems_def)
  have "app_activeTab (setActiveTab (2025, 8, 3) ''pet'' main_init) = ''pet''"
    by (simp add: setActiveTab_def Let_def)
  then show ?thesis using r app_reach_typed [OF r] by (simp add: renderContent_def)
qed

text \<open>The active tab is always a navigation item, so exactly one sidebar button is
  highlighted in every reachable state of the shell.\<close>

lemma app_reach_tab_nav: "app_reach today tz a \<Longrightarrow> app_activeTab a \<in> set (map fst navigationItems)"
proof (induction rule: app_reach.induct)
  case app_reach_init
  show ?case by (simp add: main_init_def navigationItems_def)
next
  case (app_reach_step a a')
  have "set dashboard_targets \<subseteq> set (map fst navigationItems)"
    by (simp add: dashboard_targets_set navigationItems_def)
  with app_reach_step.hyps(2) app_reach_step.IH show ?case
    by (cases rule: app_step.cases) (auto simp: setActiveTab_def Let_def)
qed

lemma sidebar_one_highlighted:
  "app_reach today tz a \<Longrightarrow> length (filter snd (sidebar_buttons (app_activeTab a))) = 1"
proof -
  assume r: "app_reach today tz a"
  have "distinct (map fst navigationItems)" by (simp add: navigationItems_def)
  moreover have "app_activeTab a \<in> set (map fst navigationItems)" using r by (rule app_reach_tab_nav)
  ultimately show ?thesis
    by (simp add: sidebar_buttons_def filter_map comp_def split_def length_filter_conv_card
        distinct_map navigationItems_def) blast
qed

end
