(* ===== verification/Spec2Isabelle.thy ===== *)
theory Spec2Isabelle
  imports Prelude PetShop Pomodoro MoodLog StatsService Statistics TodoList StickyNotes WhiteNoise Mascot Calendar DateArith Theme AuthForms App
begin

text \<open>
  \<^bold>\<open>A verification development of Evora.\<close>

  Evora (\<open>src/src\<close>) is a React single-page productivity client: a to-do list, a
  calendar, sticky notes, a pomodoro timer, a mood logger, an ambient-sound mixer, a
  virtual pet with a coin-funded wardrobe shop and an analytics page, behind a login gate
  and a theme switcher. Nothing is persisted except the theme. The components share no
  state: each holds its own \<open>useState\<close> hooks, \<open>App.tsx\<close> mounts one of them at a time
  for the active tab, and the only service module, \<open>services/statsService.ts\<close>, keeps
  module-level mocks that no component imports. The development models every component
  as its own state machine together with what its render shows and offers, and the shell
  that mounts them; the cross-component "progression" rules of the specification (rewards
  for tasks, pomodoros and mood logs, one-time achievement unlocks, persistent coins) are
  checked against what the code does, and the differences are recorded as findings.

  \<^bold>\<open>Modelling conventions\<close> (theory \<open>Prelude\<close>). A component's hooks are a \<open>record\<close>;
  a handler is a total function on it; the clicks and inputs the render offers are an
  \<open>inductive\<close> step relation, or a step function over an event \<open>datatype\<close> with a predicate
  for what the render offers, and the reachable states (\<open>*_reach\<close>) are closed under it
  from the initial hooks, so that invariants are proved by rule induction. A React effect
  that reacts to a state change is applied right after the handler that caused it
  (\<open>timer_effect\<close>, the theme effects); document listeners are part of the state
  (\<open>StickyNotes\<close>). A thrown exception is a value \<open>Inl\<close> of \<^typ>\<open>js_error\<close>. JavaScript
  numbers that the code keeps integral are \<open>int\<close>, others \<open>rat\<close>; \<open>Math.round(a / b)\<close> is
  \<^const>\<open>js_round_div\<close> on the exact operands and \<open>%\<close> is \<^const>\<open>js_rem\<close>; values shown
  with \<open>toFixed(1)\<close> are kept as integer tenths (\<^const>\<open>js_fixed1\<close>); ISO dates are
  strings ordered lexicographically; \<open>findIndex\<close>, \<open>slice\<close>, a conditional \<open>map\<close> and
  \<open>trim\<close> are \<^const>\<open>find_index\<close>, \<^const>\<open>js_slice_from\<close>, \<^const>\<open>map_where\<close>,
  \<^const>\<open>js_trim\<close>; number printing is \<^const>\<open>js_int_string\<close>/\<^const>\<open>pad_start\<close> with
  the read-back \<^const>\<open>dec_value\<close>. A render is modelled as the value it shows (texts,
  highlighted buttons, chart data), with CSS classes kept as strings and a non-ASCII
  character of a literal written as its code point (\<open>U+1F60A\<close>). \<open>new Date()\<close>,
  \<open>Date.now()\<close>, \<open>Math.random()\<close>, the time-zone offset, \<open>toLocaleDateString\<close> and the
  browser's email check are parameters. A \<open>Date\<close> the calendar builds is a local civil date
  \<open>(year, month, day)\<close> and \<open>new Date(y, m, d)\<close> carries out-of-range months and days
  (\<open>Calendar.js_make_date\<close>, terminating by a measure on the day).

  \<^bold>\<open>Components, theories and results\<close> (claim ids C1-C40).
  \<^item> \<open>PetShop\<close> (\<open>components/Pet.tsx\<close>) over \<open>PixelPet\<close> (\<open>PixelPet.tsx\<close>: the catalogue,
    the caption and the sprite \<open>getPixelArt\<close> selects): \<open>PetData\<close> and the other hooks
    as \<open>pet_view\<close>, \<open>buyWardrobeItem\<close>, \<open>equipItem\<close>, \<open>changePetType\<close>, the shop rows,
    \<open>PetDisplay\<close> as \<open>petDisplay\<close> (equipped emoji, personality, activity), clicks
    as \<open>pet_step\<close>. The shop invariant on every reachable state (coins non-negative,
    wardrobe duplicate-free and within the catalogue, equipped items owned and in their slot,
    coins plus wardrobe value constant at 370), the purchase guards and their silent refusal,
    equipping as an exact toggle of one slot, coins never increase (C1-C7); on invariant states every equipped item
    is drawn with its emoji.
  \<^item> \<open>Pomodoro\<close> (\<open>PomodoroTimer.tsx\<close>): hooks as \<open>timer\<close>, the countdown effect and every
    handler as \<open>timer_step\<close>, the interval as a \<open>While_Combinator\<close> loop
    (\<open>interval_loop\<close>), the render (\<open>timer_render\<close>, the working pet's pixels) and the events
    it offers (\<open>timer_offered\<close>). The timer invariant, completion of a running work period
    after exactly its remaining ticks, session counting, happiness monotone and clamped,
    progress bounds, the \<open>MM:SS\<close> round trip, no offered event throws, the interval stops
    exactly when the time left is non-negative (C10-C17); and, for every state, the custom
    timer's defects: any period switch other than Set Custom Timer loads the preset's
    length, and Set Custom Timer makes the progress negative exactly when the custom minutes
    exceed the preset's (C18, C20).
  \<^item> \<open>MoodLog\<close> (\<open>MoodLogger.tsx\<close>): the history stays strictly sorted by date with moods
    in 1..5, logging sets today's mood and refines an update of the map from dates to
    (mood, note), the average emoji is in range, the render indexes emoji and labels within
    bounds (C21, C22, C25, C26).
  \<^item> \<open>StatsService\<close> (\<open>services/statsService.ts\<close>) and \<open>Statistics\<close> (\<open>Statistics.tsx\<close>):
    both mutable mocks as \<open>stats_store\<close> with all static methods; \<open>addDailyEntry\<close> keeps
    dates unique, achievements re-lockable, the completion rate undefined exactly without
    tasks and otherwise within 0..100 (C27, C30, C31); the
    analytics page's panels, cards, charts and achievement cards as values of its state, and
    their disagreement with its own chart and with the service.
  \<^item> \<open>TodoList\<close> (\<open>TodoList.tsx\<close>): tasks always have non-blank text, a check box flips
    one task, and tasks added in the same millisecond collide (C33-C35).
  \<^item> \<open>StickyNotes\<close> (\<open>StickyNotes.tsx\<close>): the render never throws on colours, a drag moves
    the grabbed note by the last pointer displacement and stops at mouse-up (C36, C37).
  \<^item> \<open>WhiteNoise\<close> (\<open>WhiteNoisePlayer.tsx\<close>): ids and volume ranges are kept (C38).
  \<^item> \<open>Mascot\<close> (\<open>Mascot.tsx\<close>): the pet tip replaces exactly facts 3 and 6 of the
    rotation (C39); a mascot of a type missing from \<open>petInfo\<close> (the login page's "cat")
    throws exactly when facts are shown and the rotation reaches the pet tip, and never with
    facts hidden (C40).
  \<^item> \<open>Calendar\<close> (\<open>CalendarView.tsx\<close>) and \<open>DateArith\<close>: the grid, navigation, month
    title and task sidebar; the leading cells come from the month two months back (C9).
    \<open>toISOString\<close> is the date of the UTC instant of the cell's local midnight, the local
    date carried by \<open>floor(-tz / 1440)\<close> days; \<open>DateArith\<close> proves that east of UTC
    it is the valid date one day number earlier, also on the first of a month or year, and
    the cell's own date elsewhere (C19). \<open>DateArith\<close> relates the
    primitives to a reference day count of the proleptic Gregorian calendar: the carry of
    \<open>new Date(y, m, d)\<close> is equivalent to "the valid date \<open>d - 1\<close> days after the first of
    the month" (C32, by computation induction on \<open>js_make_date\<close> and injectivity of the day
    number), and Sakamoto's \<open>getDay\<close> is the day number modulo 7 (C24).
  \<^item> \<open>Theme\<close> (\<open>ThemeProvider.tsx\<close>, \<open>Settings.tsx\<close>): the saved theme survives a reload,
    an unknown saved theme is accepted unchecked; the settings page's theme and mascot
    buttons, and four quick actions without handlers.
  \<^item> \<open>AuthForms\<close> (\<open>LoginPage.tsx\<close>, \<open>SignupPage.tsx\<close>): the form events with the
    browser's required-field validation and the disabled submit, and sessions of events
    (\<open>login_run\<close>, \<open>signup_run\<close>): every sign-up call of a session comes from a submit
    click while not loading, with the form holding the values sent and a confirmation equal
    to the password (C23); "Remember me" has no effect (C28).
  \<^item> \<open>Dashboard\<close> (\<open>Dashboard.tsx\<close>): the stateless home screen and the tab each of its six
    buttons opens; its insight literals equal the analytics page's own numbers.
  \<^item> \<open>App\<close> (\<open>App.tsx\<close>, \<open>Sidebar.tsx\<close>): tab routing with React's remount, every screen's
    events lifted to \<open>app_step\<close>, the sidebar, the auth gate. In every reachable shell state
    the mounted component is the one the active tab renders and satisfies its own
    invariant (C8), exactly one sidebar button is highlighted, and returning to the pet tab
    discards all purchases (C29).

  \<^bold>\<open>Bounds and fuel.\<close> No definition uses fuel: every loop of the code is a
  \<open>map\<close>/\<open>filter\<close>/\<open>reduce\<close> over a finite list, a structural recursion here, the date
  carry of \<open>js_make_date\<close>, whose termination is proved by a measure, or the timer's
  interval, kept as \<open>while_option\<close> with the result \<open>None\<close> when it never stops (C17
  characterises both cases). The timer's interval is one \<open>Tick\<close> event per second and the
  mascot's one \<open>mascot_tick\<close> per eight seconds; the liveness results give the exact number
  of events needed.

  \<^bold>\<open>Not modelled.\<close> The \<open>AuthProvider\<close> (imported but not in the repository: its user
  is an input and its calls are the requests the forms emit), the \<open>components/ui\<close>
  widgets and the chart library (third-party presentation: a chart is modelled as its data),
  CSS, icons, audio output, \<open>toLocaleDateString\<close> (a parameter), and the purely decorative
  JSX of each page (headings and static paragraphs).
\<close>

end
